theory Spec2Isabelle
  imports
    Main
    "HOL-Library.Char_ord"
    "HOL-Library.List_Lexorder"
    "HOL-Library.Product_Lexorder"
    "HOL-Library.Multiset"
    "HOL-Library.Sublist"
begin
section \<open>Python strings\<close>

text \<open>
  Python \<open>str\<close> values are modelled as \<open>string\<close>. Comparison is the lexicographic
  order on character codes, as Python compares strings. Case mapping (\<open>lower\<close>,
  \<open>title\<close>) is the one Python applies to ASCII letters; characters outside the ASCII
  letters are left as they are.
\<close>

definition ascii_uppercase :: string where
  "ascii_uppercase = ''ABCDEFGHIJKLMNOPQRSTUVWXYZ''"

definition ascii_lowercase :: string where
  "ascii_lowercase = ''abcdefghijklmnopqrstuvwxyz''"

definition char_lower :: "char \<Rightarrow> char" where
  "char_lower c = (case map_of (zip ascii_uppercase ascii_lowercase) c of Some d \<Rightarrow> d | None \<Rightarrow> c)"

definition char_upper :: "char \<Rightarrow> char" where
  "char_upper c = (case map_of (zip ascii_lowercase ascii_uppercase) c of Some d \<Rightarrow> d | None \<Rightarrow> c)"

definition is_cased :: "char \<Rightarrow> bool" where
  "is_cased c = (c \<in> set (ascii_uppercase @ ascii_lowercase))"

text \<open>\<open>str.lower()\<close>.\<close>

definition lower :: "string \<Rightarrow> string" where
  "lower s = map char_lower s"

text \<open>
  \<open>str.title()\<close>: a character that follows a cased character is lowercased, any other
  character is uppercased; digits and punctuation are uncased, so a letter after them
  starts a new word.
\<close>

fun title_from :: "bool \<Rightarrow> string \<Rightarrow> string" where
  "title_from previous_is_cased [] = []"
| "title_from previous_is_cased (c # cs) =
     (if previous_is_cased then char_lower c else char_upper c) # title_from (is_cased c) cs"

definition title :: "string \<Rightarrow> string" where
  "title s = title_from False s"

text \<open>\<open>s.startswith(p)\<close> and \<open>s.endswith(p)\<close>.\<close>

definition startswith :: "string \<Rightarrow> string \<Rightarrow> bool" where
  "startswith s p = (take (length p) s = p)"

definition endswith :: "string \<Rightarrow> string \<Rightarrow> bool" where
  "endswith s p = (length p \<le> length s \<and> drop (length s - length p) s = p)"

text \<open>
  \<open>s.replace(old, new)\<close>: every occurrence of \<open>old\<close>, found from the left without
  overlap, becomes \<open>new\<close>. With an empty \<open>old\<close> Python puts \<open>new\<close> before every
  character and at the end.
\<close>

function replace_from :: "string \<Rightarrow> string \<Rightarrow> string \<Rightarrow> string" where
  "replace_from [] old new = []"
| "replace_from (c # cs) old new =
     (if old \<noteq> [] \<and> startswith (c # cs) old
      then new @ replace_from (drop (length old) (c # cs)) old new
      else c # replace_from cs old new)"
  by pat_completeness auto
termination
  by (relation "measure (\<lambda>(s, old, new). length s)") auto

definition replace :: "string \<Rightarrow> string \<Rightarrow> string \<Rightarrow> string" where
  "replace s old new =
     (if old = [] then new @ concat (map (\<lambda>c. c # new) s) else replace_from s old new)"

text \<open>
  \<open>str.strip()\<close> removes leading and trailing whitespace; these are the ASCII
  characters for which \<open>str.isspace()\<close> holds.
\<close>

definition whitespace :: string where
  "whitespace = [CHR 0x09, CHR 0x0A, CHR 0x0B, CHR 0x0C, CHR 0x0D,
                 CHR 0x1C, CHR 0x1D, CHR 0x1E, CHR 0x1F, CHR 0x20]"

definition is_space :: "char \<Rightarrow> bool" where
  "is_space c = (c \<in> set whitespace)"

definition lstrip :: "string \<Rightarrow> string" where
  "lstrip s = dropWhile is_space s"

definition rstrip :: "string \<Rightarrow> string" where
  "rstrip s = rev (dropWhile is_space (rev s))"

definition strip :: "string \<Rightarrow> string" where
  "strip s = rstrip (lstrip s)"

section \<open>The generated tree and its tables of contents\<close>

text \<open>
  A TOC entry is the dictionary \<open>{"name": ..., "filename": ...}\<close>. A file holds either
  bytes or, for a file written by \<open>dump_yaml\<close>, the dumped list of entries (the YAML
  serialiser is an external collaborator). A directory lists its children in the order
  in which \<open>iterdir\<close> enumerates them.
\<close>

record toc_entry =
  name :: string
  filename :: string

datatype content = Bytes string | Yaml "toc_entry list"

datatype fnode = File string content | Dir string "fnode list"

fun node_name :: "fnode \<Rightarrow> string" where
  "node_name (File n c) = n"
| "node_name (Dir n ch) = n"

fun is_file :: "fnode \<Rightarrow> bool" where
  "is_file (File n c) = True"
| "is_file (Dir n ch) = False"

fun is_dir :: "fnode \<Rightarrow> bool" where
  "is_dir (File n c) = False"
| "is_dir (Dir n ch) = True"

subsection \<open>\<open>format_title\<close> (utils.py)\<close>

definition format_title :: "string \<Rightarrow> string" where
  "format_title nm =
     (if nm = [] then nm
      else if lower nm = ''index'' then ''Index''
      else title (replace (replace nm ''-'' '' '') ''_'' '' ''))"

subsection \<open>\<open>IGGenerator._generate_toc_for_directory\<close>\<close>

definition file_sort_key :: "fnode \<Rightarrow> nat \<times> string" where
  "file_sort_key f = (if lower (node_name f) = ''index.page.md'' then 0 else 1, node_name f)"

definition file_entry :: "fnode \<Rightarrow> toc_entry" where
  "file_entry f =
     (let stem = replace (node_name f) ''.page.md'' '''';
          display = (if lower stem = ''index'' then ''Index''
                     else title (replace stem ''-'' '' ''))
      in \<lparr>name = display, filename = node_name f\<rparr>)"

definition dir_entry :: "fnode \<Rightarrow> toc_entry" where
  "dir_entry d =
     (let dn = node_name d;
          display = (if lower dn = ''artifacts'' then ''Artifacts''
                     else title (replace dn ''-'' '' ''))
      in \<lparr>name = display, filename = dn\<rparr>)"

definition toc_candidates :: "fnode list \<Rightarrow> fnode list" where
  "toc_candidates items =
     filter (\<lambda>i. node_name i \<noteq> ''toc.yaml'' \<and> node_name i \<noteq> ''pagetemplates'') items"

definition toc_files :: "fnode list \<Rightarrow> fnode list" where
  "toc_files items =
     sort_key file_sort_key
       (filter (\<lambda>i. is_file i \<and> endswith (node_name i) ''.page.md'') (toc_candidates items))"

definition toc_dirs :: "fnode list \<Rightarrow> fnode list" where
  "toc_dirs items =
     sort_key node_name
       (filter (\<lambda>i. \<not> (is_file i \<and> endswith (node_name i) ''.page.md'') \<and> is_dir i
                  \<and> \<not> startswith (node_name i) ''.'' \<and> \<not> startswith (node_name i) ''_'')
          (toc_candidates items))"

definition generate_toc_for_directory :: "fnode list \<Rightarrow> toc_entry list" where
  "generate_toc_for_directory items =
     map file_entry (toc_files items) @ map dir_entry (toc_dirs items)"

text \<open>
  The ordering of a TOC as the specification states it: when an entry for an index page
  exists it is the first entry, and the other entries are in strictly ascending order of
  their file names.
\<close>

definition is_index_name :: "string \<Rightarrow> bool" where
  "is_index_name n = (lower n = ''index.page.md'')"

definition index_first_then_alphabetical :: "toc_entry list \<Rightarrow> bool" where
  "index_first_then_alphabetical toc =
     (let fs = map filename toc
      in (list_ex is_index_name fs \<longrightarrow> is_index_name (hd fs))
         \<and> sorted_wrt (<) (if list_ex is_index_name fs then tl fs else fs))"

section \<open>Template placeholders\<close>

text \<open>
  \<open>IGGenerator._resolve_template_variables\<close> calls \<open>re.sub\<close> with the pattern
  \<^verbatim>\<open>\{\{ig-var:\s*([^}]+)\s*\}\}\<close>. The pattern is a sequence of five atoms: the literal
  \<^verbatim>\<open>{{ig-var:\<close>, a greedy run of whitespace, group 1 (a greedy, non-empty run of
  characters other than the closing brace), a greedy run of whitespace and the literal
  \<^verbatim>\<open>}}\<close>. A greedy atom first takes as many characters as it can and gives them
  back one at a time while the rest of the pattern fails, as the backtracking matcher of
  \<open>re\<close> does. A match is reported as the text of group 1 and the number of characters
  matched.
\<close>

datatype atom = Lit string | Spaces | Name

fun first_success :: "('a \<Rightarrow> 'b option) \<Rightarrow> 'a list \<Rightarrow> 'b option" where
  "first_success f [] = None"
| "first_success f (k # ks) = (case f k of Some r \<Rightarrow> Some r | None \<Rightarrow> first_success f ks)"

primrec match_re :: "atom list \<Rightarrow> string \<Rightarrow> (string \<times> nat) option" where
  "match_re [] = (\<lambda>s. Some ([], 0))"
| "match_re (a # as) = (\<lambda>s.
     case a of
       Lit l \<Rightarrow>
         (if startswith s l
          then map_option (\<lambda>(g, n). (g, length l + n)) (match_re as (drop (length l) s))
          else None)
     | Spaces \<Rightarrow>
         first_success
           (\<lambda>k. map_option (\<lambda>(g, n). (g, k + n)) (match_re as (drop k s)))
           (rev [0 ..< Suc (length (takeWhile is_space s))])
     | Name \<Rightarrow>
         first_success
           (\<lambda>k. map_option (\<lambda>(g, n). (take k s, k + n)) (match_re as (drop k s)))
           (rev [1 ..< Suc (length (takeWhile (\<lambda>c. c \<noteq> CHR ''}'') s))]))"

definition ig_var_pattern :: "atom list" where
  "ig_var_pattern = [Lit ''{{ig-var:'', Spaces, Name, Spaces, Lit ''}}'']"

text \<open>
  \<open>re.sub(pattern, _replace, template)\<close>: the text is scanned from the left; at a
  position where the pattern matches, the match is replaced by
  \<open>variables.get(m.group(1).strip(), m.group(0))\<close> and the scan goes on after the match;
  elsewhere the character is copied. The pattern never matches the empty string. The
  variables are a \<open>Dict[str, str]\<close>.
\<close>

function sub_ig_var :: "(string \<rightharpoonup> string) \<Rightarrow> string \<Rightarrow> string" where
  "sub_ig_var variables [] = []"
| "sub_ig_var variables (c # cs) =
     (case match_re ig_var_pattern (c # cs) of
        Some (group1, n) \<Rightarrow>
          (if n = 0 then c # sub_ig_var variables cs
           else (case variables (strip group1) of
                   Some v \<Rightarrow> v
                 | None \<Rightarrow> take n (c # cs)) @ sub_ig_var variables (drop n (c # cs)))
      | None \<Rightarrow> c # sub_ig_var variables cs)"
  by pat_completeness auto
termination
  by (relation "measure (\<lambda>(variables, s). length s)") auto

definition resolve_template_variables :: "string \<Rightarrow> (string \<rightharpoonup> string) \<Rightarrow> string" where
  "resolve_template_variables template variables = sub_ig_var variables template"

text \<open>
  The placeholder as the specification words it: the text \<^verbatim>\<open>{{ig-var:\<close>, a non-empty
  name (surrounding whitespace included) that runs up to the next closing brace, and
  \<^verbatim>\<open>}}\<close> right after it. \<open>placeholder_at s\<close> says that \<open>s\<close> begins with a
  placeholder.
\<close>

definition placeholder_at :: "string \<Rightarrow> bool" where
  "placeholder_at s =
     (startswith s ''{{ig-var:'' \<and>
      (let r = drop (length ''{{ig-var:'') s;
           body = takeWhile (\<lambda>c. c \<noteq> CHR ''}'') r
       in body \<noteq> [] \<and> startswith (drop (length body) r) ''}}''))"

section \<open>FHIR resource files\<close>

text \<open>
  A value read by \<open>json.load\<close>. An object lists the items of the resulting dictionary
  (its keys are distinct). A file of \<open>resources/\<close> or \<open>examples/\<close> is its name and the
  value \<open>json.load\<close> returns for it, or \<open>None\<close> when opening or parsing it raises.
\<close>

datatype json =
    JNull
  | JBool bool
  | JNum int
  | JStr string
  | JArr "json list"
  | JObj "(string \<times> json) list"

record fhir_file =
  path_name :: string
  parsed :: "json option"

text \<open>Truth value of a Python object, as \<open>not x\<close> and \<open>if x\<close> test it.\<close>

fun truthy :: "json \<Rightarrow> bool" where
  "truthy JNull = False"
| "truthy (JBool b) = b"
| "truthy (JNum n) = (n \<noteq> 0)"
| "truthy (JStr s) = (s \<noteq> [])"
| "truthy (JArr xs) = (xs \<noteq> [])"
| "truthy (JObj kvs) = (kvs \<noteq> [])"

text \<open>\<open>d.get(key)\<close> and \<open>d.get(key, default)\<close>.\<close>

definition dict_get_default :: "(string \<times> json) list \<Rightarrow> string \<Rightarrow> json \<Rightarrow> json" where
  "dict_get_default d k dflt = (case map_of d k of Some v \<Rightarrow> v | None \<Rightarrow> dflt)"

definition dict_get :: "(string \<times> json) list \<Rightarrow> string \<Rightarrow> json" where
  "dict_get d k = dict_get_default d k JNull"

text \<open>
  \<open>PurePath.suffix\<close> and \<open>PurePath.stem\<close> of a file name: the name is split at its last
  dot, unless that dot is the first or the last character.
\<close>

definition last_dot :: "string \<Rightarrow> nat option" where
  "last_dot nm =
     (if CHR ''.'' \<in> set nm
      then Some (length nm - Suc (length (takeWhile (\<lambda>c. c \<noteq> CHR ''.'') (rev nm))))
      else None)"

definition suffix_of :: "string \<Rightarrow> string" where
  "suffix_of nm =
     (case last_dot nm of
        Some i \<Rightarrow> (if 0 < i \<and> i < length nm - 1 then drop i nm else [])
      | None \<Rightarrow> [])"

definition stem_of :: "string \<Rightarrow> string" where
  "stem_of nm =
     (case last_dot nm of
        Some i \<Rightarrow> (if 0 < i \<and> i < length nm - 1 then take i nm else nm)
      | None \<Rightarrow> nm)"

subsection \<open>\<open>IGGenerator._parse_fhir_resource\<close>\<close>

record resource_info =
  info_resourceType :: json
  info_id :: json
  info_filename :: string
  info_url :: json

definition parse_fhir_resource :: "fhir_file \<Rightarrow> resource_info option" where
  "parse_fhir_resource f =
     (if lower (suffix_of (path_name f)) \<noteq> ''.json'' then None
      else case parsed f of
          Some (JObj resource) \<Rightarrow>
            (let rt = dict_get resource ''resourceType'';
                 rid = dict_get resource ''id''
             in if \<not> truthy rt \<or> \<not> truthy rid then None
                else Some \<lparr>info_resourceType = rt, info_id = rid,
                           info_filename = stem_of (path_name f),
                           info_url = dict_get_default resource ''url'' (JStr [])\<rparr>)
        | _ \<Rightarrow> None)"

subsection \<open>\<open>IGGenerator._generate_artifacts\<close>\<close>

text \<open>
  The outcome of a step that can fail: \<open>GenerationError\<close> is the exception that
  \<open>generate\<close> raises; \<open>NotModelled\<close> marks an input on which the model says nothing.
  FHIR gives \<open>resourceType\<close>, \<open>id\<close> and \<open>url\<close> as strings, and an id has no
  path separator; the artifact pages are modelled for such resources, with every
  type and id one path component of a case-sensitive file system.
\<close>

datatype gen_error = GenerationError | NotModelled

fun is_str :: "json \<Rightarrow> bool" where
  "is_str (JStr s) = True"
| "is_str j = False"

fun str_of :: "json \<Rightarrow> string" where
  "str_of (JStr s) = s"
| "str_of j = []"

definition plain_name :: "string \<Rightarrow> bool" where
  "plain_name s = (s \<noteq> [] \<and> s \<noteq> ''.'' \<and> s \<noteq> ''..'' \<and> CHR ''/'' \<notin> set s \<and> CHR 0x00 \<notin> set s)"

definition modelled_info :: "resource_info \<Rightarrow> bool" where
  "modelled_info i =
     (is_str (info_resourceType i) \<and> is_str (info_id i) \<and> is_str (info_url i)
      \<and> plain_name (lower (str_of (info_resourceType i)))
      \<and> plain_name (str_of (info_id i) @ ''.page.md''))"

text \<open>\<open>sorted(directory.glob("*.json"))\<close>, and the loop that keeps the files that parse.\<close>

definition glob_json :: "fhir_file list \<Rightarrow> fhir_file list" where
  "glob_json files = sort_key path_name (filter (\<lambda>f. endswith (path_name f) ''.json'') files)"

definition parsed_infos :: "fhir_file list option \<Rightarrow> resource_info list" where
  "parsed_infos dir =
     (case dir of
        None \<Rightarrow> []
      | Some files \<Rightarrow> List.map_filter parse_fhir_resource (glob_json files))"

text \<open>
  \<open>resources_by_type\<close>: the dictionary from type to the resources of that type, in the
  order in which they were appended. It is kept as the list of its items in sorted key
  order, the only order in which the generator walks it.
\<close>

definition type_of :: "resource_info \<Rightarrow> string" where
  "type_of i = str_of (info_resourceType i)"

definition id_of :: "resource_info \<Rightarrow> string" where
  "id_of i = str_of (info_id i)"

definition group_by_type :: "resource_info list \<Rightarrow> (string \<times> resource_info list) list" where
  "group_by_type infos =
     map (\<lambda>t. (t, filter (\<lambda>i. type_of i = t) infos)) (sort (remdups (map type_of infos)))"

definition artifacts_index_body :: string where
  "artifacts_index_body =
     ''## {{page-title}}\<newline>\<newline>'' @
     ''This section contains all the FHIR artifacts defined in this Implementation Guide.\<newline>\<newline>'' @
     ''{{index:children}}\<newline>''"

definition resource_page :: "(string \<rightharpoonup> string) \<Rightarrow> string \<Rightarrow> resource_info \<Rightarrow> string list \<times> string" where
  "resource_page templates resource_type resource =
     (let template = (case templates resource_type of Some t \<Rightarrow> t | None \<Rightarrow> []);
          page_name = id_of resource @ ''.page.md'';
          variables = [''file-name'' \<mapsto> id_of resource,
                       (resource_type @ ''.url'') \<mapsto> str_of (info_url resource)];
          content =
            (if template \<noteq> [] then resolve_template_variables template variables
             else ''# '' @ id_of resource @ ''\<newline>\<newline>'' @
                  ''*Resource Type: '' @ resource_type @ ''*\<newline>\<newline>'' @
                  ''<!-- No template found for '' @ resource_type @ '' -->\<newline>'')
      in ([lower resource_type, page_name], content))"

definition example_page :: "(string \<rightharpoonup> string) \<Rightarrow> resource_info \<Rightarrow> string list \<times> string" where
  "example_page templates info =
     (let example_template = (case templates ''Example'' of Some t \<Rightarrow> t | None \<Rightarrow> []);
          page_name = id_of info @ ''.page.md'';
          variables = [''file-name'' \<mapsto> id_of info,
                       ''Resource.id'' \<mapsto> id_of info,
                       ''ResourceType/Resource.id'' \<mapsto> type_of info @ ''/'' @ id_of info];
          content =
            (if example_template \<noteq> [] then resolve_template_variables example_template variables
             else ''# '' @ id_of info @ ''\<newline>\<newline>'' @
                  ''*Example of '' @ type_of info @ ''*\<newline>\<newline>'' @
                  ''<!-- No template found for examples -->\<newline>'')
      in ([''examples'', page_name], content))"

text \<open>
  The result of the step: the calls that change the tree below \<open>Home/artifacts\<close>, in
  the order in which the method makes them (paths are relative to that directory), and
  the two values that the method returns.
\<close>

datatype fs_op = Mkdir "string list" | WriteText "string list" string

record artifacts_result =
  ops :: "fs_op list"
  resources_by_type :: "(string \<times> resource_info list) list"
  examples_list :: "resource_info list"

definition write_op :: "string list \<times> string \<Rightarrow> fs_op" where
  "write_op page = (case page of (page_path, content) \<Rightarrow> WriteText page_path content)"

definition type_ops :: "(string \<rightharpoonup> string) \<Rightarrow> string \<times> resource_info list \<Rightarrow> fs_op list" where
  "type_ops templates type_and_resources =
     (case type_and_resources of
        (resource_type, resources) \<Rightarrow>
          Mkdir [lower resource_type]
          # map (\<lambda>resource. write_op (resource_page templates resource_type resource)) resources)"

definition example_ops :: "(string \<rightharpoonup> string) \<Rightarrow> resource_info list \<Rightarrow> fs_op list" where
  "example_ops templates examples =
     Mkdir [''examples''] # map (\<lambda>info. write_op (example_page templates info)) examples"

text \<open>
  \<open>type_dir.mkdir(exist_ok=True)\<close> raises when the path is the index page written just
  before; nothing else in the step can fail on a modelled input and an artifacts
  directory that is new.
\<close>

definition generate_artifacts ::
  "(string \<rightharpoonup> string) \<Rightarrow> fhir_file list option \<Rightarrow> fhir_file list option
     \<Rightarrow> gen_error + artifacts_result" where
  "generate_artifacts templates resources_dir examples_dir =
     (let resources = parsed_infos resources_dir;
          by_type = group_by_type resources;
          examples = parsed_infos examples_dir
      in if \<not> list_all modelled_info (resources @ examples) then Inl NotModelled
         else if list_ex (\<lambda>(t, rs). lower t = ''index.page.md'') by_type then Inl GenerationError
         else Inr \<lparr>ops =
                     [Mkdir [], WriteText [''index.page.md''] artifacts_index_body]
                     @ concat (map (type_ops templates) by_type)
                     @ (if examples_dir \<noteq> None then example_ops templates examples else []),
                   resources_by_type = by_type,
                   examples_list = examples\<rparr>)"

text \<open>
  The files written by the step, in order, and among them the pages written by the loop
  over the sorted types and the resources of each.
\<close>

fun writes_of :: "fs_op list \<Rightarrow> (string list \<times> string) list" where
  "writes_of [] = []"
| "writes_of (Mkdir p # rest) = writes_of rest"
| "writes_of (WriteText p c # rest) = (p, c) # writes_of rest"

definition written :: "artifacts_result \<Rightarrow> (string list \<times> string) list" where
  "written r = writes_of (ops r)"

definition resource_pages ::
  "(string \<rightharpoonup> string) \<Rightarrow> (string \<times> resource_info list) list \<Rightarrow> (string list \<times> string) list" where
  "resource_pages templates by_type = writes_of (concat (map (type_ops templates) by_type))"

text \<open>The counts that \<open>IGGenerator.generate\<close> reports from the two returned values.\<close>

definition resource_count :: "artifacts_result \<Rightarrow> nat" where
  "resource_count r = sum_list (map (\<lambda>(t, rs). length rs) (resources_by_type r))"

definition example_count :: "artifacts_result \<Rightarrow> nat" where
  "example_count r = length (examples_list r)"

subsection \<open>\<open>IGGenerator._generate_artifacts_toc\<close>\<close>

text \<open>
  \<open>index_pages\<close> holds the types for which \<open>_copy_artifact_index_pages\<close> copied a custom
  index. The result lists the TOC files written, by directory under \<open>Home/artifacts\<close>.
\<close>

definition artifact_entry :: "resource_info \<Rightarrow> toc_entry" where
  "artifact_entry r = \<lparr>name = id_of r, filename = id_of r @ ''.page.md''\<rparr>"

definition index_toc_entry :: toc_entry where
  "index_toc_entry = \<lparr>name = ''Index'', filename = ''index.page.md''\<rparr>"

definition type_toc :: "string list \<Rightarrow> string \<Rightarrow> resource_info list \<Rightarrow> toc_entry list" where
  "type_toc index_pages rt resources =
     (if lower rt \<in> set index_pages then [index_toc_entry] else [])
     @ map artifact_entry (sort_key id_of resources)"

definition examples_toc :: "string list \<Rightarrow> resource_info list \<Rightarrow> toc_entry list" where
  "examples_toc index_pages examples =
     (if ''examples'' \<in> set index_pages then [index_toc_entry] else [])
     @ map artifact_entry (sort_key id_of examples)"

definition artifacts_toc ::
  "bool \<Rightarrow> (string \<times> resource_info list) list \<Rightarrow> resource_info list \<Rightarrow> toc_entry list" where
  "artifacts_toc index_is_file by_type examples =
     (if index_is_file then [index_toc_entry] else [])
     @ map (\<lambda>(rt, rs). \<lparr>name = rt, filename = lower rt\<rparr>) by_type
     @ (if examples \<noteq> [] then [\<lparr>name = ''Examples'', filename = ''examples''\<rparr>] else [])"

definition generate_artifacts_toc ::
  "bool \<Rightarrow> string list \<Rightarrow> (string \<times> resource_info list) list \<Rightarrow> resource_info list
     \<Rightarrow> (string list \<times> toc_entry list) list" where
  "generate_artifacts_toc index_is_file index_pages by_type examples =
     [([], artifacts_toc index_is_file by_type examples)]
     @ map (\<lambda>(rt, rs). ([lower rt], type_toc index_pages rt rs)) by_type
     @ (if examples \<noteq> [] then [([''examples''], examples_toc index_pages examples)] else [])"

text \<open>
  A file as the specification describes the ones that are skipped: opening or parsing it
  fails, or what it holds has no \<open>resourceType\<close> or no \<open>id\<close>.
\<close>

definition lacks_type_or_id :: "fhir_file \<Rightarrow> bool" where
  "lacks_type_or_id f =
     (case parsed f of
        Some (JObj d) \<Rightarrow> map_of d ''resourceType'' = None \<or> map_of d ''id'' = None
      | _ \<Rightarrow> True)"

definition without_lacking :: "fhir_file list option \<Rightarrow> fhir_file list option" where
  "without_lacking dir = map_option (filter (\<lambda>f. \<not> lacks_type_or_id f)) dir"

section \<open>The ImplementationGuide resource (ig\_resource.py)\<close>

text \<open>
  Values read by \<open>yaml.safe_load\<close> have the same shapes as those read by \<open>json.load\<close>
  and are modelled by the same type. \<open>str(x)\<close> returns a string for every value; the
  model fixes it where the result is simple and leaves the text that Python prints for
  numbers, lists and dictionaries unspecified.
\<close>

fun py_str :: "json \<Rightarrow> string" where
  "py_str (JStr s) = s"
| "py_str JNull = ''None''"
| "py_str (JBool True) = ''True''"
| "py_str (JBool False) = ''False''"

text \<open>\<open>sep.join(parts)\<close>.\<close>

fun join :: "string \<Rightarrow> string list \<Rightarrow> string" where
  "join sep [] = []"
| "join sep [p] = p"
| "join sep (p # q # ps) = p @ sep @ join sep (q # ps)"

subsection \<open>\<open>IGResourceGenerator._extract_human_name\<close>\<close>

text \<open>
  The body of the loop over a list of HumanName for an element that is a dictionary:
  \<open>Some\<close> is a \<open>return\<close>, \<open>None\<close> lets the loop go on with the next element.
\<close>

definition human_name_of_dict :: "(string \<times> json) list \<Rightarrow> string option" where
  "human_name_of_dict hn =
     (if truthy (dict_get hn ''text'') then Some (py_str (dict_get hn ''text''))
      else
        (let given = dict_get hn ''given'';
             family = dict_get hn ''family'';
             parts = (case given of JArr gs \<Rightarrow> map py_str gs | _ \<Rightarrow> [])
                     @ (if truthy family then [py_str family] else [])
         in if parts \<noteq> [] then Some (join '' '' parts) else None))"

fun first_human_name :: "json list \<Rightarrow> string option" where
  "first_human_name [] = None"
| "first_human_name (JObj hn # rest) =
     (case human_name_of_dict hn of Some s \<Rightarrow> Some s | None \<Rightarrow> first_human_name rest)"
| "first_human_name (JStr s # rest) = Some s"
| "first_human_name (other # rest) = first_human_name rest"

fun extract_human_name :: "json \<Rightarrow> string option" where
  "extract_human_name (JStr s) = Some s"
| "extract_human_name (JArr hns) = first_human_name hns"
| "extract_human_name (JObj d) =
     (if truthy (dict_get d ''text'') then Some (py_str (dict_get d ''text'')) else None)"
| "extract_human_name other = None"

subsection \<open>\<open>IGResourceGenerator._extract_codeable_text\<close>\<close>

fun first_display :: "json list \<Rightarrow> string option" where
  "first_display [] = None"
| "first_display (JObj coding # rest) =
     (if truthy (dict_get coding ''display'') then Some (py_str (dict_get coding ''display''))
      else first_display rest)"
| "first_display (other # rest) = first_display rest"

fun extract_codeable_text :: "json \<Rightarrow> string option"
  and first_codeable_text :: "json list \<Rightarrow> string option" where
  "extract_codeable_text (JStr s) = Some s"
| "extract_codeable_text (JObj d) =
     (if truthy (dict_get d ''text'') then Some (py_str (dict_get d ''text''))
      else case dict_get d ''coding'' of
             JArr codings \<Rightarrow> first_display codings
           | _ \<Rightarrow> None)"
| "extract_codeable_text (JArr items) = first_codeable_text items"
| "extract_codeable_text JNull = None"
| "extract_codeable_text (JBool b) = None"
| "extract_codeable_text (JNum n) = None"
| "first_codeable_text [] = None"
| "first_codeable_text (item # rest) =
     (case extract_codeable_text item of
        Some r \<Rightarrow> (if r \<noteq> [] then Some r else first_codeable_text rest)
      | None \<Rightarrow> first_codeable_text rest)"

subsection \<open>\<open>IGResourceGenerator._parse_resource_file\<close>\<close>

text \<open>
  The entry collected for a file. An exception anywhere in the method is caught and the
  file is skipped; \<open>None\<close> stands for both the explicit skip and the caught exception.
  \<open>format_title(rid)\<close> raises on a value that is not a string, since it calls
  \<open>rid.lower()\<close>.
\<close>

record resource_entry =
  entry_resourceType :: json
  entry_id :: json
  isExample :: bool
  entry_name :: string
  entry_description :: "string option"
  exampleCanonical :: "string option"
  entry_url :: "string option"

definition title_of_id :: "json \<Rightarrow> string option" where
  "title_of_id rid = (case rid of JStr s \<Rightarrow> Some (format_title s) | _ \<Rightarrow> None)"

definition resolve_name :: "json \<Rightarrow> json \<Rightarrow> string option" where
  "resolve_name raw_name rid =
     (case raw_name of
        JStr s \<Rightarrow> Some s
      | JNull \<Rightarrow> title_of_id rid
      | _ \<Rightarrow>
          (case extract_human_name raw_name of
             Some s \<Rightarrow> (if s \<noteq> [] then Some s else title_of_id rid)
           | None \<Rightarrow> title_of_id rid))"

definition resolve_description :: "json \<Rightarrow> string option" where
  "resolve_description raw_desc =
     (case raw_desc of
        JStr s \<Rightarrow> Some s
      | JNull \<Rightarrow> None
      | _ \<Rightarrow> extract_codeable_text raw_desc)"

text \<open>
  \<open>str(profiles[0])\<close> for a truthy \<open>meta.profile\<close>: the first element of a list, the
  first character of a string; indexing any other value raises.
\<close>

definition first_profile :: "json \<Rightarrow> string option" where
  "first_profile profiles =
     (case profiles of
        JArr (x # xs) \<Rightarrow> Some (py_str x)
      | JStr (c # cs) \<Rightarrow> Some [c]
      | _ \<Rightarrow> None)"

definition parse_resource_file :: "fhir_file \<Rightarrow> bool \<Rightarrow> resource_entry option" where
  "parse_resource_file f is_example =
     (case parsed f of
        Some (JObj resource) \<Rightarrow>
          (let rt = dict_get resource ''resourceType'';
               rid = dict_get resource ''id''
           in if \<not> truthy rt \<or> \<not> truthy rid then None
              else case resolve_name (dict_get resource ''name'') rid of
                  None \<Rightarrow> None
                | Some nm \<Rightarrow>
                    (let entry = \<lparr>entry_resourceType = rt, entry_id = rid,
                                  isExample = is_example, entry_name = nm,
                                  entry_description =
                                    resolve_description (dict_get resource ''description''),
                                  exampleCanonical = None, entry_url = None\<rparr>
                     in if is_example then
                          (case dict_get_default resource ''meta'' (JObj []) of
                             JObj meta \<Rightarrow>
                               (let profiles = dict_get_default meta ''profile'' (JArr [])
                                in if truthy profiles then
                                     (case first_profile profiles of
                                        Some p \<Rightarrow> Some (entry\<lparr>exampleCanonical := Some p\<rparr>)
                                      | None \<Rightarrow> None)
                                   else Some entry)
                           | _ \<Rightarrow> None)
                        else
                          (let url = dict_get resource ''url''
                           in if truthy url then Some (entry\<lparr>entry_url := Some (py_str url)\<rparr>)
                              else Some entry)))
      | _ \<Rightarrow> None)"

subsection \<open>\<open>IGResourceGenerator._collect_resources\<close>\<close>

definition collect_dir :: "fhir_file list option \<Rightarrow> bool \<Rightarrow> resource_entry list" where
  "collect_dir dir is_example =
     (case dir of
        None \<Rightarrow> []
      | Some files \<Rightarrow> List.map_filter (\<lambda>f. parse_resource_file f is_example) (glob_json files))"

definition collect_resources ::
  "fhir_file list option \<Rightarrow> fhir_file list option \<Rightarrow> resource_entry list" where
  "collect_resources res_dir ex_dir = collect_dir res_dir False @ collect_dir ex_dir True"

text \<open>
  Extraction from a list as the specification and the comment in the method state it:
  the first element decides. \<open>element_name\<close> is what one element gives on its own, the
  text or the joined parts of a dictionary, a string as it is, nothing for any other
  value.
\<close>

definition element_name :: "json \<Rightarrow> string option" where
  "element_name hn =
     (case hn of
        JObj d \<Rightarrow> human_name_of_dict d
      | JStr s \<Rightarrow> Some s
      | _ \<Rightarrow> None)"

definition first_element_wins :: "json list \<Rightarrow> string option" where
  "first_element_wins hns = (case hns of [] \<Rightarrow> None | hn # rest \<Rightarrow> element_name hn)"

section \<open>Directory trees\<close>

text \<open>
  Operations on the listing of a directory. A new child is put at the end of the
  listing; the order of a real listing is arbitrary and every reader of the generated
  tree sorts what it lists. Paths are lists of plain names. Where the outcome in Python
  depends on more than the tree (a copy onto a path that is a directory, a path that
  leaves the directory), the operation answers \<open>NotModelled\<close>.
\<close>

fun lookup :: "fnode list \<Rightarrow> string \<Rightarrow> fnode option" where
  "lookup [] n = None"
| "lookup (x # xs) n = (if node_name x = n then Some x else lookup xs n)"

fun remove_child :: "string \<Rightarrow> fnode list \<Rightarrow> fnode list" where
  "remove_child n [] = []"
| "remove_child n (x # xs) = (if node_name x = n then remove_child n xs else x # remove_child n xs)"

fun replace_child :: "fnode \<Rightarrow> fnode list \<Rightarrow> fnode list" where
  "replace_child y [] = []"
| "replace_child y (x # xs) =
     (if node_name x = node_name y then y # xs else x # replace_child y xs)"

text \<open>The node at a path below a directory; the empty path is the directory itself.\<close>

fun node_at :: "fnode list \<Rightarrow> string list \<Rightarrow> fnode option" where
  "node_at items [] = None"
| "node_at items [n] = lookup items n"
| "node_at items (n # m # ps) =
     (case lookup items n of
        Some (Dir d ch) \<Rightarrow> node_at ch (m # ps)
      | _ \<Rightarrow> None)"

definition is_dir_at :: "fnode list \<Rightarrow> string list \<Rightarrow> bool" where
  "is_dir_at items p = (p = [] \<or> (case node_at items p of Some (Dir d ch) \<Rightarrow> True | _ \<Rightarrow> False))"

definition is_file_at :: "fnode list \<Rightarrow> string list \<Rightarrow> bool" where
  "is_file_at items p = (case node_at items p of Some (File n c) \<Rightarrow> True | _ \<Rightarrow> False)"

text \<open>
  \<open>out_path.parent.mkdir(parents=True, exist_ok=True)\<close> followed by
  \<open>shutil.copy2(item, out_path)\<close>, and \<open>path.write_text(...)\<close> into an existing
  directory: the file \<open>n\<close> is written in the directory at \<open>ds\<close>. \<open>mkdir\<close> raises when a
  file is in the way.
\<close>

fun insert_file :: "string list \<Rightarrow> string \<Rightarrow> content \<Rightarrow> fnode list \<Rightarrow> gen_error + fnode list" where
  "insert_file [] n c items =
     (case lookup items n of
        None \<Rightarrow> Inr (items @ [File n c])
      | Some (File m old) \<Rightarrow> Inr (replace_child (File n c) items)
      | Some (Dir m ch) \<Rightarrow> Inl NotModelled)"
| "insert_file (d # ds) n c items =
     (case lookup items d of
        None \<Rightarrow>
          (case insert_file ds n c [] of
             Inr ch' \<Rightarrow> Inr (items @ [Dir d ch'])
           | Inl e \<Rightarrow> Inl e)
      | Some (Dir m ch) \<Rightarrow>
          (case insert_file ds n c ch of
             Inr ch' \<Rightarrow> Inr (replace_child (Dir d ch') items)
           | Inl e \<Rightarrow> Inl e)
      | Some (File m old) \<Rightarrow> Inl GenerationError)"

text \<open>Every file below a directory, with the path of its directory, in listing order.\<close>

fun files_of_node :: "string list \<Rightarrow> fnode \<Rightarrow> (string list \<times> string \<times> content) list"
  and files_of_nodes :: "string list \<Rightarrow> fnode list \<Rightarrow> (string list \<times> string \<times> content) list" where
  "files_of_node p (File n c) = [(p, n, c)]"
| "files_of_node p (Dir n ch) = files_of_nodes (p @ [n]) ch"
| "files_of_nodes p [] = []"
| "files_of_nodes p (x # xs) = files_of_node p x @ files_of_nodes p xs"

text \<open>Every directory below a directory, with its path and its listing.\<close>

fun dirs_of_node :: "string list \<Rightarrow> fnode \<Rightarrow> (string list \<times> fnode list) list"
  and dirs_of_nodes :: "string list \<Rightarrow> fnode list \<Rightarrow> (string list \<times> fnode list) list" where
  "dirs_of_node p (File n c) = []"
| "dirs_of_node p (Dir n ch) = (p @ [n], ch) # dirs_of_nodes (p @ [n]) ch"
| "dirs_of_nodes p [] = []"
| "dirs_of_nodes p (x # xs) = dirs_of_node p x @ dirs_of_nodes p xs"

section \<open>Pages and tables of contents of the generator\<close>

subsection \<open>\<open>IGGenerator._transform_pages\<close>\<close>

definition page_output_name :: "string \<Rightarrow> string" where
  "page_output_name nm =
     (if lower (suffix_of nm) = ''.md'' then lower (stem_of nm) @ ''.page.md'' else nm)"

fun copy_pages :: "(string list \<times> string \<times> content) list \<Rightarrow> fnode list \<Rightarrow> nat
                     \<Rightarrow> gen_error + (fnode list \<times> nat)" where
  "copy_pages [] home file_count = Inr (home, file_count)"
| "copy_pages ((relative_parent, nm, c) # rest) home file_count =
     (case insert_file relative_parent (page_output_name nm) c home of
        Inl e \<Rightarrow> Inl e
      | Inr home' \<Rightarrow> copy_pages rest home' (file_count + 1))"

text \<open>
  \<open>pages_dir\<close> is the listing of \<open>pages/\<close>, or \<open>None\<close> when it is not a directory. The
  result is the new listing of \<open>Home\<close> and the count returned.
\<close>

definition transform_pages :: "fnode list option \<Rightarrow> fnode list \<Rightarrow> gen_error + (fnode list \<times> nat)" where
  "transform_pages pages_dir home =
     (case pages_dir of
        None \<Rightarrow> Inl GenerationError
      | Some pages \<Rightarrow> copy_pages (files_of_nodes [] pages) home 0)"

subsection \<open>\<open>IGGenerator._generate_home_toc\<close>\<close>

text \<open>
  \<open>home_dir / value\<close> for a string taken from the menu: the string is split at the
  separators, empty and \<open>.\<close> components vanish. An absolute value or a \<open>..\<close> component
  leads out of \<open>Home\<close>.
\<close>

fun split_on :: "char \<Rightarrow> string \<Rightarrow> string list" where
  "split_on sep [] = [[]]"
| "split_on sep (c # cs) =
     (if c = sep then [] # split_on sep cs
      else case split_on sep cs of
             w # ws \<Rightarrow> (c # w) # ws
           | [] \<Rightarrow> [[c]])"

definition home_path :: "string \<Rightarrow> string list option" where
  "home_path v =
     (let parts = split_on (CHR ''/'') v
      in if startswith v ''/'' \<or> ''..'' \<in> set parts \<or> CHR 0x00 \<in> set v then None
         else Some (filter (\<lambda>p. p \<noteq> [] \<and> p \<noteq> ''.'') parts))"

text \<open>The path that an entry of the menu tests, if it tests one.\<close>

definition menu_target :: "string \<times> json \<Rightarrow> string option" where
  "menu_target item =
     (case item of
        (display_name, JBool True) \<Rightarrow> Some (lower display_name)
      | (display_name, JStr v) \<Rightarrow>
          (if endswith (lower v) ''.md'' then Some (replace v ''.md'' ''.page.md'') else Some v)
      | _ \<Rightarrow> None)"

text \<open>
  \<open>(home_dir / value).is_dir()\<close> and \<open>(home_dir / value).is_file()\<close>. A value that
  leads out of \<open>Home\<close> never reaches these tests: \<open>generate_home_toc\<close> below answers
  \<open>NotModelled\<close> for a menu that holds one.
\<close>

definition is_dir_in :: "fnode list \<Rightarrow> string \<Rightarrow> bool" where
  "is_dir_in home v = (case home_path v of Some p \<Rightarrow> is_dir_at home p | None \<Rightarrow> False)"

definition is_file_in :: "fnode list \<Rightarrow> string \<Rightarrow> bool" where
  "is_file_in home v = (case home_path v of Some p \<Rightarrow> is_file_at home p | None \<Rightarrow> False)"

definition home_entry :: "fnode list \<Rightarrow> string \<times> json \<Rightarrow> toc_entry option" where
  "home_entry home item =
     (case item of
        (display_name, JBool True) \<Rightarrow>
          (let folder_name = lower display_name
           in if is_dir_in home folder_name
              then Some \<lparr>name = display_name, filename = folder_name\<rparr> else None)
      | (display_name, JStr v) \<Rightarrow>
          (if endswith (lower v) ''.md'' then
             (let page_name = replace v ''.md'' ''.page.md''
              in if is_file_in home page_name
                 then Some \<lparr>name = display_name, filename = page_name\<rparr> else None)
           else if is_dir_in home v
                then Some \<lparr>name = display_name, filename = v\<rparr> else None)
      | _ \<Rightarrow> None)"

text \<open>
  \<open>_write_toc_file(directory / "toc.yaml", entries)\<close> raises when \<open>toc.yaml\<close> is a
  directory there.
\<close>

definition toc_yaml_is_dir :: "fnode list \<Rightarrow> bool" where
  "toc_yaml_is_dir items = (case lookup items ''toc.yaml'' of Some (Dir d ch) \<Rightarrow> True | _ \<Rightarrow> False)"

text \<open>
  The result is the list of entries written to \<open>Home/toc.yaml\<close>, or \<open>None\<close> when the
  method writes no file.
\<close>

definition generate_home_toc :: "(string \<times> json) list \<Rightarrow> fnode list \<Rightarrow> gen_error + toc_entry list option" where
  "generate_home_toc guide_config home =
     (case dict_get guide_config ''menu'' of
        JObj menu \<Rightarrow>
          (if list_ex (\<lambda>item. case menu_target item of
                                 Some t \<Rightarrow> home_path t = None | None \<Rightarrow> False) menu
           then Inl NotModelled
           else (let home_toc = List.map_filter (home_entry home) menu
                 in if home_toc \<noteq> [] then
                      (if toc_yaml_is_dir home then Inl GenerationError else Inr (Some home_toc))
                    else Inr None))
      | _ \<Rightarrow>
          (let entries = generate_toc_for_directory home
           in if entries \<noteq> [] then
                (if toc_yaml_is_dir home then Inl GenerationError else Inr (Some entries))
              else Inr None))"

subsection \<open>\<open>IGGenerator._generate_toc_files\<close>\<close>

text \<open>
  The loop over \<open>sorted(home_dir.rglob("*"))\<close>: \<open>toc_count\<close> and the TOC files written so
  far are carried along. A TOC file is recorded with the path of its directory below the
  guide's output directory.
\<close>

fun toc_loop :: "(string list \<times> fnode list) list \<Rightarrow> nat \<Rightarrow> (string list \<times> toc_entry list) list
                   \<Rightarrow> gen_error + (nat \<times> (string list \<times> toc_entry list) list)" where
  "toc_loop [] toc_count tocs = Inr (toc_count, tocs)"
| "toc_loop ((current_dir, items) # rest) toc_count tocs =
     (if current_dir \<noteq> [] \<and> last current_dir = ''pagetemplates''
      then toc_loop rest toc_count tocs
      else if take 1 current_dir = [''artifacts''] then toc_loop rest toc_count tocs
      else (let entries = generate_toc_for_directory items
            in if entries \<noteq> [] then
                 (if toc_yaml_is_dir items then Inl GenerationError
                  else toc_loop rest (toc_count + 1) (tocs @ [(''Home'' # current_dir, entries)]))
               else toc_loop rest toc_count tocs))"

record toc_result =
  toc_count :: nat
  tocs_written :: "(string list \<times> toc_entry list) list"

definition generate_toc_files :: "(string \<times> json) list \<Rightarrow> fnode list \<Rightarrow> gen_error + toc_result" where
  "generate_toc_files guide_config home =
     (let root_toc = [\<lparr>name = ''Home'', filename = ''Home''\<rparr>]
      in case generate_home_toc guide_config home of
           Inl e \<Rightarrow> Inl e
         | Inr home_toc \<Rightarrow>
             (let written = [([], root_toc)]
                            @ (case home_toc of Some es \<Rightarrow> [([''Home''], es)] | None \<Rightarrow> [])
              in case toc_loop (sort_key fst (dirs_of_nodes [] home)) 2 written of
                   Inl e \<Rightarrow> Inl e
                 | Inr (n, tocs) \<Rightarrow> Inr \<lparr>toc_count = n, tocs_written = tocs\<rparr>))"

section \<open>Configuration checks of the resource builder\<close>

text \<open>
  What \<open>load_yaml\<close> finds at the path of \<open>guide.yaml\<close>: no file, a file on which
  loading raises (with the text of the exception), or the value loaded.
\<close>

datatype yaml_file = NoFile | LoadFails string | Loaded json

definition required_fields :: "string list" where
  "required_fields = [''id'', ''status'', ''fhirVersion'', ''canonical'']"

definition valid_statuses :: "string list" where
  "valid_statuses = [''draft'', ''active'', ''retired'', ''unknown'']"

text \<open>\<open>not val or not str(val).strip()\<close>.\<close>

definition blank :: "json \<Rightarrow> bool" where
  "blank val = (\<not> truthy val \<or> strip (py_str val) = [])"

text \<open>The name Python gives to the type of a value, as it stands in an \<open>AttributeError\<close>.\<close>

fun type_name :: "json \<Rightarrow> string" where
  "type_name JNull = ''NoneType''"
| "type_name (JBool b) = ''bool''"
| "type_name (JNum n) = ''int''"
| "type_name (JStr s) = ''str''"
| "type_name (JArr xs) = ''list''"
| "type_name (JObj d) = ''dict''"

definition no_get :: "json \<Rightarrow> string" where
  "no_get v = [CHR 0x27] @ type_name v @ [CHR 0x27] @ '' object has no attribute '' @ [CHR 0x27] @ ''get'' @ [CHR 0x27]"

subsection \<open>\<open>IGResourceGenerator.validate_guide_yaml_for_ig_resource\<close>\<close>

definition missing_field_error :: "string \<Rightarrow> string" where
  "missing_field_error field =
     ''guide.yaml is missing required field for IG resource generation: '' @ [CHR 0x27] @ field @ [CHR 0x27]"

definition invalid_status_error :: "string \<Rightarrow> string" where
  "invalid_status_error sv =
     ''Invalid status value '' @ [CHR 0x27] @ sv @ [CHR 0x27] @
     ''. Must be one of: draft, active, retired, unknown''"

definition validate_guide_yaml_for_ig_resource :: "yaml_file \<Rightarrow> bool \<times> string list" where
  "validate_guide_yaml_for_ig_resource guide =
     (case guide of
        NoFile \<Rightarrow> (False, [''guide.yaml not found''])
      | LoadFails e \<Rightarrow> (False, [''Error parsing guide.yaml: '' @ e])
      | Loaded config \<Rightarrow>
          (if \<not> truthy config then (False, [''guide.yaml is empty or invalid''])
           else case config of
               JObj d \<Rightarrow>
                 (let errors =
                        map missing_field_error (filter (\<lambda>field. blank (dict_get d field)) required_fields)
                        @ (let status_val = dict_get d ''status''
                           in if truthy status_val then
                                (let sv = lower (strip (py_str status_val))
                                 in if sv \<notin> set valid_statuses then [invalid_status_error sv] else [])
                              else [])
                  in (length errors = 0, errors))
             | other \<Rightarrow> (False, [''Error parsing guide.yaml: '' @ no_get other])))"

subsection \<open>\<open>IGResourceGenerator._load_config\<close>\<close>

text \<open>
  The method fills \<open>self._config\<close> and appends to \<open>result["errors"]\<close>, which is empty when
  it is called. The model returns both; \<open>generate\<close> goes on only when no error was
  recorded.
\<close>

definition field_value :: "(string \<times> json) list \<Rightarrow> string \<Rightarrow> string option" where
  "field_value d field =
     (let val = dict_get d field
      in if truthy val \<and> strip (py_str val) \<noteq> [] then Some (strip (py_str val)) else None)"

definition load_config :: "yaml_file \<Rightarrow> string list \<times> (string \<rightharpoonup> string) option" where
  "load_config guide =
     (case guide of
        NoFile \<Rightarrow> ([''guide.yaml not found in output directory''], None)
      | LoadFails e \<Rightarrow> ([''Error reading guide.yaml: '' @ e], None)
      | Loaded config \<Rightarrow>
          (if \<not> truthy config then ([''guide.yaml is empty or invalid''], None)
           else case config of
               JObj d \<Rightarrow>
                 (let errors = map (\<lambda>field. ''Missing required field '' @ [CHR 0x27] @ field @ [CHR 0x27] @ '' in guide.yaml'')
                                 (filter (\<lambda>field. field_value d field = None) required_fields);
                      cfg = (\<lambda>key.
                         if key = ''status'' then map_option lower (field_value d ''status'')
                         else if key \<in> set required_fields \<or> key \<in> set [''version'', ''title'']
                              then field_value d key
                         else None)
                  in (if errors \<noteq> []
                      then ''IG resource generation requires additional fields in guide.yaml:'' # errors
                      else [],
                      Some cfg))
             | other \<Rightarrow> ([''Error reading guide.yaml: '' @ no_get other], Some Map.empty)))"

subsection \<open>\<open>IGResourceGenerator._create_ig_resource_r4\<close>\<close>

text \<open>
  The entries of \<open>definition.resource\<close> and the document. The page tree is built by
  another method and is passed in. \<open>f"{r['resourceType']}/{r['id']}"\<close> formats the two
  values with \<open>str\<close>. Reading a key that \<open>cfg\<close> lacks raises \<open>KeyError\<close>, here \<open>None\<close>.
\<close>

datatype page_node = PageNode string string string "page_node list"

record definition_entry =
  reference :: string
  entry_name_out :: "string option"
  entry_description_out :: "string option"
  exampleBoolean :: "bool option"
  exampleCanonical_out :: "string option"

definition definition_entry_of :: "resource_entry \<Rightarrow> definition_entry" where
  "definition_entry_of r =
     \<lparr>reference = py_str (entry_resourceType r) @ ''/'' @ py_str (entry_id r),
      entry_name_out = (if entry_name r \<noteq> [] then Some (entry_name r) else None),
      entry_description_out =
        (case entry_description r of Some d \<Rightarrow> (if d \<noteq> [] then Some d else None) | None \<Rightarrow> None),
      exampleBoolean =
        (if isExample r then
           (case exampleCanonical r of
              Some c \<Rightarrow> (if c \<noteq> [] then None else Some True)
            | None \<Rightarrow> Some True)
         else Some False),
      exampleCanonical_out =
        (if isExample r then
           (case exampleCanonical r of
              Some c \<Rightarrow> (if c \<noteq> [] then Some c else None)
            | None \<Rightarrow> None)
         else None)\<rparr>"

record implementation_guide =
  ig_id :: string
  ig_url :: string
  ig_version :: "string option"
  ig_name :: "string option"
  ig_title :: "string option"
  ig_status :: string
  ig_fhirVersion :: "string list"
  ig_packageId :: string
  definition_resource :: "definition_entry list option"
  definition_page :: page_node

definition rstrip_slash :: "string \<Rightarrow> string" where
  "rstrip_slash s = rev (dropWhile (\<lambda>c. c = CHR ''/'') (rev s))"

definition create_ig_resource_r4 ::
  "(string \<rightharpoonup> string) \<Rightarrow> resource_entry list \<Rightarrow> page_node \<Rightarrow> implementation_guide option" where
  "create_ig_resource_r4 cfg resources root_page =
     (case (cfg ''canonical'', cfg ''id'', cfg ''status'', cfg ''fhirVersion'') of
        (Some canonical, Some i, Some status, Some fhir_version) \<Rightarrow>
          Some \<lparr>ig_id = i,
                ig_url = rstrip_slash canonical @ ''/ImplementationGuide/'' @ i,
                ig_version = (case cfg ''version'' of Some v \<Rightarrow> (if v \<noteq> [] then Some v else None) | None \<Rightarrow> None),
                ig_name = (case cfg ''title'' of Some t \<Rightarrow> (if t \<noteq> [] then Some (replace t '' '' []) else None) | None \<Rightarrow> None),
                ig_title = (case cfg ''title'' of Some t \<Rightarrow> (if t \<noteq> [] then Some t else None) | None \<Rightarrow> None),
                ig_status = status,
                ig_fhirVersion = [fhir_version],
                ig_packageId = i,
                definition_resource =
                  (if resources \<noteq> [] then Some (map definition_entry_of resources) else None),
                definition_page = root_page\<rparr>
      | _ \<Rightarrow> None)"

section \<open>A run of the generator\<close>

text \<open>
  \<open>IGGenerator.generate\<close> reads the input folder and rebuilds the guide's directory below
  the output root. The input folder is the listing of an existing directory; the output
  root is a listing too, empty when the directory does not exist yet. The YAML and JSON
  parsers are external: \<open>yaml_load\<close> and \<open>json_load\<close> give what they return for the
  content of a file. Failures of the operating system that the trees do not determine
  (permissions, a full disk) are outside the model.
\<close>

definition and_then :: "'e + 'a \<Rightarrow> ('a \<Rightarrow> 'e + 'b) \<Rightarrow> 'e + 'b" where
  "and_then r f = (case r of Inl e \<Rightarrow> Inl e | Inr x \<Rightarrow> f x)"

definition dir_listing :: "fnode list \<Rightarrow> string \<Rightarrow> fnode list option" where
  "dir_listing items n = (case lookup items n of Some (Dir d ch) \<Rightarrow> Some ch | _ \<Rightarrow> None)"

definition file_content :: "fnode list \<Rightarrow> string \<Rightarrow> content option" where
  "file_content items n = (case lookup items n of Some (File f c) \<Rightarrow> Some c | _ \<Rightarrow> None)"

subsection \<open>Changes to a tree\<close>

text \<open>
  A step that works below a directory \<open>n\<close> of a listing: the step is applied to the
  listing of \<open>n\<close>, which must be a directory, and may return a value.
\<close>

definition in_dir ::
  "string \<Rightarrow> (fnode list \<Rightarrow> gen_error + fnode list \<times> 'a) \<Rightarrow> fnode list \<Rightarrow> gen_error + fnode list \<times> 'a" where
  "in_dir n step items =
     (case lookup items n of
        Some (Dir d ch) \<Rightarrow>
          and_then (step ch) (\<lambda>(ch', v). Inr (replace_child (Dir n ch') items, v))
      | _ \<Rightarrow> Inl GenerationError)"

definition no_value :: "gen_error + fnode list \<Rightarrow> gen_error + fnode list \<times> unit" where
  "no_value r = and_then r (\<lambda>items. Inr (items, ()))"

text \<open>
  The directory at a path of a listing is changed by \<open>change\<close>; a path that does not
  lead through directories raises.
\<close>

fun at_path :: "string list \<Rightarrow> (fnode list \<Rightarrow> gen_error + fnode list) \<Rightarrow> fnode list \<Rightarrow> gen_error + fnode list" where
  "at_path [] change items = change items"
| "at_path (d # ds) change items =
     (case lookup items d of
        Some (Dir m ch) \<Rightarrow>
          and_then (at_path ds change ch) (\<lambda>ch'. Inr (replace_child (Dir d ch') items))
      | _ \<Rightarrow> Inl GenerationError)"

text \<open>\<open>(directory / n).mkdir(exist_ok=True)\<close> in an existing directory.\<close>

definition mkdir_child :: "string \<Rightarrow> fnode list \<Rightarrow> gen_error + fnode list" where
  "mkdir_child n items =
     (case lookup items n of
        None \<Rightarrow> Inr (items @ [Dir n []])
      | Some (Dir d ch) \<Rightarrow> Inr items
      | Some (File f c) \<Rightarrow> Inl GenerationError)"

text \<open>Opening \<open>directory / n\<close> for writing, as \<open>write_text\<close> and \<open>dump_yaml\<close> do.\<close>

definition write_child :: "string \<Rightarrow> content \<Rightarrow> fnode list \<Rightarrow> gen_error + fnode list" where
  "write_child n c items =
     (case lookup items n of
        None \<Rightarrow> Inr (items @ [File n c])
      | Some (File f old) \<Rightarrow> Inr (replace_child (File n c) items)
      | Some (Dir d ch) \<Rightarrow> Inl GenerationError)"

text \<open>\<open>shutil.copytree(src, directory / n)\<close>: the target must not exist.\<close>

definition copytree_child :: "string \<Rightarrow> fnode list \<Rightarrow> fnode list \<Rightarrow> gen_error + fnode list" where
  "copytree_child n src items =
     (case lookup items n of
        None \<Rightarrow> Inr (items @ [Dir n src])
      | Some x \<Rightarrow> Inl GenerationError)"

subsection \<open>\<open>IGInputValidator.validate\<close>, as far as the generator uses it\<close>

text \<open>
  The generator raises unless the report is valid, and keeps the warnings. A check
  that fails makes the report invalid; an exception of the YAML loader leaves
  \<open>validate\<close> and is wrapped by \<open>generate\<close>. Both are \<open>GenerationError\<close> here.
\<close>

definition required_input_folders :: "string list" where
  "required_input_folders =
     [''resources'', ''examples'', ''pages'', ''styles'', ''pagetemplates-artifacts'']"

definition required_style_files :: "string list" where
  "required_style_files = [''master.html'', ''settings.style'', ''style.css'']"

definition pagetemplates_warning :: "fnode list \<Rightarrow> string list" where
  "pagetemplates_warning input =
     (case lookup input ''pagetemplates'' of
        None \<Rightarrow> []
      | Some (Dir d ch) \<Rightarrow>
          (if filter (\<lambda>x. endswith (node_name x) ''.md'') ch = []
           then [''Optional folder '' @ [CHR 0x27] @ ''pagetemplates'' @ [CHR 0x27]
                 @ '' is empty (no .md files found)'']
           else [])
      | Some (File f c) \<Rightarrow>
          [''Optional folder '' @ [CHR 0x27] @ ''pagetemplates'' @ [CHR 0x27]
           @ '' is empty (no .md files found)''])"

definition status_warning :: "(string \<times> json) list \<Rightarrow> string list" where
  "status_warning config =
     (let status = dict_get config ''status''
      in if \<not> blank status \<and> lower (strip (py_str status)) \<notin> set valid_statuses
         then [''Invalid status value '' @ [CHR 0x27] @ lower (strip (py_str status)) @ [CHR 0x27]
               @ '' for IG resource generation. Must be one of: draft, active, retired, unknown'']
         else [])"

definition variables_loadable :: "(content \<Rightarrow> yaml_file) \<Rightarrow> fnode list \<Rightarrow> bool" where
  "variables_loadable yaml_load input =
     (case lookup input ''variables.yaml'' of
        None \<Rightarrow> True
      | Some (File f c) \<Rightarrow> (case yaml_load c of Loaded v \<Rightarrow> True | _ \<Rightarrow> False)
      | Some (Dir d ch) \<Rightarrow> False)"

definition validate_input :: "(content \<Rightarrow> yaml_file) \<Rightarrow> fnode list \<Rightarrow> gen_error + string list" where
  "validate_input yaml_load input =
     (if list_ex (\<lambda>f. dir_listing input f = None) required_input_folders then Inl GenerationError
      else case file_content input ''guide.yaml'' of
          None \<Rightarrow> Inl GenerationError
        | Some c \<Rightarrow>
            (case yaml_load c of
               Loaded (JObj config) \<Rightarrow>
                 (if config = [] \<or> blank (dict_get config ''title'')
                     \<or> blank (dict_get config ''url-key'') \<or> blank (dict_get config ''style-name'')
                     \<or> \<not> variables_loadable yaml_load input
                  then Inl GenerationError
                  else (let style_name = strip (py_str (dict_get config ''style-name''))
                        in if \<not> plain_name style_name then Inl NotModelled
                           else case dir_listing input ''styles'' of
                               None \<Rightarrow> Inl GenerationError
                             | Some styles \<Rightarrow>
                                 (case dir_listing styles style_name of
                                    None \<Rightarrow> Inl GenerationError
                                  | Some custom \<Rightarrow>
                                      (if list_ex (\<lambda>f. file_content custom f = None) required_style_files
                                       then Inl GenerationError
                                       else Inr (pagetemplates_warning input @ status_warning config)))))
             | _ \<Rightarrow> Inl GenerationError))"

subsection \<open>Loading the configuration and the templates\<close>

definition load_guide_config ::
  "(content \<Rightarrow> yaml_file) \<Rightarrow> fnode list \<Rightarrow> gen_error + (string \<times> json) list \<times> string" where
  "load_guide_config yaml_load input =
     (case file_content input ''guide.yaml'' of
        None \<Rightarrow> Inl GenerationError
      | Some c \<Rightarrow>
          (case yaml_load c of
             Loaded (JObj config) \<Rightarrow>
               (let url_key = dict_get config ''url-key''
                in if config = [] \<or> \<not> truthy url_key then Inl GenerationError
                   else if strip (py_str url_key) = [] then Inl GenerationError
                   else Inr (config, strip (py_str url_key)))
           | _ \<Rightarrow> Inl GenerationError))"

definition load_variables_config :: "(content \<Rightarrow> yaml_file) \<Rightarrow> fnode list \<Rightarrow> gen_error + unit" where
  "load_variables_config yaml_load input =
     (if variables_loadable yaml_load input then Inr () else Inl GenerationError)"

definition template_files :: "(string \<times> string) list" where
  "template_files =
     [(''CodeSystem'', ''codesystem.md''), (''StructureDefinition'', ''structuredefinition.md''),
      (''ValueSet'', ''valueset.md''), (''Example'', ''examples.md'')]"

text \<open>
  A template is the text of its file. A file of the input that holds a dumped list of
  TOC entries has no modelled text.
\<close>

definition load_templates :: "fnode list \<Rightarrow> gen_error + (string \<rightharpoonup> string)" where
  "load_templates input =
     (case dir_listing input ''pagetemplates-artifacts'' of
        None \<Rightarrow> Inr Map.empty
      | Some templates_dir \<Rightarrow>
          (if list_ex (\<lambda>(resource_type, template_file).
                         case file_content templates_dir template_file of
                           Some (Yaml es) \<Rightarrow> True | _ \<Rightarrow> False) template_files
           then Inl NotModelled
           else Inr (\<lambda>resource_type.
                  case map_of template_files resource_type of
                    None \<Rightarrow> None
                  | Some template_file \<Rightarrow>
                      (case file_content templates_dir template_file of
                         Some (Bytes text) \<Rightarrow> Some text
                       | _ \<Rightarrow> None))))"

subsection \<open>\<open>IGGenerator._setup_output_directory\<close>\<close>

text \<open>
  The guide's directory below the output root is removed when it exists (\<open>rmtree\<close>
  raises on a file) and made again with an empty \<open>Home\<close>. The guide name is one path
  component.
\<close>

definition setup_output_directory :: "string \<Rightarrow> fnode list \<Rightarrow> gen_error + fnode list" where
  "setup_output_directory guide_name output_dir =
     (if \<not> plain_name guide_name then Inl NotModelled
      else case lookup output_dir guide_name of
          Some (File f c) \<Rightarrow> Inl GenerationError
        | _ \<Rightarrow> Inr (remove_child guide_name output_dir @ [Dir guide_name [Dir ''Home'' []]]))"

subsection \<open>The steps inside the guide's directory\<close>

definition copy_root_files :: "fnode list \<Rightarrow> fnode list \<Rightarrow> gen_error + fnode list" where
  "copy_root_files input guide =
     and_then (case file_content input ''guide.yaml'' of
                 Some c \<Rightarrow> insert_file [] ''guide.yaml'' c guide | None \<Rightarrow> Inr guide) (\<lambda>g1.
     and_then (case file_content input ''variables.yaml'' of
                 Some c \<Rightarrow> insert_file [] ''variables.yaml'' c g1 | None \<Rightarrow> Inr g1) (\<lambda>g2.
     and_then (case dir_listing input ''styles'' of
                 Some styles \<Rightarrow> copytree_child ''styles'' styles g2 | None \<Rightarrow> Inr g2) (\<lambda>g3.
     case dir_listing input ''images'' of
       Some images \<Rightarrow> at_path [''Home''] (copytree_child ''images'' images) g3
     | None \<Rightarrow> Inr g3)))"

definition copy_pagetemplates :: "fnode list \<Rightarrow> fnode list \<Rightarrow> gen_error + fnode list" where
  "copy_pagetemplates input home =
     (case dir_listing input ''pagetemplates'' of
        Some pt \<Rightarrow> copytree_child ''pagetemplates'' pt home
      | None \<Rightarrow> Inr home)"

text \<open>The files that \<open>glob("*.json")\<close> can see in a folder of the input.\<close>

definition fhir_files :: "(content \<Rightarrow> json option) \<Rightarrow> fnode list option \<Rightarrow> fhir_file list option" where
  "fhir_files json_load dir =
     map_option (map (\<lambda>x. \<lparr>path_name = node_name x,
                            parsed = (case x of File f c \<Rightarrow> json_load c | Dir d ch \<Rightarrow> None)\<rparr>)) dir"

text \<open>The calls of the artifact step, made below \<open>Home/artifacts\<close>.\<close>

fun apply_ops :: "fs_op list \<Rightarrow> fnode list \<Rightarrow> gen_error + fnode list" where
  "apply_ops [] home = Inr home"
| "apply_ops (Mkdir p # rest) home =
     and_then (at_path (butlast (''artifacts'' # p)) (mkdir_child (last (''artifacts'' # p))) home)
       (apply_ops rest)"
| "apply_ops (WriteText p text # rest) home =
     and_then (at_path (butlast (''artifacts'' # p)) (write_child (last (''artifacts'' # p)) (Bytes text)) home)
       (apply_ops rest)"

text \<open>
  \<open>_copy_artifact_index_pages\<close>: every \<open>*.index.md\<close> of the templates folder, in sorted
  order, is copied to the index page of the type that its name gives, and the type is
  recorded.
\<close>

fun copy_index_pages :: "fnode list \<Rightarrow> fnode list \<Rightarrow> string list \<Rightarrow> gen_error + fnode list \<times> string list" where
  "copy_index_pages [] home index_pages = Inr (home, index_pages)"
| "copy_index_pages (Dir d ch # rest) home index_pages = Inl GenerationError"
| "copy_index_pages (File f c # rest) home index_pages =
     (let resource_type = replace (stem_of f) ''.index'' []
      in if resource_type = ''..'' then Inl NotModelled
         else and_then
                (insert_file (''artifacts'' # (if resource_type = [] \<or> resource_type = ''.''
                                               then [] else [resource_type]))
                   ''index.page.md'' c home)
                (\<lambda>home'. copy_index_pages rest home' (index_pages @ [resource_type])))"

definition copy_artifact_index_pages :: "fnode list \<Rightarrow> fnode list \<Rightarrow> gen_error + fnode list \<times> string list" where
  "copy_artifact_index_pages input home =
     (case dir_listing input ''pagetemplates-artifacts'' of
        None \<Rightarrow> Inr (home, [])
      | Some templates_dir \<Rightarrow>
          copy_index_pages
            (sort_key node_name (filter (\<lambda>x. endswith (node_name x) ''.index.md'') templates_dir))
            home [])"

text \<open>Writing the TOC files: each is \<open>toc.yaml\<close> in its directory.\<close>

fun write_tocs :: "(string list \<times> toc_entry list) list \<Rightarrow> fnode list \<Rightarrow> gen_error + fnode list" where
  "write_tocs [] items = Inr items"
| "write_tocs ((p, entries) # rest) items =
     and_then (at_path p (write_child ''toc.yaml'' (Yaml entries)) items) (write_tocs rest)"

text \<open>
  The dictionary that \<open>generate\<close> returns, without \<open>output_path\<close> (the path of the
  guide's directory as a string).
\<close>

record generation_result =
  res_success :: bool
  res_guide_name :: string
  res_resource_count :: nat
  res_example_count :: nat
  res_page_count :: nat
  res_toc_files_generated :: nat
  res_warnings :: "string list"

text \<open>Steps 4 to 10 of \<open>generate\<close>, on the listing of the guide's directory.\<close>

definition build_guide ::
  "(content \<Rightarrow> json option) \<Rightarrow> (string \<times> json) list \<Rightarrow> string \<Rightarrow> (string \<rightharpoonup> string)
     \<Rightarrow> string list \<Rightarrow> fnode list \<Rightarrow> fnode list \<Rightarrow> gen_error + fnode list \<times> generation_result" where
  "build_guide json_load guide_config guide_name templates warnings input guide =
     and_then (copy_root_files input guide) (\<lambda>g4.
     and_then (in_dir ''Home'' (transform_pages (dir_listing input ''pages'')) g4) (\<lambda>(g5, page_count).
     and_then (at_path [''Home''] (copy_pagetemplates input) g5) (\<lambda>g6.
     and_then (generate_artifacts templates
                 (fhir_files json_load (dir_listing input ''resources''))
                 (fhir_files json_load (dir_listing input ''examples''))) (\<lambda>artifacts.
     and_then (at_path [''Home''] (apply_ops (ops artifacts)) g6) (\<lambda>g7.
     and_then (in_dir ''Home'' (copy_artifact_index_pages input) g7) (\<lambda>(g8, index_pages).
     and_then (generate_toc_files guide_config (case dir_listing g8 ''Home'' of Some h \<Rightarrow> h | None \<Rightarrow> []))
       (\<lambda>tocs.
     and_then (write_tocs (tocs_written tocs) g8) (\<lambda>g9.
     and_then (at_path [''Home'', ''artifacts'']
                 (write_tocs
                    (generate_artifacts_toc
                       (is_file_at (case dir_listing g9 ''Home'' of Some h \<Rightarrow> h | None \<Rightarrow> [])
                          [''artifacts'', ''index.page.md''])
                       index_pages (resources_by_type artifacts) (examples_list artifacts)))
                 g9) (\<lambda>g10.
     Inr (g10,
          \<lparr>res_success = True, res_guide_name = guide_name,
           res_resource_count = resource_count artifacts,
           res_example_count = example_count artifacts,
           res_page_count = page_count,
           res_toc_files_generated = toc_count tocs,
           res_warnings = warnings\<rparr>))))))))))"

subsection \<open>\<open>IGGenerator.generate\<close>\<close>

definition generate ::
  "(content \<Rightarrow> yaml_file) \<Rightarrow> (content \<Rightarrow> json option) \<Rightarrow> bool \<Rightarrow> fnode list \<Rightarrow> fnode list
     \<Rightarrow> gen_error + fnode list \<times> generation_result" where
  "generate yaml_load json_load skip_validation input output_dir =
     and_then (if skip_validation then Inr [] else validate_input yaml_load input) (\<lambda>warnings.
     and_then (load_guide_config yaml_load input) (\<lambda>(guide_config, guide_name).
     and_then (load_variables_config yaml_load input) (\<lambda>u.
     and_then (load_templates input) (\<lambda>templates.
     and_then (setup_output_directory guide_name output_dir) (\<lambda>out.
     in_dir guide_name
       (build_guide json_load guide_config guide_name templates warnings input) out)))))"

section \<open>Order and display names of a directory TOC: proofs\<close>

lemma filename_file_entry: "filename (file_entry f) = node_name f"
  by (simp add: file_entry_def Let_def)

lemma filename_dir_entry: "filename (dir_entry f) = node_name f"
  by (simp add: dir_entry_def Let_def)

lemma sorted_two_blocks:
  fixes f :: "'a \<Rightarrow> nat"
  assumes "sorted (map f xs)"
  shows "xs = filter (\<lambda>x. f x = 0) xs @ filter (\<lambda>x. f x \<noteq> 0) xs"
  using assms
proof (induction xs)
  case Nil
  then show ?case by simp
next
  case (Cons x xs)
  then have ih: "xs = filter (\<lambda>x. f x = 0) xs @ filter (\<lambda>x. f x \<noteq> 0) xs"
    by simp
  show ?case
  proof (cases "f x = 0")
    case True
    then show ?thesis using ih by simp
  next
    case False
    from Cons.prems have "\<forall>y\<in>set xs. f x \<le> f y" by simp
    with False have "\<forall>y\<in>set xs. f y \<noteq> 0" by auto
    then have "filter (\<lambda>x. f x = 0) xs = []" and "filter (\<lambda>x. f x \<noteq> 0) xs = xs"
      by (simp_all add: filter_empty_conv)
    with False show ?thesis by simp
  qed
qed

lemma sorted_map_filter: "sorted (map f xs) \<Longrightarrow> sorted (map f (filter P xs))"
  by (induction xs) auto

lemma sorted_fst_of_pairs:
  fixes k :: "'a \<Rightarrow> nat \<times> string"
  assumes "sorted (map k xs)"
  shows "sorted (map (fst \<circ> k) xs)"
proof -
  from assms have "sorted_wrt (\<lambda>x y. k x \<le> k y) xs"
    by (simp add: sorted_map)
  then have "sorted_wrt (\<lambda>x y. fst (k x) \<le> fst (k y)) xs"
    by (rule sorted_wrt_mono_rel [rotated]) (auto simp: less_eq_prod_def)
  then show ?thesis
    by (simp add: sorted_map)
qed

lemma toc_files_index_first:
  "map node_name (toc_files items) =
     filter is_index_name (map node_name (toc_files items)) @
     filter (\<lambda>n. \<not> is_index_name n) (map node_name (toc_files items))"
proof -
  have s: "sorted (map (fst \<circ> file_sort_key) (toc_files items))"
  proof -
    have "sorted (map file_sort_key (toc_files items))"
      by (simp add: toc_files_def)
    then show ?thesis
      by (rule sorted_fst_of_pairs)
  qed
  have k: "((fst \<circ> file_sort_key) x = 0) = is_index_name (node_name x)" for x
    by (simp add: file_sort_key_def is_index_name_def)
  from sorted_two_blocks [OF s]
  have "toc_files items = filter (\<lambda>x. is_index_name (node_name x)) (toc_files items)
      @ filter (\<lambda>x. \<not> is_index_name (node_name x)) (toc_files items)"
    unfolding k .
  then have "map node_name (toc_files items) = map node_name (filter (\<lambda>x. is_index_name (node_name x)) (toc_files items)
      @ filter (\<lambda>x. \<not> is_index_name (node_name x)) (toc_files items))"
    by simp
  then show ?thesis
    by (simp add: filter_map comp_def)
qed


lemma sorted_snd_of_pairs:
  fixes g :: "'a \<Rightarrow> string" and c :: nat
  assumes "sorted (map (\<lambda>x. (c, g x)) xs)"
  shows "sorted (map g xs)"
proof -
  from assms have "sorted_wrt (\<lambda>x y. (c, g x) \<le> (c, g y)) xs"
    by (simp add: sorted_map)
  then have "sorted_wrt (\<lambda>x y. g x \<le> g y) xs"
    by (rule sorted_wrt_mono_rel [rotated]) (auto simp: less_eq_prod_def)
  then show ?thesis
    by (simp add: sorted_map)
qed

lemma filenames_of_directory_toc:
  "map filename (generate_toc_for_directory items)
     = map node_name (toc_files items) @ map node_name (toc_dirs items)"
  by (simp add: generate_toc_for_directory_def filename_file_entry filename_dir_entry comp_def)

lemma page_not_reserved:
  assumes "endswith n ''.page.md''"
  shows "n \<noteq> ''toc.yaml''" and "n \<noteq> ''pagetemplates''"
proof -
  have "\<not> endswith ''toc.yaml'' ''.page.md''" and "\<not> endswith ''pagetemplates'' ''.page.md''"
    by (simp_all add: endswith_def)
  with assms show "n \<noteq> ''toc.yaml''" and "n \<noteq> ''pagetemplates''"
    by blast+
qed

lemma page_files_of_candidates:
  "filter (\<lambda>i. is_file i \<and> endswith (node_name i) ''.page.md'') (toc_candidates items)
     = filter (\<lambda>i. is_file i \<and> endswith (node_name i) ''.page.md'') items"
  unfolding toc_candidates_def filter_filter
  by (rule filter_cong) (auto dest: page_not_reserved)

lemma dir_not_file: "is_dir i \<Longrightarrow> \<not> is_file i"
  by (cases i) simp_all

lemma dirs_of_candidates:
  "filter (\<lambda>i. \<not> (is_file i \<and> endswith (node_name i) ''.page.md'') \<and> is_dir i
              \<and> \<not> startswith (node_name i) ''.'' \<and> \<not> startswith (node_name i) ''_'')
     (toc_candidates items)
   = filter (\<lambda>i. is_dir i \<and> \<not> startswith (node_name i) ''.'' \<and> \<not> startswith (node_name i) ''_''
                \<and> node_name i \<noteq> ''pagetemplates'' \<and> node_name i \<noteq> ''toc.yaml'') items"
  unfolding toc_candidates_def filter_filter
  by (rule filter_cong) (auto dest: dir_not_file)

lemma map_sort_key_self:
  fixes k :: "'a \<Rightarrow> 'b::linorder"
  shows "map k (sort_key k xs) = sort (map k xs)"
  by (rule properties_for_sort [symmetric]) simp_all

lemma sorted_block_names:
  fixes c :: nat
  assumes "sorted (map file_sort_key L)" and "\<forall>x\<in>set L. Q x \<longrightarrow> fst (file_sort_key x) = c"
  shows "sorted (map node_name (filter Q L))"
proof -
  from assms(1) have "sorted (map file_sort_key (filter Q L))"
    by (rule sorted_map_filter)
  moreover have "map file_sort_key (filter Q L) = map (\<lambda>x. (c, node_name x)) (filter Q L)"
  proof (rule map_cong [OF refl])
    fix x assume "x \<in> set (filter Q L)"
    with assms(2) have "fst (file_sort_key x) = c"
      by simp
    then show "file_sort_key x = (c, node_name x)"
      by (auto simp: file_sort_key_def split: if_splits)
  qed
  ultimately have "sorted (map (\<lambda>x. (c, node_name x)) (filter Q L))"
    by simp
  then show ?thesis
    by (rule sorted_snd_of_pairs)
qed

lemma toc_files_block:
  assumes "\<forall>x. Q x \<longrightarrow> fst (file_sort_key x) = (c::nat)"
  shows "map node_name (filter Q (toc_files items))
     = sort (map node_name
         (filter (\<lambda>i. is_file i \<and> endswith (node_name i) ''.page.md'' \<and> Q i) items))"
proof (rule properties_for_sort [symmetric])
  have "mset (filter Q (toc_files items))
      = mset (filter (\<lambda>i. is_file i \<and> endswith (node_name i) ''.page.md'' \<and> Q i) items)"
    by (simp add: toc_files_def page_files_of_candidates filter_filter_mset conj_ac)
  then show "mset (map node_name (filter Q (toc_files items)))
      = mset (map node_name
          (filter (\<lambda>i. is_file i \<and> endswith (node_name i) ''.page.md'' \<and> Q i) items))"
    by (simp only: mset_map)
  have "sorted (map file_sort_key (toc_files items))"
    by (simp add: toc_files_def)
  then show "sorted (map node_name (filter Q (toc_files items)))"
    by (rule sorted_block_names [where c = c]) (simp add: assms)
qed

lemma toc_files_names:
  "map node_name (toc_files items)
     = sort (map node_name (filter (\<lambda>i. is_file i \<and> endswith (node_name i) ''.page.md''
                                       \<and> lower (node_name i) = ''index.page.md'') items))
       @ sort (map node_name (filter (\<lambda>i. is_file i \<and> endswith (node_name i) ''.page.md''
                                       \<and> lower (node_name i) \<noteq> ''index.page.md'') items))"
proof -
  have "map node_name (toc_files items)
      = map node_name (filter (\<lambda>x. lower (node_name x) = ''index.page.md'') (toc_files items))
        @ map node_name (filter (\<lambda>x. lower (node_name x) \<noteq> ''index.page.md'') (toc_files items))"
    using toc_files_index_first [of items]
    by (simp add: filter_map comp_def is_index_name_def)
  moreover have "map node_name (filter (\<lambda>x. lower (node_name x) = ''index.page.md'') (toc_files items))
      = sort (map node_name (filter (\<lambda>i. is_file i \<and> endswith (node_name i) ''.page.md''
                                       \<and> lower (node_name i) = ''index.page.md'') items))"
    by (rule toc_files_block [where c = 0]) (simp add: file_sort_key_def)
  moreover have "map node_name (filter (\<lambda>x. lower (node_name x) \<noteq> ''index.page.md'') (toc_files items))
      = sort (map node_name (filter (\<lambda>i. is_file i \<and> endswith (node_name i) ''.page.md''
                                       \<and> lower (node_name i) \<noteq> ''index.page.md'') items))"
    by (rule toc_files_block [where c = 1]) (simp add: file_sort_key_def)
  ultimately show ?thesis
    by (simp only:)
qed

lemma toc_dirs_names:
  "map node_name (toc_dirs items)
     = sort (map node_name
         (filter (\<lambda>i. is_dir i \<and> \<not> startswith (node_name i) ''.'' \<and> \<not> startswith (node_name i) ''_''
                    \<and> node_name i \<noteq> ''pagetemplates'' \<and> node_name i \<noteq> ''toc.yaml'') items))"
  by (simp only: toc_dirs_def dirs_of_candidates map_sort_key_self)

lemma directory_toc_filenames:
  "map filename (generate_toc_for_directory items)
     = sort (map node_name (filter (\<lambda>i. is_file i \<and> endswith (node_name i) ''.page.md''
                                       \<and> lower (node_name i) = ''index.page.md'') items))
       @ sort (map node_name (filter (\<lambda>i. is_file i \<and> endswith (node_name i) ''.page.md''
                                       \<and> lower (node_name i) \<noteq> ''index.page.md'') items))
       @ sort (map node_name
           (filter (\<lambda>i. is_dir i \<and> \<not> startswith (node_name i) ''.'' \<and> \<not> startswith (node_name i) ''_''
                      \<and> node_name i \<noteq> ''pagetemplates'' \<and> node_name i \<noteq> ''toc.yaml'') items))"
  by (simp only: filenames_of_directory_toc toc_files_names toc_dirs_names append_assoc)

lemma name_home_entry:
  "home_entry home item = Some e \<Longrightarrow> name e = fst item"
  by (cases item) (auto simp: home_entry_def Let_def split: json.splits bool.splits if_splits)

lemma names_of_home_entries:
  "map name (List.map_filter (home_entry home) menu)
     = map fst (filter (\<lambda>item. home_entry home item \<noteq> None) menu)"
  by (induction menu) (auto simp: List.map_filter_def name_home_entry)

lemma menu_toc_order:
  assumes "dict_get guide_config ''menu'' = JObj menu"
    and "generate_home_toc guide_config home = Inr (Some home_toc)"
  shows "subseq (map name home_toc) (map fst menu)"
proof -
  from assms have "home_toc = List.map_filter (home_entry home) menu"
    by (auto simp: generate_home_toc_def Let_def split: if_splits)
  then show ?thesis
    by (simp add: names_of_home_entries subseq_map)
qed

lemma plain_home_toc:
  assumes "\<forall>m. dict_get guide_config ''menu'' \<noteq> JObj m"
    and "generate_home_toc guide_config home = Inr (Some home_toc)"
  shows "home_toc = generate_toc_for_directory home"
  using assms
  by (cases "dict_get guide_config ''menu''")
     (auto simp: generate_home_toc_def Let_def split: if_splits)

lemma artifacts_toc_filenames:
  "map filename (artifacts_toc index_is_file (group_by_type infos) examples)
     = (if index_is_file then [''index.page.md''] else [])
       @ map lower (sort (remdups (map type_of infos)))
       @ (if examples \<noteq> [] then [''examples''] else [])"
  by (simp add: artifacts_toc_def group_by_type_def index_toc_entry_def comp_def)

lemma type_toc_filenames:
  "map filename (type_toc index_pages rt resources)
     = (if lower rt \<in> set index_pages then [''index.page.md''] else [])
       @ map (\<lambda>i. i @ ''.page.md'') (sort (map id_of resources))"
proof -
  have "map filename (map artifact_entry (sort_key id_of resources))
      = map (\<lambda>i. i @ ''.page.md'') (map id_of (sort_key id_of resources))"
    by (simp add: artifact_entry_def comp_def)
  then show ?thesis
    by (simp add: type_toc_def index_toc_entry_def map_sort_key_self)
qed

lemma examples_toc_filenames:
  "map filename (examples_toc index_pages examples)
     = (if ''examples'' \<in> set index_pages then [''index.page.md''] else [])
       @ map (\<lambda>i. i @ ''.page.md'') (sort (map id_of examples))"
proof -
  have "map filename (map artifact_entry (sort_key id_of examples))
      = map (\<lambda>i. i @ ''.page.md'') (map id_of (sort_key id_of examples))"
    by (simp add: artifact_entry_def comp_def)
  then show ?thesis
    by (simp add: examples_toc_def index_toc_entry_def map_sort_key_self)
qed


text \<open>
  Claim C1, as stated, fails for every kind of TOC that the generator writes. In the TOC
  of a directory that holds the page \<open>b.page.md\<close> and the subdirectory \<open>a\<close>, the page
  comes first. With the menu \<open>About: about.md\<close>, \<open>Missing: true\<close>, \<open>Index: index.md\<close>
  the TOC of \<open>Home\<close> lists \<open>about.page.md\<close> before \<open>index.page.md\<close>. The TOC of \<open>artifacts\<close> lists
  \<open>valueset\<close> before \<open>examples\<close>. The TOC of a type (and of the examples) with the ids
  \<open>a-b\<close> and \<open>a\<close> lists \<open>a.page.md\<close> before \<open>a-b.page.md\<close>, which is the smaller file
  name, and two resources with the same id give the same file name twice.
\<close>

theorem toc_alphabetical_counterexample:
  "map filename (generate_toc_for_directory [File ''b.page.md'' (Bytes []), Dir ''a'' []]) = [''b.page.md'', ''a'']
   \<and> \<not> index_first_then_alphabetical (generate_toc_for_directory [File ''b.page.md'' (Bytes []), Dir ''a'' []])
   \<and> generate_home_toc [(''menu'', JObj [(''About'', JStr ''about.md''), (''Missing'', JBool True), (''Index'', JStr ''index.md'')])] [File ''about.page.md'' (Bytes []), File ''index.page.md'' (Bytes [])] = Inr (Some [\<lparr>name = ''About'', filename = ''about.page.md''\<rparr>, \<lparr>name = ''Index'', filename = ''index.page.md''\<rparr>])
   \<and> \<not> index_first_then_alphabetical [\<lparr>name = ''About'', filename = ''about.page.md''\<rparr>, \<lparr>name = ''Index'', filename = ''index.page.md''\<rparr>]
   \<and> map filename (artifacts_toc False (group_by_type [\<lparr>info_resourceType = JStr ''ValueSet'', info_id = JStr ''v1'', info_filename = ''v1'', info_url = JStr []\<rparr>]) [\<lparr>info_resourceType = JStr ''Patient'', info_id = JStr ''ex1'', info_filename = ''ex1'', info_url = JStr []\<rparr>]) = [''valueset'', ''examples'']
   \<and> \<not> index_first_then_alphabetical (artifacts_toc False (group_by_type [\<lparr>info_resourceType = JStr ''ValueSet'', info_id = JStr ''v1'', info_filename = ''v1'', info_url = JStr []\<rparr>]) [\<lparr>info_resourceType = JStr ''Patient'', info_id = JStr ''ex1'', info_filename = ''ex1'', info_url = JStr []\<rparr>])
   \<and> map filename (type_toc [] ''Patient'' [\<lparr>info_resourceType = JStr ''Patient'', info_id = JStr ''a-b'', info_filename = ''x'', info_url = JStr []\<rparr>, \<lparr>info_resourceType = JStr ''Patient'', info_id = JStr ''a'', info_filename = ''y'', info_url = JStr []\<rparr>]) = [''a.page.md'', ''a-b.page.md'']
   \<and> \<not> index_first_then_alphabetical (type_toc [] ''Patient'' [\<lparr>info_resourceType = JStr ''Patient'', info_id = JStr ''a-b'', info_filename = ''x'', info_url = JStr []\<rparr>, \<lparr>info_resourceType = JStr ''Patient'', info_id = JStr ''a'', info_filename = ''y'', info_url = JStr []\<rparr>])
   \<and> \<not> index_first_then_alphabetical (examples_toc [] [\<lparr>info_resourceType = JStr ''Patient'', info_id = JStr ''a-b'', info_filename = ''x'', info_url = JStr []\<rparr>, \<lparr>info_resourceType = JStr ''Patient'', info_id = JStr ''a'', info_filename = ''y'', info_url = JStr []\<rparr>])
   \<and> \<not> index_first_then_alphabetical (type_toc [] ''Patient'' [\<lparr>info_resourceType = JStr ''Patient'', info_id = JStr ''a'', info_filename = ''y'', info_url = JStr []\<rparr>, \<lparr>info_resourceType = JStr ''Patient'', info_id = JStr ''a'', info_filename = ''y'', info_url = JStr []\<rparr>])"
  by code_simp

text \<open>
  Claim C1, amended. In the TOC derived from the listing of a directory the file names
  are, in this order: the page files whose name is \<open>index.page.md\<close> in any letter case,
  in ascending order; the other files with the suffix \<open>.page.md\<close>, in ascending order of
  file name; the subdirectories whose name does not start with \<open>.\<close> or \<open>_\<close> and is not
  \<open>pagetemplates\<close>, in ascending order of name. When the configuration holds a menu
  mapping, the display names of the TOC of \<open>Home\<close> follow the order of the keys of the
  menu; when it holds none, the TOC of \<open>Home\<close> is the TOC derived from its listing. In the
  TOC of \<open>artifacts\<close> the entry of \<open>index.page.md\<close>, when that file exists, is first, the
  lowercased resource types follow in ascending order of the type as it is written in the
  resources, and the entry \<open>examples\<close>, when there are examples, is last. In the TOC of a
  resource type and in the TOC of the examples the entry of a custom index, when there is
  one, is first, and the pages of the resources follow in ascending order of id.
\<close>

theorem toc_order:
  "map filename (generate_toc_for_directory items)
     = sort (map node_name (filter (\<lambda>i. is_file i \<and> endswith (node_name i) ''.page.md''
                                       \<and> lower (node_name i) = ''index.page.md'') items))
       @ sort (map node_name (filter (\<lambda>i. is_file i \<and> endswith (node_name i) ''.page.md''
                                       \<and> lower (node_name i) \<noteq> ''index.page.md'') items))
       @ sort (map node_name
           (filter (\<lambda>i. is_dir i \<and> \<not> startswith (node_name i) ''.'' \<and> \<not> startswith (node_name i) ''_''
                      \<and> node_name i \<noteq> ''pagetemplates'' \<and> node_name i \<noteq> ''toc.yaml'') items))
   \<and> (dict_get menu_config ''menu'' = JObj menu
        \<and> generate_home_toc menu_config home = Inr (Some home_toc)
      \<longrightarrow> subseq (map name home_toc) (map fst menu))
   \<and> ((\<forall>m. dict_get plain_config ''menu'' \<noteq> JObj m)
        \<and> generate_home_toc plain_config plain_home = Inr (Some plain_toc)
      \<longrightarrow> plain_toc = generate_toc_for_directory plain_home)
   \<and> map filename (artifacts_toc index_is_file (group_by_type infos) examples)
     = (if index_is_file then [''index.page.md''] else [])
       @ map lower (sort (remdups (map type_of infos)))
       @ (if examples \<noteq> [] then [''examples''] else [])
   \<and> map filename (type_toc index_pages rt resources)
     = (if lower rt \<in> set index_pages then [''index.page.md''] else [])
       @ map (\<lambda>i. i @ ''.page.md'') (sort (map id_of resources))
   \<and> map filename (examples_toc index_pages examples)
     = (if ''examples'' \<in> set index_pages then [''index.page.md''] else [])
       @ map (\<lambda>i. i @ ''.page.md'') (sort (map id_of examples))"
  using directory_toc_filenames [of items]
    menu_toc_order [of menu_config menu home home_toc]
    plain_home_toc [of plain_config plain_home plain_toc]
    artifacts_toc_filenames [of index_is_file infos examples]
    type_toc_filenames [of index_pages rt resources]
    examples_toc_filenames [of index_pages examples]
  by blast

theorem toc_order_witness:
  "map filename (generate_toc_for_directory
      [File ''zeta.page.md'' (Bytes []), Dir ''alpha'' [], File ''Index.page.md'' (Bytes []),
       File ''beta.page.md'' (Bytes []), Dir ''_hidden'' [], File ''notes.txt'' (Bytes []),
       Dir ''pagetemplates'' []])
     = [''Index.page.md'', ''beta.page.md'', ''zeta.page.md'', ''alpha'']
   \<and> generate_home_toc [(''menu'', JObj [(''About'', JStr ''about.md''), (''Missing'', JBool True), (''Index'', JStr ''index.md'')])] [File ''about.page.md'' (Bytes []), File ''index.page.md'' (Bytes [])] = Inr (Some [\<lparr>name = ''About'', filename = ''about.page.md''\<rparr>, \<lparr>name = ''Index'', filename = ''index.page.md''\<rparr>])
   \<and> subseq [''About'', ''Index''] [''About'', ''Missing'', ''Index'']
   \<and> generate_home_toc [] [File ''b.page.md'' (Bytes []), Dir ''a'' []] = Inr (Some [\<lparr>name = ''B'', filename = ''b.page.md''\<rparr>, \<lparr>name = ''A'', filename = ''a''\<rparr>])
   \<and> generate_toc_for_directory [File ''b.page.md'' (Bytes []), Dir ''a'' []] = [\<lparr>name = ''B'', filename = ''b.page.md''\<rparr>, \<lparr>name = ''A'', filename = ''a''\<rparr>]
   \<and> map filename (artifacts_toc True (group_by_type [\<lparr>info_resourceType = JStr ''ValueSet'', info_id = JStr ''v1'', info_filename = ''v1'', info_url = JStr []\<rparr>, \<lparr>info_resourceType = JStr ''Patient'', info_id = JStr ''a'', info_filename = ''y'', info_url = JStr []\<rparr>, \<lparr>info_resourceType = JStr ''Patient'', info_id = JStr ''a-b'', info_filename = ''x'', info_url = JStr []\<rparr>]) [\<lparr>info_resourceType = JStr ''Patient'', info_id = JStr ''ex1'', info_filename = ''ex1'', info_url = JStr []\<rparr>])
     = [''index.page.md'', ''patient'', ''valueset'', ''examples'']
   \<and> map filename (type_toc [''patient''] ''Patient'' [\<lparr>info_resourceType = JStr ''Patient'', info_id = JStr ''a-b'', info_filename = ''x'', info_url = JStr []\<rparr>, \<lparr>info_resourceType = JStr ''Patient'', info_id = JStr ''a'', info_filename = ''y'', info_url = JStr []\<rparr>])
     = [''index.page.md'', ''a.page.md'', ''a-b.page.md'']
   \<and> map filename (examples_toc [] [\<lparr>info_resourceType = JStr ''Patient'', info_id = JStr ''ex1'', info_filename = ''ex1'', info_url = JStr []\<rparr>, \<lparr>info_resourceType = JStr ''Patient'', info_id = JStr ''a'', info_filename = ''y'', info_url = JStr []\<rparr>]) = [''a.page.md'', ''ex1.page.md'']"
proof -
  let ?items = "[File ''zeta.page.md'' (Bytes []), Dir ''alpha'' [], File ''Index.page.md'' (Bytes []),
       File ''beta.page.md'' (Bytes []), Dir ''_hidden'' [], File ''notes.txt'' (Bytes []),
       Dir ''pagetemplates'' []]"
  let ?cfg = "[(''menu'', JObj [(''About'', JStr ''about.md''), (''Missing'', JBool True), (''Index'', JStr ''index.md'')])]"
  note t = toc_order [of ?items ?cfg "[(''About'', JStr ''about.md''), (''Missing'', JBool True), (''Index'', JStr ''index.md'')]" "[File ''about.page.md'' (Bytes []), File ''index.page.md'' (Bytes [])]" "[\<lparr>name = ''About'', filename = ''about.page.md''\<rparr>, \<lparr>name = ''Index'', filename = ''index.page.md''\<rparr>]" "[]" "[File ''b.page.md'' (Bytes []), Dir ''a'' []]" "[\<lparr>name = ''B'', filename = ''b.page.md''\<rparr>, \<lparr>name = ''A'', filename = ''a''\<rparr>]"
      True "[\<lparr>info_resourceType = JStr ''ValueSet'', info_id = JStr ''v1'', info_filename = ''v1'', info_url = JStr []\<rparr>, \<lparr>info_resourceType = JStr ''Patient'', info_id = JStr ''a'', info_filename = ''y'', info_url = JStr []\<rparr>, \<lparr>info_resourceType = JStr ''Patient'', info_id = JStr ''a-b'', info_filename = ''x'', info_url = JStr []\<rparr>]" "[\<lparr>info_resourceType = JStr ''Patient'', info_id = JStr ''ex1'', info_filename = ''ex1'', info_url = JStr []\<rparr>]" "[''patient'']" "''Patient''" "[\<lparr>info_resourceType = JStr ''Patient'', info_id = JStr ''a-b'', info_filename = ''x'', info_url = JStr []\<rparr>, \<lparr>info_resourceType = JStr ''Patient'', info_id = JStr ''a'', info_filename = ''y'', info_url = JStr []\<rparr>]"]
  have m: "dict_get ?cfg ''menu'' = JObj [(''About'', JStr ''about.md''), (''Missing'', JBool True), (''Index'', JStr ''index.md'')]"
    by code_simp
  have h: "generate_home_toc ?cfg [File ''about.page.md'' (Bytes []), File ''index.page.md'' (Bytes [])] = Inr (Some [\<lparr>name = ''About'', filename = ''about.page.md''\<rparr>, \<lparr>name = ''Index'', filename = ''index.page.md''\<rparr>])"
    by code_simp
  have n: "\<forall>m. dict_get [] ''menu'' \<noteq> JObj m"
    by (simp add: dict_get_def dict_get_default_def)
  have p: "generate_home_toc [] [File ''b.page.md'' (Bytes []), Dir ''a'' []] = Inr (Some [\<lparr>name = ''B'', filename = ''b.page.md''\<rparr>, \<lparr>name = ''A'', filename = ''a''\<rparr>])"
    by code_simp
  have d: "sort (map node_name (filter (\<lambda>i. is_file i \<and> endswith (node_name i) ''.page.md''
                                       \<and> lower (node_name i) = ''index.page.md'') ?items))
       @ sort (map node_name (filter (\<lambda>i. is_file i \<and> endswith (node_name i) ''.page.md''
                                       \<and> lower (node_name i) \<noteq> ''index.page.md'') ?items))
       @ sort (map node_name
           (filter (\<lambda>i. is_dir i \<and> \<not> startswith (node_name i) ''.'' \<and> \<not> startswith (node_name i) ''_''
                      \<and> node_name i \<noteq> ''pagetemplates'' \<and> node_name i \<noteq> ''toc.yaml'') ?items))
     = [''Index.page.md'', ''beta.page.md'', ''zeta.page.md'', ''alpha'']"
    by code_simp
  have a: "(if True then [''index.page.md''] else [])
       @ map lower (sort (remdups (map type_of [\<lparr>info_resourceType = JStr ''ValueSet'', info_id = JStr ''v1'', info_filename = ''v1'', info_url = JStr []\<rparr>, \<lparr>info_resourceType = JStr ''Patient'', info_id = JStr ''a'', info_filename = ''y'', info_url = JStr []\<rparr>, \<lparr>info_resourceType = JStr ''Patient'', info_id = JStr ''a-b'', info_filename = ''x'', info_url = JStr []\<rparr>])))
       @ (if [\<lparr>info_resourceType = JStr ''Patient'', info_id = JStr ''ex1'', info_filename = ''ex1'', info_url = JStr []\<rparr>] \<noteq> [] then [''examples''] else [])
     = [''index.page.md'', ''patient'', ''valueset'', ''examples'']"
    by code_simp
  have y: "(if lower ''Patient'' \<in> set [''patient''] then [''index.page.md''] else [])
       @ map (\<lambda>i. i @ ''.page.md'') (sort (map id_of [\<lparr>info_resourceType = JStr ''Patient'', info_id = JStr ''a-b'', info_filename = ''x'', info_url = JStr []\<rparr>, \<lparr>info_resourceType = JStr ''Patient'', info_id = JStr ''a'', info_filename = ''y'', info_url = JStr []\<rparr>]))
     = [''index.page.md'', ''a.page.md'', ''a-b.page.md'']"
    by code_simp
  have c1: "map filename (generate_toc_for_directory ?items)
      = [''Index.page.md'', ''beta.page.md'', ''zeta.page.md'', ''alpha'']"
    using t d by (simp only:)
  have c2: "subseq (map name [\<lparr>name = ''About'', filename = ''about.page.md''\<rparr>, \<lparr>name = ''Index'', filename = ''index.page.md''\<rparr>]) (map fst [(''About'', JStr ''about.md''), (''Missing'', JBool True), (''Index'', JStr ''index.md'')])"
    using t m h by blast
  then have c2': "subseq [''About'', ''Index''] [''About'', ''Missing'', ''Index'']"
    by simp
  have c3: "[\<lparr>name = ''B'', filename = ''b.page.md''\<rparr>, \<lparr>name = ''A'', filename = ''a''\<rparr>] = generate_toc_for_directory [File ''b.page.md'' (Bytes []), Dir ''a'' []]"
    using t n p by blast
  have c4: "map filename (artifacts_toc True (group_by_type [\<lparr>info_resourceType = JStr ''ValueSet'', info_id = JStr ''v1'', info_filename = ''v1'', info_url = JStr []\<rparr>, \<lparr>info_resourceType = JStr ''Patient'', info_id = JStr ''a'', info_filename = ''y'', info_url = JStr []\<rparr>, \<lparr>info_resourceType = JStr ''Patient'', info_id = JStr ''a-b'', info_filename = ''x'', info_url = JStr []\<rparr>]) [\<lparr>info_resourceType = JStr ''Patient'', info_id = JStr ''ex1'', info_filename = ''ex1'', info_url = JStr []\<rparr>])
      = [''index.page.md'', ''patient'', ''valueset'', ''examples'']"
    using t a by (simp only:)
  have c5: "map filename (type_toc [''patient''] ''Patient'' [\<lparr>info_resourceType = JStr ''Patient'', info_id = JStr ''a-b'', info_filename = ''x'', info_url = JStr []\<rparr>, \<lparr>info_resourceType = JStr ''Patient'', info_id = JStr ''a'', info_filename = ''y'', info_url = JStr []\<rparr>])
      = [''index.page.md'', ''a.page.md'', ''a-b.page.md'']"
    using t y by (simp only:)
  have c6: "map filename (examples_toc [] [\<lparr>info_resourceType = JStr ''Patient'', info_id = JStr ''ex1'', info_filename = ''ex1'', info_url = JStr []\<rparr>, \<lparr>info_resourceType = JStr ''Patient'', info_id = JStr ''a'', info_filename = ''y'', info_url = JStr []\<rparr>]) = [''a.page.md'', ''ex1.page.md'']"
    by code_simp
  from c1 h c2' p c3 [symmetric] c4 c5 c6 show ?thesis
    by (simp only: simp_thms)
qed

text \<open>
  Claim C2 (a defect of the code). The TOC of a directory replaces hyphens only: the page
  \<open>my_page.page.md\<close> is listed as \<open>My_Page\<close>, while \<open>format_title\<close>, which titles the
  same page in the ImplementationGuide resource, gives \<open>My Page\<close>.
\<close>

theorem toc_display_keeps_underscore:
  "generate_toc_for_directory [File ''my_page.page.md'' (Bytes [])]
     = [\<lparr>name = ''My_Page'', filename = ''my_page.page.md''\<rparr>]
   \<and> format_title ''my_page'' = ''My Page''"
  by code_simp


section \<open>Placeholder substitution: proofs\<close>

lemma not_space_brace: "\<not> is_space (CHR ''}'')"
  by (simp add: is_space_def whitespace_def)

lemma takeWhile_stop:
  assumes "\<forall>x\<in>set xs. P x" and "\<not> P y"
  shows "takeWhile P (xs @ y # ys) = xs"
  using assms by (induction xs) auto

lemma drop_takeWhile_append:
  "drop (length (takeWhile P xs)) (xs @ ys) = dropWhile P xs @ ys"
  by (induction xs) auto

lemma length_takeWhile_dropWhile:
  "length (takeWhile P xs) + length (dropWhile P xs) = length xs"
  by (induction xs) auto

lemma drop_to_last:
  assumes "length xs = Suc m"
  shows "drop m xs = [last xs]"
  using assms by (cases xs rule: rev_cases) auto

lemma first_success_hit: "f k = Some r \<Longrightarrow> first_success f (k # ks) = Some r"
  by simp

lemma first_success_miss: "f k = None \<Longrightarrow> first_success f (k # ks) = first_success f ks"
  by simp

lemma match_re_Lit:
  "match_re (Lit l # as) s =
     (if startswith s l
      then map_option (\<lambda>(g, n). (g, length l + n)) (match_re as (drop (length l) s))
      else None)"
  by simp

lemma match_re_Spaces:
  "match_re (Spaces # as) s =
     first_success (\<lambda>k. map_option (\<lambda>(g, n). (g, k + n)) (match_re as (drop k s)))
       (rev [0 ..< Suc (length (takeWhile is_space s))])"
  by simp

lemma match_re_Name:
  "match_re (Name # as) s =
     first_success (\<lambda>k. map_option (\<lambda>(g, n). (take k s, k + n)) (match_re as (drop k s)))
       (rev [1 ..< Suc (length (takeWhile (\<lambda>c. c \<noteq> CHR ''}'') s))])"
  by simp

lemma rev_upt_from_one: "0 < n \<Longrightarrow> rev [1 ..< Suc n] = n # rev [1 ..< n]"
  by simp

lemma rev_upt_from_zero: "rev [0 ..< Suc n] = n # rev [0 ..< n]"
  by simp

lemma match_Name_greedy:
  assumes tw: "takeWhile (\<lambda>c. c \<noteq> CHR ''}'') s = b"
    and ne: "b \<noteq> []"
    and rest: "match_re as (drop (length b) s) = Some (g, n)"
  shows "match_re (Name # as) s = Some (b, length b + n)"
proof -
  let ?F = "\<lambda>k. map_option (\<lambda>(g, n). (take k s, k + n)) (match_re as (drop k s))"
  have "take (length b) s = b"
    using tw takeWhile_eq_take [of "\<lambda>c. c \<noteq> CHR ''}''" s] by simp
  with rest have hit: "?F (length b) = Some (b, length b + n)"
    by (simp del: match_re.simps)
  from ne have "0 < length b"
    by simp
  then have cands: "rev [1 ..< Suc (length b)] = length b # rev [1 ..< length b]"
    by (rule rev_upt_from_one)
  have "match_re (Name # as) s = first_success ?F (rev [1 ..< Suc (length b)])"
    by (simp only: match_re_Name tw)
  also have "\<dots> = first_success ?F (length b # rev [1 ..< length b])"
    by (simp only: cands)
  also have "\<dots> = Some (b, length b + n)"
    using hit by (rule first_success_hit)
  finally show ?thesis .
qed

lemma match_Name_none:
  assumes "takeWhile (\<lambda>c. c \<noteq> CHR ''}'') s = []"
  shows "match_re (Name # as) s = None"
  by (simp only: match_re_Name assms) simp

lemma match_Spaces_greedy:
  assumes tw: "takeWhile is_space s = ws"
    and rest: "match_re as (drop (length ws) s) = Some (g, n)"
  shows "match_re (Spaces # as) s = Some (g, length ws + n)"
proof -
  let ?F = "\<lambda>k. map_option (\<lambda>(g, n). (g, k + n)) (match_re as (drop k s))"
  from rest have hit: "?F (length ws) = Some (g, length ws + n)"
    by (simp del: match_re.simps)
  have "match_re (Spaces # as) s = first_success ?F (rev [0 ..< Suc (length ws)])"
    by (simp only: match_re_Spaces tw)
  also have "\<dots> = first_success ?F (length ws # rev [0 ..< length ws])"
    by (simp only: rev_upt_from_zero)
  also have "\<dots> = Some (g, length ws + n)"
    using hit by (rule first_success_hit)
  finally show ?thesis .
qed

lemma match_Spaces_give_back:
  assumes tw: "takeWhile is_space s = ws"
    and len: "length ws = Suc m"
    and all: "match_re as (drop (Suc m) s) = None"
    and rest: "match_re as (drop m s) = Some (g, n)"
  shows "match_re (Spaces # as) s = Some (g, m + n)"
proof -
  let ?F = "\<lambda>k. map_option (\<lambda>(g, n). (g, k + n)) (match_re as (drop k s))"
  from all have miss: "?F (Suc m) = None"
    by (simp del: match_re.simps)
  from rest have hit: "?F m = Some (g, m + n)"
    by (simp del: match_re.simps)
  have "match_re (Spaces # as) s = first_success ?F (rev [0 ..< Suc (Suc m)])"
    by (simp only: match_re_Spaces tw len)
  also have "\<dots> = first_success ?F (Suc m # rev [0 ..< Suc m])"
    by (simp only: rev_upt_from_zero)
  also have "\<dots> = first_success ?F (rev [0 ..< Suc m])"
    using miss by (rule first_success_miss)
  also have "\<dots> = first_success ?F (m # rev [0 ..< m])"
    by (simp only: rev_upt_from_zero)
  also have "\<dots> = Some (g, m + n)"
    using hit by (rule first_success_hit)
  finally show ?thesis .
qed

lemma match_closing:
  "match_re [Spaces, Lit ''}}''] (''}}'' @ rest) = Some ([], 2)"
  by (simp add: not_space_brace startswith_def)

lemma takeWhile_name:
  assumes "CHR ''}'' \<notin> set b"
  shows "takeWhile (\<lambda>c. c \<noteq> CHR ''}'') (b @ ''}}'' @ rest) = b"
proof -
  from assms have "\<forall>x\<in>set b. x \<noteq> CHR ''}''"
    by auto
  then have "takeWhile (\<lambda>c. c \<noteq> CHR ''}'') (b @ CHR ''}'' # (CHR ''}'' # rest)) = b"
    by (rule takeWhile_stop) simp
  then show ?thesis by simp
qed

lemma match_name:
  assumes "b \<noteq> []" and "CHR ''}'' \<notin> set b"
  shows "match_re [Name, Spaces, Lit ''}}''] (b @ ''}}'' @ rest) = Some (b, length b + 2)"
proof (rule match_Name_greedy)
  show "takeWhile (\<lambda>c. c \<noteq> CHR ''}'') (b @ ''}}'' @ rest) = b"
    using assms(2) by (rule takeWhile_name)
  show "b \<noteq> []" by fact
  have "drop (length b) (b @ ''}}'' @ rest) = ''}}'' @ rest"
    by simp
  then show "match_re [Spaces, Lit ''}}''] (drop (length b) (b @ ''}}'' @ rest)) = Some ([], 2)"
    using match_closing [of rest] by (simp only:)
qed

lemma strip_lstrip: "strip (lstrip s) = strip s"
  by (simp add: strip_def lstrip_def)

lemma strip_all_space:
  assumes "\<forall>c\<in>set s. is_space c"
  shows "strip s = []"
proof -
  from assms have d: "dropWhile is_space s = []"
    by (simp add: dropWhile_eq_Nil_conv)
  show ?thesis
    unfolding strip_def lstrip_def rstrip_def d by simp
qed

lemma takeWhile_space_body:
  "takeWhile is_space (body @ ''}}'' @ rest) = takeWhile is_space body"
  by (induction body) (simp_all add: not_space_brace)

lemma match_spaces_name:
  assumes "body \<noteq> []" and "CHR ''}'' \<notin> set body"
  shows "\<exists>g. match_re [Spaces, Name, Spaces, Lit ''}}''] (body @ ''}}'' @ rest)
               = Some (g, length body + 2) \<and> strip g = strip body"
proof -
  let ?s = "body @ ''}}'' @ rest"
  let ?ws = "takeWhile is_space body"
  let ?b = "dropWhile is_space body"
  have tw: "takeWhile is_space ?s = ?ws"
    by (rule takeWhile_space_body)
  show ?thesis
  proof (cases "?b = []")
    case False
    have d: "drop (length ?ws) ?s = ?b @ ''}}'' @ rest"
      by (rule drop_takeWhile_append)
    have "CHR ''}'' \<notin> set ?b"
      using assms(2) set_dropWhileD by fastforce
    with False have "match_re [Name, Spaces, Lit ''}}''] (?b @ ''}}'' @ rest)
        = Some (?b, length ?b + 2)"
      by (rule match_name)
    then have "match_re [Name, Spaces, Lit ''}}''] (drop (length ?ws) ?s) = Some (?b, length ?b + 2)"
      by (simp only: d)
    with tw have "match_re [Spaces, Name, Spaces, Lit ''}}''] ?s
        = Some (?b, length ?ws + (length ?b + 2))"
      by (rule match_Spaces_greedy)
    moreover have "length ?ws + (length ?b + 2) = length body + 2"
      using length_takeWhile_dropWhile [of is_space body] by simp
    moreover have "strip ?b = strip body"
      using strip_lstrip [of body] by (simp add: lstrip_def)
    ultimately show ?thesis
      by (simp del: match_re.simps)
  next
    case True
    then have all: "\<forall>c\<in>set body. is_space c"
      by (simp add: dropWhile_eq_Nil_conv)
    then have ws: "?ws = body"
      by (simp add: takeWhile_eq_all_conv)
    from assms(1) obtain m where m: "length body = Suc m"
      by (cases body) auto
    have "takeWhile (\<lambda>c. c \<noteq> CHR ''}'') (''}}'' @ rest) = []"
      by simp
    then have "match_re [Name, Spaces, Lit ''}}''] (''}}'' @ rest) = None"
      by (rule match_Name_none)
    moreover have "drop (Suc m) ?s = ''}}'' @ rest"
      using m by simp
    ultimately have none: "match_re [Name, Spaces, Lit ''}}''] (drop (Suc m) ?s) = None"
      by (simp only:)
    have "drop m body = [last body]"
      using m by (rule drop_to_last)
    moreover have "drop m ?s = drop m body @ ''}}'' @ rest"
      using m by simp
    ultimately have dm: "drop m ?s = [last body] @ ''}}'' @ rest"
      by (simp only:)
    have "CHR ''}'' \<notin> set [last body]"
      using assms last_in_set [of body] by auto
    then have "match_re [Name, Spaces, Lit ''}}''] ([last body] @ ''}}'' @ rest)
        = Some ([last body], length [last body] + 2)"
      by (intro match_name) simp_all
    then have some: "match_re [Name, Spaces, Lit ''}}''] (drop m ?s) = Some ([last body], 3)"
      by (simp only: dm) simp
    have "takeWhile is_space ?s = body"
      using tw ws by (simp only:)
    then have "match_re [Spaces, Name, Spaces, Lit ''}}''] ?s = Some ([last body], m + 3)"
      using m none some by (rule match_Spaces_give_back)
    moreover have "m + 3 = length body + 2"
      using m by simp
    moreover have "strip [last body] = strip body"
    proof -
      have "is_space (last body)"
        using all assms(1) by simp
      then have "strip [last body] = []"
        by (intro strip_all_space) simp
      with strip_all_space [OF all] show ?thesis by simp
    qed
    ultimately show ?thesis
      by (simp del: match_re.simps)
  qed
qed


lemma match_ig_var:
  assumes "body \<noteq> []" and "CHR ''}'' \<notin> set body"
  shows "\<exists>g. match_re ig_var_pattern (''{{ig-var:'' @ body @ ''}}'' @ rest)
               = Some (g, length (''{{ig-var:'' @ body @ ''}}'')) \<and> strip g = strip body"
proof -
  from match_spaces_name [OF assms, of rest] obtain g where
    g: "match_re [Spaces, Name, Spaces, Lit ''}}''] (body @ ''}}'' @ rest) = Some (g, length body + 2)"
    and s: "strip g = strip body"
    by blast
  have "startswith (''{{ig-var:'' @ body @ ''}}'' @ rest) ''{{ig-var:''"
    by (simp add: startswith_def)
  moreover have "drop (length ''{{ig-var:'') (''{{ig-var:'' @ body @ ''}}'' @ rest) = body @ ''}}'' @ rest"
    by simp
  ultimately have "match_re (Lit ''{{ig-var:'' # [Spaces, Name, Spaces, Lit ''}}''])
      (''{{ig-var:'' @ body @ ''}}'' @ rest) = Some (g, length ''{{ig-var:'' + (length body + 2))"
    using g by (simp only: match_re_Lit if_True option.map prod.case)
  then have "match_re ig_var_pattern (''{{ig-var:'' @ body @ ''}}'' @ rest)
      = Some (g, length (''{{ig-var:'' @ body @ ''}}''))"
    by (simp add: ig_var_pattern_def del: match_re.simps)
  with s show ?thesis by blast
qed

lemma match_ig_var_needs_brace:
  assumes "c \<noteq> CHR ''{''"
  shows "match_re ig_var_pattern (c # cs) = None"
  using assms by (simp add: ig_var_pattern_def startswith_def)

lemma sub_ig_var_plain:
  assumes "CHR ''{'' \<notin> set pre"
  shows "sub_ig_var variables (pre @ t) = pre @ sub_ig_var variables t"
  using assms
proof (induction pre)
  case Nil
  then show ?case by simp
next
  case (Cons c pre)
  then have "match_re ig_var_pattern (c # pre @ t) = None"
    by (intro match_ig_var_needs_brace) auto
  with Cons show ?case
    by (simp del: match_re.simps)
qed

lemma sub_ig_var_occurrence:
  assumes "body \<noteq> []" and "CHR ''}'' \<notin> set body"
  shows "sub_ig_var variables (''{{ig-var:'' @ body @ ''}}'' @ rest)
           = (case variables (strip body) of Some v \<Rightarrow> v | None \<Rightarrow> ''{{ig-var:'' @ body @ ''}}'')
             @ sub_ig_var variables rest"
proof -
  let ?occ = "''{{ig-var:'' @ body @ ''}}''"
  define n where "n = length ?occ"
  from match_ig_var [OF assms, of rest] obtain g where
    g: "match_re ig_var_pattern (?occ @ rest) = Some (g, n)"
    and s: "strip g = strip body"
    unfolding n_def by (metis append.assoc)
  obtain c cs where ccs: "?occ @ rest = c # cs"
    by simp
  have n: "n \<noteq> 0"
    by (simp add: n_def)
  have "sub_ig_var variables (c # cs)
      = (case variables (strip g) of Some v \<Rightarrow> v | None \<Rightarrow> take n (c # cs))
        @ sub_ig_var variables (drop n (c # cs))"
    using g n unfolding ccs by (simp del: match_re.simps)
  moreover have "take n (?occ @ rest) = ?occ" and "drop n (?occ @ rest) = rest"
    by (simp_all add: n_def)
  ultimately have "sub_ig_var variables (?occ @ rest)
      = (case variables (strip g) of Some v \<Rightarrow> v | None \<Rightarrow> ?occ) @ sub_ig_var variables rest"
    unfolding ccs [symmetric] by (simp only:)
  then show ?thesis
    by (simp only: s append.assoc)
qed

lemma first_success_Some:
  assumes "first_success f ks = Some r"
  shows "\<exists>k\<in>set ks. f k = Some r"
  using assms by (induction ks) (auto split: option.splits)

lemma take_within_takeWhile:
  assumes "k \<le> length (takeWhile P s)"
  shows "\<forall>c\<in>set (take k s). P c"
  using assms
proof (induction s arbitrary: k)
  case Nil
  then show ?case by simp
next
  case (Cons x xs)
  show ?case
  proof (cases k)
    case 0
    then show ?thesis by simp
  next
    case (Suc j)
    with Cons.prems have "P x" and "j \<le> length (takeWhile P xs)"
      by (auto split: if_splits)
    with Cons.IH Suc show ?thesis by simp
  qed
qed

lemma startswith_append:
  assumes "startswith s p"
  shows "s = p @ drop (length p) s"
proof -
  have "s = take (length p) s @ drop (length p) s"
    by simp
  with assms show ?thesis
    by (simp only: startswith_def)
qed

lemma match_Lit_Some:
  assumes "match_re (Lit l # as) s = Some (g, n)"
  shows "startswith s l \<and> (\<exists>n'. match_re as (drop (length l) s) = Some (g, n'))"
  using assms by (auto simp del: match_re.simps simp add: match_re_Lit split: if_splits)

lemma match_Spaces_Some:
  assumes "match_re (Spaces # as) s = Some (g, n)"
  shows "\<exists>k n'. (\<forall>c\<in>set (take k s). is_space c) \<and> match_re as (drop k s) = Some (g, n')"
proof -
  let ?F = "\<lambda>k. map_option (\<lambda>(g, n). (g, k + n)) (match_re as (drop k s))"
  from assms have "first_success ?F (rev [0 ..< Suc (length (takeWhile is_space s))]) = Some (g, n)"
    by (simp only: match_re_Spaces)
  then obtain k where k: "k \<in> set (rev [0 ..< Suc (length (takeWhile is_space s))])"
    and fk: "?F k = Some (g, n)"
    by (blast dest: first_success_Some)
  from k have "k \<le> length (takeWhile is_space s)"
    by auto
  then have "\<forall>c\<in>set (take k s). is_space c"
    by (rule take_within_takeWhile)
  moreover from fk obtain n' where "match_re as (drop k s) = Some (g, n')"
    by (auto simp del: match_re.simps)
  ultimately show ?thesis by blast
qed

lemma match_Name_Some:
  assumes "match_re (Name # as) s = Some (g, n)"
  shows "\<exists>k g' n'. 0 < k \<and> k \<le> length s \<and> (\<forall>c\<in>set (take k s). c \<noteq> CHR ''}'')
           \<and> match_re as (drop k s) = Some (g', n')"
proof -
  let ?L = "length (takeWhile (\<lambda>c. c \<noteq> CHR ''}'') s)"
  let ?F = "\<lambda>k. map_option (\<lambda>(g, n). (take k s, k + n)) (match_re as (drop k s))"
  from assms have "first_success ?F (rev [1 ..< Suc ?L]) = Some (g, n)"
    by (simp only: match_re_Name)
  then obtain k where k: "k \<in> set (rev [1 ..< Suc ?L])" and fk: "?F k = Some (g, n)"
    by (blast dest: first_success_Some)
  from k have k1: "0 < k" and k2: "k \<le> ?L"
    by auto
  from k2 have "\<forall>c\<in>set (take k s). c \<noteq> CHR ''}''"
    by (rule take_within_takeWhile)
  moreover have "?L \<le> length s"
    by (rule length_takeWhile_le)
  moreover from fk obtain g' n' where "match_re as (drop k s) = Some (g', n')"
    by (auto simp del: match_re.simps)
  ultimately show ?thesis
    using k1 k2 by fastforce
qed

lemma placeholder_atI:
  assumes "body \<noteq> []" and "CHR ''}'' \<notin> set body"
  shows "placeholder_at (''{{ig-var:'' @ body @ ''}}'' @ rest)"
proof -
  have "takeWhile (\<lambda>c. c \<noteq> CHR ''}'') (body @ ''}}'' @ rest) = body"
    using assms(2) by (rule takeWhile_name)
  with assms(1) show ?thesis
    by (simp add: placeholder_at_def startswith_def)
qed

lemma match_shape:
  assumes m0: "match_re (Lit p # [Spaces, Name, Spaces, Lit q]) s = Some (g, n)"
  shows "\<exists>body rest. s = p @ body @ q @ rest \<and> body \<noteq> [] \<and> CHR ''}'' \<notin> set body"
proof -
  define s1 where "s1 = drop (length p) s"
  from match_Lit_Some [OF m0] obtain n1 where
    h0: "startswith s p \<and> match_re (Spaces # [Name, Spaces, Lit q]) (drop (length p) s) = Some (g, n1)"
    by (elim exE conjE) (rule that, rule conjI)
  then have pre: "startswith s p"
    and m1: "match_re (Spaces # [Name, Spaces, Lit q]) s1 = Some (g, n1)"
    by (simp_all only: s1_def)
  from match_Spaces_Some [OF m1] obtain k1 n2 where
    h1: "(\<forall>c\<in>set (take k1 s1). is_space c)
         \<and> match_re (Name # [Spaces, Lit q]) (drop k1 s1) = Some (g, n2)"
    by (elim exE)
  then have w1: "\<forall>c\<in>set (take k1 s1). is_space c"
    and m2: "match_re (Name # [Spaces, Lit q]) (drop k1 s1) = Some (g, n2)"
    by (simp_all del: match_re.simps)
  define s2 where "s2 = drop k1 s1"
  from m2 have "match_re (Name # [Spaces, Lit q]) s2 = Some (g, n2)"
    by (simp only: s2_def)
  from match_Name_Some [OF this] obtain k2 g3 n3 where
    h2: "0 < k2 \<and> k2 \<le> length s2 \<and> (\<forall>c\<in>set (take k2 s2). c \<noteq> CHR ''}'')
         \<and> match_re (Spaces # [Lit q]) (drop k2 s2) = Some (g3, n3)"
    by (elim exE) 
  then have k2: "0 < k2" "k2 \<le> length s2"
    and w2: "\<forall>c\<in>set (take k2 s2). c \<noteq> CHR ''}''"
    and m3: "match_re (Spaces # [Lit q]) (drop k2 s2) = Some (g3, n3)"
    by (simp_all del: match_re.simps)
  define s3 where "s3 = drop k2 s2"
  from m3 have "match_re (Spaces # [Lit q]) s3 = Some (g3, n3)"
    by (simp only: s3_def)
  from match_Spaces_Some [OF this] obtain k3 n4 where
    h3: "(\<forall>c\<in>set (take k3 s3). is_space c) \<and> match_re (Lit q # []) (drop k3 s3) = Some (g3, n4)"
    by (elim exE)
  then have w3: "\<forall>c\<in>set (take k3 s3). is_space c"
    and m4: "match_re (Lit q # []) (drop k3 s3) = Some (g3, n4)"
    by (simp_all del: match_re.simps)
  define s4 where "s4 = drop k3 s3"
  from match_Lit_Some [OF m4] have "startswith s4 q"
    unfolding s4_def by (rule conjunct1)
  then have e4: "s4 = q @ drop (length q) s4"
    by (rule startswith_append)
  define body where "body = take k1 s1 @ take k2 s2 @ take k3 s3"
  have j1: "take k1 s1 @ s2 = s1" and j2: "take k2 s2 @ s3 = s2" and j3: "take k3 s3 @ s4 = s3"
    unfolding s2_def s3_def s4_def by (rule append_take_drop_id)+
  have "body @ s4 = take k1 s1 @ (take k2 s2 @ (take k3 s3 @ s4))"
    unfolding body_def by (simp only: append.assoc)
  also have "\<dots> = s1"
    by (simp only: j3 j2 j1)
  finally have s1: "s1 = body @ s4"
    by (rule sym)
  have "take k2 s2 \<noteq> []"
    using k2 by auto
  then have ne: "body \<noteq> []"
    by (simp add: body_def)
  have nb: "CHR ''}'' \<notin> set body"
    using w1 w2 w3 not_space_brace by (auto simp: body_def)
  have "s = p @ s1"
    using pre unfolding s1_def by (rule startswith_append)
  also have "s1 = body @ q @ drop (length q) s4"
    using s1 e4 by (simp only:)
  finally have "s = p @ body @ q @ drop (length q) s4" .
  with ne nb show ?thesis by blast
qed

lemma match_ig_var_Some:
  assumes "match_re ig_var_pattern s = Some (g, n)"
  shows "placeholder_at s"
proof -
  from assms have "match_re (Lit ''{{ig-var:'' # [Spaces, Name, Spaces, Lit ''}}'']) s = Some (g, n)"
    by (simp only: ig_var_pattern_def)
  then obtain body rest where "s = ''{{ig-var:'' @ body @ ''}}'' @ rest"
    and "body \<noteq> []" and "CHR ''}'' \<notin> set body"
    by (drule_tac match_shape) (erule exE conjE)+
  then show ?thesis
    using placeholder_atI by (simp only:)
qed

lemma match_ig_var_None:
  assumes "\<not> placeholder_at s"
  shows "match_re ig_var_pattern s = None"
proof (cases "match_re ig_var_pattern s")
  case None
  then show ?thesis .
next
  case (Some r)
  then have "placeholder_at s"
    by (cases r) (auto dest: match_ig_var_Some simp del: match_re.simps)
  with assms show ?thesis by simp
qed

lemma sub_ig_var_skip:
  assumes "\<forall>i<length pre. \<not> placeholder_at (drop i (pre @ t))"
  shows "sub_ig_var variables (pre @ t) = pre @ sub_ig_var variables t"
  using assms
proof (induction pre)
  case Nil
  then show ?case by simp
next
  case (Cons c pre)
  from Cons.prems have "\<not> placeholder_at (drop 0 ((c # pre) @ t))"
    by (metis length_greater_0_conv list.distinct(1))
  then have "match_re ig_var_pattern (c # pre @ t) = None"
    by (intro match_ig_var_None) simp
  moreover have "\<forall>i<length pre. \<not> placeholder_at (drop i (pre @ t))"
  proof (intro allI impI)
    fix i assume "i < length pre"
    then have "Suc i < length (c # pre)" by simp
    with Cons.prems have "\<not> placeholder_at (drop (Suc i) ((c # pre) @ t))"
      by blast
    then show "\<not> placeholder_at (drop i (pre @ t))" by simp
  qed
  ultimately show ?case
    using Cons.IH by (simp del: match_re.simps)
qed

lemma sub_ig_var_plain_text:
  assumes "\<forall>i<length t. \<not> placeholder_at (drop i t)"
  shows "sub_ig_var variables t = t"
proof -
  from assms have "\<forall>i<length t. \<not> placeholder_at (drop i (t @ []))"
    by simp
  then have "sub_ig_var variables (t @ []) = t @ sub_ig_var variables []"
    by (rule sub_ig_var_skip)
  then show ?thesis
    by simp
qed

text \<open>
  Claim C6, as stated, fails where placeholders overlap. The text
  \<^verbatim>\<open>{{ig-var:{{ig-var:x}}\<close> ends with the placeholder \<^verbatim>\<open>{{ig-var:x}}\<close>, whose name \<open>x\<close> is a
  key of the variables, but the scan finds one match that begins at the first brace and
  has the name \<^verbatim>\<open>{{ig-var:x\<close>, which is no key: the text is returned unchanged and the
  placeholder is not replaced by the value.
\<close>

theorem each_occurrence_counterexample:
  "placeholder_at ''{{ig-var:x}}''
   \<and> [''x'' \<mapsto> ''X''] (strip ''x'') = Some ''X''
   \<and> resolve_template_variables ''{{ig-var:x}}'' [''x'' \<mapsto> ''X''] = ''X''
   \<and> resolve_template_variables (''{{ig-var:'' @ ''{{ig-var:x}}'') [''x'' \<mapsto> ''X'']
       = ''{{ig-var:'' @ ''{{ig-var:x}}''
   \<and> resolve_template_variables (''{{ig-var:'' @ ''{{ig-var:x}}'') [''x'' \<mapsto> ''X'']
       \<noteq> resolve_template_variables ''{{ig-var:'' [''x'' \<mapsto> ''X''] @ ''X''"
  by code_simp

text \<open>
  Claim C6, amended. The matches are the ones that the scan from the left finds, without
  overlap: a placeholder \<^verbatim>\<open>{{ig-var:\<close> \<open>body\<close> \<^verbatim>\<open>}}\<close> (a non-empty body without a closing
  brace, whitespace allowed around the name) is a match when no placeholder begins inside
  the text \<open>pre\<close> between the previous match, or the start of the template, and it. When
  the stripped body of a match is a key of the variables, the match is replaced by
  exactly that variable's value; when it is not a key, the match stays in the output
  character for character. The text before the match is copied, the rest of the template
  is resolved in the same way, and a text in which no placeholder begins is returned as
  it is.
\<close>

theorem placeholder_substitution:
  assumes "\<forall>i<length pre. \<not> placeholder_at (drop i (pre @ ''{{ig-var:'' @ body @ ''}}'' @ post))"
    and "body \<noteq> []" and "CHR ''}'' \<notin> set body"
  shows "resolve_template_variables (pre @ ''{{ig-var:'' @ body @ ''}}'' @ post) variables
           = pre
             @ (case variables (strip body) of
                  Some v \<Rightarrow> v
                | None \<Rightarrow> ''{{ig-var:'' @ body @ ''}}'')
             @ resolve_template_variables post variables
         \<and> ((\<forall>i<length t. \<not> placeholder_at (drop i t))
              \<longrightarrow> resolve_template_variables t variables = t)"
proof -
  have "sub_ig_var variables (pre @ ''{{ig-var:'' @ body @ ''}}'' @ post)
      = pre @ sub_ig_var variables (''{{ig-var:'' @ body @ ''}}'' @ post)"
    using assms(1) by (rule sub_ig_var_skip)
  also have "sub_ig_var variables (''{{ig-var:'' @ body @ ''}}'' @ post)
      = (case variables (strip body) of Some v \<Rightarrow> v | None \<Rightarrow> ''{{ig-var:'' @ body @ ''}}'')
        @ sub_ig_var variables post"
    using assms(2,3) by (rule sub_ig_var_occurrence)
  finally show ?thesis
    unfolding resolve_template_variables_def
    using sub_ig_var_plain_text [of t variables] by blast
qed


theorem placeholder_substitution_witness:
  "'' file-name '' \<noteq> [] \<and> CHR ''}'' \<notin> set '' file-name ''
   \<and> \<not> placeholder_at ''{x} {{ig-var: file-name }} of {{ig-var:other}}''
   \<and> \<not> placeholder_at ''x} {{ig-var: file-name }} of {{ig-var:other}}''
   \<and> \<not> placeholder_at ''} {{ig-var: file-name }} of {{ig-var:other}}''
   \<and> \<not> placeholder_at '' {{ig-var: file-name }} of {{ig-var:other}}''
   \<and> resolve_template_variables ''{x} {{ig-var: file-name }} of {{ig-var:other}}''
         [''file-name'' \<mapsto> ''my-vs'']
       = ''{x} my-vs of {{ig-var:other}}''"
proof -
  let ?vars = "[''file-name'' \<mapsto> ''my-vs'']"
  have a: "\<forall>i<length ''{x} ''.
      \<not> placeholder_at (drop i (''{x} '' @ ''{{ig-var:'' @ '' file-name '' @ ''}}'' @ '' of {{ig-var:other}}''))"
    by (auto simp: less_Suc_eq placeholder_at_def startswith_def)
  have b: "'' file-name '' \<noteq> []" and c: "CHR ''}'' \<notin> set '' file-name ''"
    by simp_all
  have d: "\<forall>i<length '' of ''.
      \<not> placeholder_at (drop i ('' of '' @ ''{{ig-var:'' @ ''other'' @ ''}}'' @ []))"
    by (auto simp: less_Suc_eq placeholder_at_def startswith_def)
  have e: "''other'' \<noteq> []" and f: "CHR ''}'' \<notin> set ''other''"
    by simp_all
  have s1: "strip '' file-name '' = ''file-name''" and s2: "strip ''other'' = ''other''"
    by code_simp+
  have r: "resolve_template_variables [] ?vars = []"
    by (simp add: resolve_template_variables_def)
  have "resolve_template_variables ('' of '' @ ''{{ig-var:'' @ ''other'' @ ''}}'' @ []) ?vars
      = '' of {{ig-var:other}}''"
    unfolding placeholder_substitution [OF d e f, THEN conjunct1] s2 r by simp
  then have t: "resolve_template_variables '' of {{ig-var:other}}'' ?vars = '' of {{ig-var:other}}''"
    by simp
  have "resolve_template_variables
          (''{x} '' @ ''{{ig-var:'' @ '' file-name '' @ ''}}'' @ '' of {{ig-var:other}}'') ?vars
      = ''{x} my-vs of {{ig-var:other}}''"
    unfolding placeholder_substitution [OF a b c, THEN conjunct1] s1 t by simp
  moreover have "\<not> placeholder_at ''{x} {{ig-var: file-name }} of {{ig-var:other}}''"
    and "\<not> placeholder_at ''x} {{ig-var: file-name }} of {{ig-var:other}}''"
    and "\<not> placeholder_at ''} {{ig-var: file-name }} of {{ig-var:other}}''"
    and "\<not> placeholder_at '' {{ig-var: file-name }} of {{ig-var:other}}''"
    by (simp_all add: placeholder_at_def startswith_def)
  ultimately show ?thesis
    using b c by simp
qed

section \<open>Artifact pages: proofs\<close>

lemma parse_fhir_resource_lacking:
  assumes "lacks_type_or_id f"
  shows "parse_fhir_resource f = None"
  using assms
  by (auto simp: lacks_type_or_id_def parse_fhir_resource_def dict_get_def dict_get_default_def Let_def
      split: option.splits json.splits)

lemma parse_resource_file_lacking:
  assumes "lacks_type_or_id f"
  shows "parse_resource_file f is_example = None"
  using assms
  by (auto simp: lacks_type_or_id_def parse_resource_file_def dict_get_def dict_get_default_def Let_def
      split: option.splits json.splits)

lemma map_filter_filter_skipped:
  assumes "\<And>x. \<not> P x \<Longrightarrow> g x = None"
  shows "List.map_filter g (filter P xs) = List.map_filter g xs"
  using assms by (induction xs) (auto simp: List.map_filter_simps split: option.splits)

lemma glob_json_filter:
  "glob_json (filter P files) = filter P (glob_json files)"
proof -
  have "filter (\<lambda>f. endswith (path_name f) ''.json'') (filter P files)
      = filter P (filter (\<lambda>f. endswith (path_name f) ''.json'') files)"
    by (simp add: conj_commute)
  then show ?thesis
    by (simp only: glob_json_def filter_sort)
qed

lemma parsed_infos_without_lacking:
  "parsed_infos (without_lacking dir) = parsed_infos dir"
proof (cases dir)
  case None
  then show ?thesis by (simp add: without_lacking_def)
next
  case (Some files)
  have "List.map_filter parse_fhir_resource (filter (\<lambda>f. \<not> lacks_type_or_id f) (glob_json files))
      = List.map_filter parse_fhir_resource (glob_json files)"
    by (rule map_filter_filter_skipped) (simp add: parse_fhir_resource_lacking)
  with Some show ?thesis
    by (simp add: without_lacking_def parsed_infos_def glob_json_filter)
qed

lemma collect_dir_without_lacking:
  "collect_dir (without_lacking dir) is_example = collect_dir dir is_example"
proof (cases dir)
  case None
  then show ?thesis by (simp add: without_lacking_def)
next
  case (Some files)
  have "List.map_filter (\<lambda>f. parse_resource_file f is_example)
          (filter (\<lambda>f. \<not> lacks_type_or_id f) (glob_json files))
      = List.map_filter (\<lambda>f. parse_resource_file f is_example) (glob_json files)"
    by (rule map_filter_filter_skipped) (simp add: parse_resource_file_lacking)
  with Some show ?thesis
    by (simp add: without_lacking_def collect_dir_def glob_json_filter)
qed

lemma without_lacking_None: "(without_lacking dir \<noteq> None) = (dir \<noteq> None)"
  by (simp add: without_lacking_def)

text \<open>
  Claim C4. A JSON file under \<open>resources/\<close> or \<open>examples/\<close> that fails to parse, or whose
  content lacks \<open>resourceType\<close> or \<open>id\<close>, is skipped by both parsers. The artifact
  step (directories, pages written, the values from which \<open>resource_count\<close> and
  \<open>example_count\<close> are computed) has the same outcome as on the folders without such
  files, and so have the collected resources and the \<open>definition.resource\<close> of the
  ImplementationGuide document.
\<close>

theorem lacking_files_contribute_nothing:
  "(lacks_type_or_id f \<longrightarrow>
      parse_fhir_resource f = None \<and> parse_resource_file f is_example = None)
   \<and> generate_artifacts templates (without_lacking resources_dir) (without_lacking examples_dir)
       = generate_artifacts templates resources_dir examples_dir
   \<and> collect_resources (without_lacking resources_dir) (without_lacking examples_dir)
       = collect_resources resources_dir examples_dir
   \<and> create_ig_resource_r4 cfg
         (collect_resources (without_lacking resources_dir) (without_lacking examples_dir)) root_page
       = create_ig_resource_r4 cfg (collect_resources resources_dir examples_dir) root_page"
proof -
  have "generate_artifacts templates (without_lacking resources_dir) (without_lacking examples_dir)
       = generate_artifacts templates resources_dir examples_dir"
    unfolding generate_artifacts_def parsed_infos_without_lacking without_lacking_None ..
  moreover have "collect_resources (without_lacking resources_dir) (without_lacking examples_dir)
       = collect_resources resources_dir examples_dir"
    by (simp only: collect_resources_def collect_dir_without_lacking)
  ultimately show ?thesis
    by (simp add: parse_fhir_resource_lacking parse_resource_file_lacking)
qed

theorem lacking_files_contribute_nothing_witness:
  "lacks_type_or_id \<lparr>path_name = ''broken.json'', parsed = None\<rparr>
   \<and> lacks_type_or_id \<lparr>path_name = ''no-id.json'',
                          parsed = Some (JObj [(''resourceType'', JStr ''ValueSet'')])\<rparr>
   \<and> map_sum id (\<lambda>r. (written r, resource_count r, example_count r))
       (generate_artifacts Map.empty
          (Some [\<lparr>path_name = ''no-id.json'', parsed = Some (JObj [(''resourceType'', JStr ''ValueSet'')])\<rparr>,
                 \<lparr>path_name = ''Patient-1.json'',
                    parsed = Some (JObj [(''resourceType'', JStr ''Patient''), (''id'', JStr ''1'')])\<rparr>])
          (Some [\<lparr>path_name = ''broken.json'', parsed = None\<rparr>]))
     = Inr ([([''index.page.md''], artifacts_index_body),
             ([''patient'', ''1.page.md''],
              ''# 1\<newline>\<newline>*Resource Type: Patient*\<newline>\<newline><!-- No template found for Patient -->\<newline>'')],
            1, 0)
   \<and> map reference (map definition_entry_of
        (collect_resources
          (Some [\<lparr>path_name = ''no-id.json'', parsed = Some (JObj [(''resourceType'', JStr ''ValueSet'')])\<rparr>,
                 \<lparr>path_name = ''Patient-1.json'',
                    parsed = Some (JObj [(''resourceType'', JStr ''Patient''), (''id'', JStr ''1'')])\<rparr>])
          (Some [\<lparr>path_name = ''broken.json'', parsed = None\<rparr>])))
     = [''Patient/1'']"
proof -
  let ?broken = "\<lparr>path_name = ''broken.json'', parsed = None\<rparr>"
  let ?noid = "\<lparr>path_name = ''no-id.json'', parsed = Some (JObj [(''resourceType'', JStr ''ValueSet'')])\<rparr>"
  let ?good = "\<lparr>path_name = ''Patient-1.json'',
                 parsed = Some (JObj [(''resourceType'', JStr ''Patient''), (''id'', JStr ''1'')])\<rparr>"
  have l: "lacks_type_or_id ?broken" "lacks_type_or_id ?noid"
    by code_simp+
  have w: "without_lacking (Some [?noid, ?good]) = Some [?good]"
    "without_lacking (Some [?broken]) = Some []"
    by code_simp+
  have g: "map_sum id (\<lambda>r. (written r, resource_count r, example_count r))
       (generate_artifacts Map.empty (Some [?good]) (Some []))
     = Inr ([([''index.page.md''], artifacts_index_body),
             ([''patient'', ''1.page.md''],
              ''# 1\<newline>\<newline>*Resource Type: Patient*\<newline>\<newline><!-- No template found for Patient -->\<newline>'')],
            1, 0)"
    by code_simp
  have c: "map reference (map definition_entry_of (collect_resources (Some [?good]) (Some [])))
     = [''Patient/1'']"
    by code_simp
  from lacking_files_contribute_nothing
    [of ?broken False Map.empty "Some [?noid, ?good]" "Some [?broken]" Map.empty "PageNode [] [] [] []"]
  have "generate_artifacts Map.empty (Some [?noid, ?good]) (Some [?broken])
      = generate_artifacts Map.empty (Some [?good]) (Some [])"
    and "collect_resources (Some [?noid, ?good]) (Some [?broken])
      = collect_resources (Some [?good]) (Some [])"
    unfolding w by simp_all
  with l g c show ?thesis
    by (simp only: simp_thms)
qed

lemma count_by_key:
  assumes "distinct ts" and "f ` set xs \<subseteq> set ts"
  shows "sum_list (map (\<lambda>t. length (filter (\<lambda>i. f i = t) xs)) ts) = length xs"
  using assms(2)
proof (induction xs)
  case Nil
  then show ?case by simp
next
  case (Cons x xs)
  then have x: "f x \<in> set ts" and ih: "sum_list (map (\<lambda>t. length (filter (\<lambda>i. f i = t) xs)) ts) = length xs"
    by auto
  have "sum_list (map (\<lambda>t. length (filter (\<lambda>i. f i = t) (x # xs))) ts)
      = sum_list (map (\<lambda>t. (if f x = t then 1 else 0) + length (filter (\<lambda>i. f i = t) xs)) ts)"
    by (rule arg_cong [where f = sum_list]) auto
  also have "\<dots> = sum_list (map (\<lambda>t. if f x = t then 1 else 0) ts)
                   + sum_list (map (\<lambda>t. length (filter (\<lambda>i. f i = t) xs)) ts)"
    by (simp add: sum_list_addf)
  also have "sum_list (map (\<lambda>t. if f x = t then 1 else 0) ts) = (1::nat)"
    using assms(1) x
  proof (induction ts)
    case Nil
    then show ?case by simp
  next
    case (Cons t ts)
    show ?case
    proof (cases "f x = t")
      case True
      with Cons.prems have "f x \<notin> set ts" by auto
      then have "sum_list (map (\<lambda>t. if f x = t then 1 else 0) ts) = (0::nat)"
        by (induction ts) auto
      with True show ?thesis by simp
    next
      case False
      with Cons show ?thesis by auto
    qed
  qed
  finally show ?case
    using ih by simp
qed

lemma resource_count_group:
  "sum_list (map (\<lambda>(t, rs). length rs) (group_by_type infos)) = length infos"
proof -
  have "sum_list (map (\<lambda>(t, rs). length rs) (group_by_type infos))
      = sum_list (map (\<lambda>t. length (filter (\<lambda>i. type_of i = t) infos))
                    (sort (remdups (map type_of infos))))"
    by (simp add: group_by_type_def comp_def)
  also have "\<dots> = length infos"
    by (rule count_by_key) simp_all
  finally show ?thesis .
qed

lemma writes_of_append: "writes_of (xs @ ys) = writes_of xs @ writes_of ys"
  by (induction xs rule: writes_of.induct) simp_all

lemma writes_of_write_ops: "writes_of (map (\<lambda>x. write_op (f x)) xs) = map f xs"
  by (induction xs) (simp_all add: write_op_def split: prod.splits)

lemma writes_of_type_ops:
  "writes_of (type_ops templates (t, rs)) = map (resource_page templates t) rs"
  by (simp add: type_ops_def writes_of_write_ops)

lemma writes_of_example_ops:
  "writes_of (example_ops templates examples) = map (example_page templates) examples"
  by (simp add: example_ops_def writes_of_write_ops)

lemma resource_pages_concat:
  "resource_pages templates by_type
     = concat (map (\<lambda>(t, rs). map (resource_page templates t) rs) by_type)"
  unfolding resource_pages_def
  by (induction by_type) (auto simp: writes_of_append writes_of_type_ops)

lemma length_resource_pages:
  "length (resource_pages templates by_type) = sum_list (map (\<lambda>(t, rs). length rs) by_type)"
  by (induction by_type) (auto simp: resource_pages_concat)

lemma generate_artifacts_Inr:
  assumes "generate_artifacts templates resources_dir examples_dir = Inr r"
  shows "resources_by_type r = group_by_type (parsed_infos resources_dir)"
    and "examples_list r = parsed_infos examples_dir"
    and "written r = [([''index.page.md''], artifacts_index_body)]
                     @ resource_pages templates (group_by_type (parsed_infos resources_dir))
                     @ map (example_page templates) (parsed_infos examples_dir)"
proof -
  from assms have r: "r = \<lparr>ops =
                     [Mkdir [], WriteText [''index.page.md''] artifacts_index_body]
                     @ concat (map (type_ops templates) (group_by_type (parsed_infos resources_dir)))
                     @ (if examples_dir \<noteq> None
                        then example_ops templates (parsed_infos examples_dir) else []),
                   resources_by_type = group_by_type (parsed_infos resources_dir),
                   examples_list = parsed_infos examples_dir\<rparr>"
    by (auto simp: generate_artifacts_def Let_def split: if_splits)
  show "resources_by_type r = group_by_type (parsed_infos resources_dir)"
    and "examples_list r = parsed_infos examples_dir"
    by (simp_all add: r)
  have "parsed_infos examples_dir = []" if "examples_dir = None"
    using that by (simp add: parsed_infos_def)
  then show "written r = [([''index.page.md''], artifacts_index_body)]
                     @ resource_pages templates (group_by_type (parsed_infos resources_dir))
                     @ map (example_page templates) (parsed_infos examples_dir)"
    by (auto simp: r written_def writes_of_append writes_of_example_ops resource_pages_def)
qed

lemma sorted_split_two:
  assumes "sorted (map k L)" and "x \<in> set L" and "y \<in> set L" and "k x < k y"
  shows "\<exists>xs ys zs. L = xs @ x # ys @ y # zs"
proof -
  from assms(2) obtain xs rest where L: "L = xs @ x # rest"
    by (meson split_list)
  from assms(3) L assms(4) have "y \<in> set xs \<or> y \<in> set rest"
    by auto
  moreover have "y \<notin> set xs"
  proof
    assume "y \<in> set xs"
    with assms(1) L have "k y \<le> k x"
      by (auto simp: sorted_append)
    with assms(4) show False
      by simp
  qed
  ultimately obtain ys zs where "rest = ys @ y # zs"
    by (meson split_list)
  with L show ?thesis
    by blast
qed

lemma glob_json_split_two:
  assumes "fa \<in> set files" and "fb \<in> set files"
    and "endswith (path_name fa) ''.json''" and "endswith (path_name fb) ''.json''"
    and "path_name fa < path_name fb"
  shows "\<exists>xs ys zs. glob_json files = xs @ fa # ys @ fb # zs"
proof (rule sorted_split_two [where k = path_name])
  show "sorted (map path_name (glob_json files))"
    by (simp add: glob_json_def)
  show "fa \<in> set (glob_json files)" "fb \<in> set (glob_json files)"
    using assms(1-4) by (simp_all add: glob_json_def)
  show "path_name fa < path_name fb"
    by (rule assms(5))
qed

lemma map_filter_append:
  "List.map_filter f (xs @ ys) = List.map_filter f xs @ List.map_filter f ys"
  by (simp add: List.map_filter_def)

lemma map_filter_Cons_Some:
  "f x = Some y \<Longrightarrow> List.map_filter f (x # xs) = y # List.map_filter f xs"
  by (simp add: List.map_filter_def)

lemma parsed_infos_split_two:
  assumes "fa \<in> set files" and "fb \<in> set files"
    and "endswith (path_name fa) ''.json''" and "endswith (path_name fb) ''.json''"
    and "path_name fa < path_name fb"
    and "parse_fhir_resource fa = Some a" and "parse_fhir_resource fb = Some b"
  shows "\<exists>xs ys zs. parsed_infos (Some files) = xs @ a # ys @ b # zs"
proof -
  from glob_json_split_two [OF assms(1-5)] obtain xs ys zs where
    "glob_json files = xs @ fa # ys @ fb # zs"
    by (elim exE)
  then have "parsed_infos (Some files)
      = List.map_filter parse_fhir_resource xs @ a
        # List.map_filter parse_fhir_resource ys @ b # List.map_filter parse_fhir_resource zs"
    by (simp add: parsed_infos_def map_filter_append map_filter_Cons_Some assms(6,7))
  then show ?thesis
    by blast
qed

lemma type_ops_of_type:
  assumes "a \<in> set infos"
  shows "\<exists>before after.
           concat (map (type_ops templates) (group_by_type infos))
             = before @ map (\<lambda>i. write_op (resource_page templates (type_of a) i))
                          (filter (\<lambda>i. type_of i = type_of a) infos) @ after"
proof -
  let ?ts = "sort (remdups (map type_of infos))"
  let ?g = "\<lambda>t. type_ops templates (t, filter (\<lambda>i. type_of i = t) infos)"
  from assms have "type_of a \<in> set ?ts"
    by simp
  then obtain ts1 ts2 where ts: "?ts = ts1 @ type_of a # ts2"
    by (meson split_list)
  have "concat (map (type_ops templates) (group_by_type infos)) = concat (map ?g ?ts)"
    by (simp add: group_by_type_def comp_def)
  also have "\<dots> = concat (map ?g ts1) @ ?g (type_of a) @ concat (map ?g ts2)"
    by (simp only: ts map_append list.map concat_append concat.simps)
  also have "\<dots> = (concat (map ?g ts1) @ [Mkdir [lower (type_of a)]])
       @ map (\<lambda>i. write_op (resource_page templates (type_of a) i))
           (filter (\<lambda>i. type_of i = type_of a) infos) @ concat (map ?g ts2)"
    by (simp add: type_ops_def)
  finally show ?thesis
    by blast
qed

lemma and_then_assoc:
  "and_then (and_then r f) g = and_then r (\<lambda>x. and_then (f x) g)"
  by (cases r) (simp_all add: and_then_def)

lemma apply_ops_append:
  "apply_ops (xs @ ys) home = and_then (apply_ops xs home) (apply_ops ys)"
proof (induction xs arbitrary: home)
  case Nil
  show ?case
    by (simp add: and_then_def)
next
  case (Cons x xs)
  have ih: "apply_ops (xs @ ys) = (\<lambda>h. and_then (apply_ops xs h) (apply_ops ys))"
    by (rule ext) (rule Cons.IH)
  show ?case
    by (cases x) (simp_all only: append_Cons apply_ops.simps ih and_then_assoc)
qed

lemma lookup_name:
  "lookup items n = Some x \<Longrightarrow> node_name x = n"
  by (induction items) (auto split: if_splits)

lemma lookup_replace_child:
  "lookup items (node_name y) \<noteq> None \<Longrightarrow> lookup (replace_child y items) (node_name y) = Some y"
  by (induction items) auto

lemma lookup_snoc_fresh:
  "lookup items (node_name y) = None \<Longrightarrow> lookup (items @ [y]) (node_name y) = Some y"
  by (induction items) (auto split: if_splits)

lemma lookup_write_child:
  assumes "write_child n c items = Inr items'"
  shows "lookup items' n = Some (File n c)"
proof (cases "lookup items n")
  case None
  with assms have "items' = items @ [File n c]"
    by (simp add: write_child_def)
  with None lookup_snoc_fresh [of items "File n c"] show ?thesis
    by simp
next
  case (Some x)
  with assms obtain f old where x: "x = File f old" and "items' = replace_child (File n c) items"
    by (cases x) (simp_all add: write_child_def)
  with Some lookup_replace_child [of items "File n c"] show ?thesis
    by simp
qed

lemma node_at_Cons:
  "ps \<noteq> [] \<Longrightarrow> node_at items (d # ps)
     = (case lookup items d of Some (Dir m ch) \<Rightarrow> node_at ch ps | _ \<Rightarrow> None)"
  by (cases ps) (simp_all split: option.splits fnode.splits)

lemma node_at_write_child:
  "at_path ds (write_child n c) items = Inr items' \<Longrightarrow> node_at items' (ds @ [n]) = Some (File n c)"
proof (induction ds arbitrary: items items')
  case Nil
  then show ?case
    by (simp add: lookup_write_child)
next
  case (Cons d ds)
  from Cons.prems obtain m ch where l: "lookup items d = Some (Dir m ch)"
    by (cases "lookup items d") (auto split: fnode.splits)
  from Cons.prems l obtain ch' where ch': "at_path ds (write_child n c) ch = Inr ch'"
    and items': "items' = replace_child (Dir d ch') items"
    by (cases "at_path ds (write_child n c) ch") (auto simp: and_then_def)
  from l lookup_replace_child [of items "Dir d ch'"]
  have "lookup items' d = Some (Dir d ch')"
    by (simp add: items')
  then have "node_at items' (d # (ds @ [n])) = node_at ch' (ds @ [n])"
    by (simp add: node_at_Cons)
  with Cons.IH [OF ch'] show ?case
    by simp
qed

lemma node_at_after_write:
  assumes "apply_ops (pre @ [WriteText p c]) home = Inr home'"
  shows "node_at home' (''artifacts'' # p) = Some (File (last (''artifacts'' # p)) (Bytes c))"
proof -
  from assms obtain h where
    "at_path (butlast (''artifacts'' # p)) (write_child (last (''artifacts'' # p)) (Bytes c)) h = Inr home'"
    by (cases "apply_ops pre home";
        cases "at_path (butlast (''artifacts'' # p)) (write_child (last (''artifacts'' # p)) (Bytes c))
                 (projr (apply_ops pre home))")
       (auto simp: apply_ops_append and_then_def)
  from node_at_write_child [OF this] show ?thesis
    by (simp only: append_butlast_last_id list.simps not_False_eq_True)
qed


lemma ops_generate_artifacts:
  assumes "generate_artifacts templates resources_dir examples_dir = Inr r"
  shows "ops r = [Mkdir [], WriteText [''index.page.md''] artifacts_index_body]
                 @ concat (map (type_ops templates) (group_by_type (parsed_infos resources_dir)))
                 @ (if examples_dir \<noteq> None
                    then example_ops templates (parsed_infos examples_dir) else [])"
  using assms by (auto simp: generate_artifacts_def Let_def split: if_splits)

lemma card_fst_not_distinct:
  assumes "ws = ws1 @ (p, c1) # ws2 @ (p, c2) # ws3"
  shows "card (fst ` set ws) < length ws"
proof -
  have "\<not> distinct (map fst ws)"
    unfolding assms by simp
  then have "card (set (map fst ws)) \<noteq> length (map fst ws)"
    using card_distinct by blast
  moreover have "card (set (map fst ws)) \<le> length (map fst ws)"
    by (rule card_length)
  ultimately show ?thesis
    by simp
qed

lemma fst_resource_page:
  "fst (resource_page templates t i) = [lower t, id_of i @ ''.page.md'']"
  by (simp add: resource_page_def Let_def)

text \<open>
  Claim C9. Let two files of \<open>resources/\<close> with the suffix \<open>.json\<close> parse to the same
  \<open>resourceType\<close> and the same \<open>id\<close>, the name of the first below the name of the second,
  and let the artifact step return. Then \<open>resource_count\<close> is the number of parsed
  resources; the pages of both are written to the same path, the lowercased type followed
  by the id and \<open>.page.md\<close>; the write of the first page comes before the write of the
  second in the operations of the step, whatever the order of the two files in the
  listing; in every tree on which the operations up to the first write succeed the file at
  that path under \<open>artifacts\<close> holds the page of the first, and in every tree on which the
  operations up to the second write succeed it holds the page of the second; and the
  resource pages written have fewer distinct paths than \<open>resource_count\<close>.
\<close>

theorem duplicate_ids_share_a_page:
  assumes "generate_artifacts templates (Some files) examples_dir = Inr r"
    and "fa \<in> set files" and "fb \<in> set files"
    and "endswith (path_name fa) ''.json''" and "endswith (path_name fb) ''.json''"
    and "path_name fa < path_name fb"
    and "parse_fhir_resource fa = Some a" and "parse_fhir_resource fb = Some b"
    and "type_of a = type_of b" and "id_of a = id_of b"
  shows "resource_count r = length (parsed_infos (Some files))
       \<and> fst (resource_page templates (type_of a) a) = [lower (type_of a), id_of a @ ''.page.md'']
       \<and> fst (resource_page templates (type_of b) b) = [lower (type_of a), id_of a @ ''.page.md'']
       \<and> (\<exists>ops1 ops2 ops3.
             ops r = ops1 @ write_op (resource_page templates (type_of a) a) # ops2
                     @ write_op (resource_page templates (type_of b) b) # ops3
           \<and> (\<forall>home home'.
                 apply_ops (ops1 @ [write_op (resource_page templates (type_of a) a)]) home = Inr home'
                 \<longrightarrow> node_at home' [''artifacts'', lower (type_of a), id_of a @ ''.page.md'']
                     = Some (File (id_of a @ ''.page.md'')
                               (Bytes (snd (resource_page templates (type_of a) a)))))
           \<and> (\<forall>home home'.
                 apply_ops (ops1 @ write_op (resource_page templates (type_of a) a) # ops2
                            @ [write_op (resource_page templates (type_of b) b)]) home = Inr home'
                 \<longrightarrow> node_at home' [''artifacts'', lower (type_of a), id_of a @ ''.page.md'']
                     = Some (File (id_of a @ ''.page.md'')
                               (Bytes (snd (resource_page templates (type_of b) b))))))
       \<and> card (fst ` set (resource_pages templates (resources_by_type r))) < resource_count r"
proof -
  let ?ps = "parsed_infos (Some files)"
  let ?t = "type_of a"
  let ?page = "resource_page templates ?t"
  let ?same = "filter (\<lambda>i. type_of i = ?t)"
  let ?P = "[lower ?t, id_of a @ ''.page.md'']"
  note r = generate_artifacts_Inr [OF assms(1)]
  from parsed_infos_split_two [OF assms(2-8)] obtain xs ys zs where
    ps: "?ps = xs @ a # ys @ b # zs"
    by (elim exE)
  have count: "resource_count r = length ?ps"
    by (simp add: resource_count_def r(1) resource_count_group)
  have pa: "fst (?page a) = ?P" and pb: "fst (?page b) = ?P"
    by (simp_all add: fst_resource_page assms(10))
  have wa: "write_op (?page a) = WriteText ?P (snd (?page a))"
    and wb: "write_op (?page b) = WriteText ?P (snd (?page b))"
    by (simp_all add: write_op_def resource_page_def Let_def assms(10))
  have a_in: "a \<in> set ?ps"
    by (simp add: ps)
  have same: "?same ?ps = ?same xs @ a # ?same ys @ b # ?same zs"
    by (simp add: ps assms(9) [symmetric])
  from type_ops_of_type [OF a_in, of templates] obtain before after where
    "concat (map (type_ops templates) (group_by_type ?ps))
       = before @ map (\<lambda>i. write_op (?page i)) (?same ?ps) @ after"
    by (elim exE)
  then have tops: "concat (map (type_ops templates) (group_by_type ?ps))
      = (before @ map (\<lambda>i. write_op (?page i)) (?same xs)) @ write_op (?page a)
        # map (\<lambda>i. write_op (?page i)) (?same ys)
        @ write_op (?page b) # (map (\<lambda>i. write_op (?page i)) (?same zs) @ after)"
    by (simp only: same map_append list.map append_assoc append_Cons)
  define ops1 where "ops1 = [Mkdir [], WriteText [''index.page.md''] artifacts_index_body]
      @ before @ map (\<lambda>i. write_op (?page i)) (?same xs)"
  define ops2 where "ops2 = map (\<lambda>i. write_op (?page i)) (?same ys)"
  define ops3 where "ops3 = (map (\<lambda>i. write_op (?page i)) (?same zs) @ after)
      @ (if examples_dir \<noteq> None then example_ops templates (parsed_infos examples_dir) else [])"
  have o: "ops r = ops1 @ write_op (?page a) # ops2 @ write_op (?page b) # ops3"
    by (simp only: ops_generate_artifacts [OF assms(1)] tops ops1_def ops2_def ops3_def
        append_assoc append_Cons append_Nil)
  have first: "node_at home' (''artifacts'' # ?P) = Some (File (id_of a @ ''.page.md'') (Bytes (snd (?page a))))"
    if "apply_ops (ops1 @ [write_op (?page a)]) home = Inr home'" for home home'
    using node_at_after_write [of ops1 ?P "snd (?page a)" home home'] that
    by (simp add: wa)
  have second: "node_at home' (''artifacts'' # ?P) = Some (File (id_of a @ ''.page.md'') (Bytes (snd (?page b))))"
    if "apply_ops (ops1 @ write_op (?page a) # ops2 @ [write_op (?page b)]) home = Inr home'" for home home'
    using node_at_after_write [of "ops1 @ write_op (?page a) # ops2" ?P "snd (?page b)" home home'] that
    by (simp add: wb)
  have "resource_pages templates (group_by_type ?ps)
      = writes_of (before @ map (\<lambda>i. write_op (?page i)) (?same xs)) @ (?P, snd (?page a))
        # writes_of (map (\<lambda>i. write_op (?page i)) (?same ys))
        @ (?P, snd (?page b)) # writes_of (map (\<lambda>i. write_op (?page i)) (?same zs) @ after)"
    unfolding resource_pages_def tops wa wb
    by (simp add: writes_of_append)
  then have "card (fst ` set (resource_pages templates (group_by_type ?ps)))
      < length (resource_pages templates (group_by_type ?ps))"
    by (rule card_fst_not_distinct)
  then have card: "card (fst ` set (resource_pages templates (resources_by_type r))) < resource_count r"
    by (simp add: r(1) length_resource_pages resource_count_def)
  from o first second have "\<exists>ops1 ops2 ops3.
             ops r = ops1 @ write_op (?page a) # ops2 @ write_op (?page b) # ops3
           \<and> (\<forall>home home'.
                 apply_ops (ops1 @ [write_op (?page a)]) home = Inr home'
                 \<longrightarrow> node_at home' (''artifacts'' # ?P)
                     = Some (File (id_of a @ ''.page.md'') (Bytes (snd (?page a)))))
           \<and> (\<forall>home home'.
                 apply_ops (ops1 @ write_op (?page a) # ops2 @ [write_op (?page b)]) home = Inr home'
                 \<longrightarrow> node_at home' (''artifacts'' # ?P)
                     = Some (File (id_of a @ ''.page.md'') (Bytes (snd (?page b)))))"
    by blast
  with count pa pb card show ?thesis
    unfolding assms(9) [symmetric] by blast
qed


theorem duplicate_ids_share_a_page_witness:
  "generate_artifacts [''Patient'' \<mapsto> ''url={{ig-var:Patient.url}}'']
     (Some [\<lparr>path_name = ''b.json'',
              parsed = Some (JObj [(''resourceType'', JStr ''Patient''), (''id'', JStr ''p1'')])\<rparr>,
            \<lparr>path_name = ''a.json'',
              parsed = Some (JObj [(''resourceType'', JStr ''Patient''), (''id'', JStr ''p1''),
                                   (''url'', JStr ''http://example.org/p1'')])\<rparr>])
     None
   = Inr \<lparr>ops =
            [Mkdir [], WriteText [''index.page.md''] artifacts_index_body,
             Mkdir [''patient''],
             WriteText [''patient'', ''p1.page.md''] ''url=http://example.org/p1'',
             WriteText [''patient'', ''p1.page.md''] ''url=''],
          resources_by_type =
            [(''Patient'',
              [\<lparr>info_resourceType = JStr ''Patient'', info_id = JStr ''p1'', info_filename = ''a'',
                 info_url = JStr ''http://example.org/p1''\<rparr>,
               \<lparr>info_resourceType = JStr ''Patient'', info_id = JStr ''p1'', info_filename = ''b'',
                 info_url = JStr []\<rparr>])],
          examples_list = []\<rparr>
   \<and> resource_count \<lparr>ops =
            [Mkdir [], WriteText [''index.page.md''] artifacts_index_body,
             Mkdir [''patient''],
             WriteText [''patient'', ''p1.page.md''] ''url=http://example.org/p1'',
             WriteText [''patient'', ''p1.page.md''] ''url=''],
          resources_by_type =
            [(''Patient'',
              [\<lparr>info_resourceType = JStr ''Patient'', info_id = JStr ''p1'', info_filename = ''a'',
                 info_url = JStr ''http://example.org/p1''\<rparr>,
               \<lparr>info_resourceType = JStr ''Patient'', info_id = JStr ''p1'', info_filename = ''b'',
                 info_url = JStr []\<rparr>])],
          examples_list = []\<rparr> = 2
   \<and> card (fst ` set (resource_pages [''Patient'' \<mapsto> ''url={{ig-var:Patient.url}}'']
            [(''Patient'',
              [\<lparr>info_resourceType = JStr ''Patient'', info_id = JStr ''p1'', info_filename = ''a'',
                 info_url = JStr ''http://example.org/p1''\<rparr>,
               \<lparr>info_resourceType = JStr ''Patient'', info_id = JStr ''p1'', info_filename = ''b'',
                 info_url = JStr []\<rparr>])])) < 2
   \<and> apply_ops
        [Mkdir [], WriteText [''index.page.md''] artifacts_index_body,
         Mkdir [''patient''],
         WriteText [''patient'', ''p1.page.md''] ''url=http://example.org/p1''] []
       = Inr [Dir ''artifacts''
               [File ''index.page.md'' (Bytes artifacts_index_body),
                Dir ''patient'' [File ''p1.page.md'' (Bytes ''url=http://example.org/p1'')]]]
   \<and> apply_ops
        [Mkdir [], WriteText [''index.page.md''] artifacts_index_body,
         Mkdir [''patient''],
         WriteText [''patient'', ''p1.page.md''] ''url=http://example.org/p1'',
         WriteText [''patient'', ''p1.page.md''] ''url=''] []
       = Inr [Dir ''artifacts''
               [File ''index.page.md'' (Bytes artifacts_index_body),
                Dir ''patient'' [File ''p1.page.md'' (Bytes ''url='')]]]"
proof -
  let ?T = "[''Patient'' \<mapsto> ''url={{ig-var:Patient.url}}'']"
  let ?fb = "\<lparr>path_name = ''b.json'',
              parsed = Some (JObj [(''resourceType'', JStr ''Patient''), (''id'', JStr ''p1'')])\<rparr>"
  let ?fa = "\<lparr>path_name = ''a.json'',
              parsed = Some (JObj [(''resourceType'', JStr ''Patient''), (''id'', JStr ''p1''),
                                   (''url'', JStr ''http://example.org/p1'')])\<rparr>"
  let ?ia = "\<lparr>info_resourceType = JStr ''Patient'', info_id = JStr ''p1'', info_filename = ''a'',
                 info_url = JStr ''http://example.org/p1''\<rparr>"
  let ?ib = "\<lparr>info_resourceType = JStr ''Patient'', info_id = JStr ''p1'', info_filename = ''b'',
                 info_url = JStr []\<rparr>"
  let ?r = "\<lparr>ops =
            [Mkdir [], WriteText [''index.page.md''] artifacts_index_body,
             Mkdir [''patient''],
             WriteText [''patient'', ''p1.page.md''] ''url=http://example.org/p1'',
             WriteText [''patient'', ''p1.page.md''] ''url=''],
          resources_by_type =
            [(''Patient'',
              [\<lparr>info_resourceType = JStr ''Patient'', info_id = JStr ''p1'', info_filename = ''a'',
                 info_url = JStr ''http://example.org/p1''\<rparr>,
               \<lparr>info_resourceType = JStr ''Patient'', info_id = JStr ''p1'', info_filename = ''b'',
                 info_url = JStr []\<rparr>])],
          examples_list = []\<rparr>"
  have e: "generate_artifacts ?T (Some [?fb, ?fa]) None = Inr ?r"
    by code_simp
  have ps: "parsed_infos (Some [?fb, ?fa]) = [?ia, ?ib]"
    by code_simp
  have ma: "?fa \<in> set [?fb, ?fa]" and mb: "?fb \<in> set [?fb, ?fa]"
    by simp_all
  have ja: "endswith (path_name ?fa) ''.json''" and jb: "endswith (path_name ?fb) ''.json''"
    by code_simp+
  have lt: "path_name ?fa < path_name ?fb"
    by code_simp
  have pa: "parse_fhir_resource ?fa = Some ?ia" and pb: "parse_fhir_resource ?fb = Some ?ib"
    by code_simp+
  have t: "type_of ?ia = type_of ?ib" and i: "id_of ?ia = id_of ?ib"
    by (simp_all add: type_of_def id_of_def)
  from duplicate_ids_share_a_page [OF e ma mb ja jb lt pa pb t i]
  have "resource_count ?r = length (parsed_infos (Some [?fb, ?fa]))"
    and "card (fst ` set (resource_pages ?T (resources_by_type ?r))) < resource_count ?r"
    by blast+
  then have c: "resource_count ?r = 2"
    and d: "card (fst ` set (resource_pages ?T [(''Patient'', [?ia, ?ib])])) < 2"
    unfolding ps by simp_all
  have w1: "apply_ops
        [Mkdir [], WriteText [''index.page.md''] artifacts_index_body,
         Mkdir [''patient''],
         WriteText [''patient'', ''p1.page.md''] ''url=http://example.org/p1''] []
       = Inr [Dir ''artifacts''
               [File ''index.page.md'' (Bytes artifacts_index_body),
                Dir ''patient'' [File ''p1.page.md'' (Bytes ''url=http://example.org/p1'')]]]"
    by code_simp
  have w2: "apply_ops
        [Mkdir [], WriteText [''index.page.md''] artifacts_index_body,
         Mkdir [''patient''],
         WriteText [''patient'', ''p1.page.md''] ''url=http://example.org/p1'',
         WriteText [''patient'', ''p1.page.md''] ''url=''] []
       = Inr [Dir ''artifacts''
               [File ''index.page.md'' (Bytes artifacts_index_body),
                Dir ''patient'' [File ''p1.page.md'' (Bytes ''url='')]]]"
    by code_simp
  from e c d w1 w2 show ?thesis
    by (simp only: simp_thms)
qed

section \<open>The resource builder: proofs\<close>

text \<open>
  Claim C8 (a defect of the code). The comment in \<open>_extract_human_name\<close> says that the
  first entry of a list of HumanName is picked, as the claim does. The loop returns only
  under its tests, so a first entry without text and name parts is passed over: for the
  name \<^verbatim>\<open>[{"use": "official"}, {"text": "Bob"}]\<close> the second entry gives \<open>Bob\<close>, whereas
  the first entry yields nothing and the claim asks for the title-cased id \<open>Pat 1\<close>.
\<close>

theorem later_human_name_wins:
  "extract_human_name (JArr [JObj [(''use'', JStr ''official'')], JObj [(''text'', JStr ''Bob'')]])
     = Some ''Bob''
   \<and> first_element_wins [JObj [(''use'', JStr ''official'')], JObj [(''text'', JStr ''Bob'')]] = None
   \<and> resolve_name (JArr [JObj [(''use'', JStr ''official'')], JObj [(''text'', JStr ''Bob'')]])
         (JStr ''pat-1'') = Some ''Bob''
   \<and> title_of_id (JStr ''pat-1'') = Some ''Pat 1''"
  by code_simp

lemma dict_get_map_of:
  assumes "map_of d k = Some v"
  shows "dict_get d k = v"
  using assms by (simp add: dict_get_def dict_get_default_def)

lemma blank_status:
  assumes "s \<noteq> []"
  shows "blank (JStr s) = (strip s = [])"
  using assms by (simp add: blank_def)

lemma filter_required_fields:
  assumes "\<not> blank (dict_get d ''id'')" and "\<not> blank (dict_get d ''fhirVersion'')"
    and "\<not> blank (dict_get d ''canonical'')"
  shows "filter (\<lambda>field. blank (dict_get d field)) required_fields
           = (if blank (dict_get d ''status'') then [''status''] else [])"
  using assms by (simp add: required_fields_def)

lemma empty_not_valid_status: "[] \<notin> set valid_statuses"
  by (simp add: valid_statuses_def)

lemma validate_errors:
  assumes "map_of d ''status'' = Some (JStr s)" and "s \<noteq> []"
    and "\<not> blank (dict_get d ''id'')" and "\<not> blank (dict_get d ''fhirVersion'')"
    and "\<not> blank (dict_get d ''canonical'')"
  shows "snd (validate_guide_yaml_for_ig_resource (Loaded (JObj d)))
           = (if strip s = [] then [missing_field_error ''status''] else [])
             @ (if lower (strip s) \<notin> set valid_statuses
                then [invalid_status_error (lower (strip s))] else [])"
    and "fst (validate_guide_yaml_for_ig_resource (Loaded (JObj d)))
           = (snd (validate_guide_yaml_for_ig_resource (Loaded (JObj d))) = [])"
proof -
  from assms(1) have ne: "d \<noteq> []"
    by auto
  have st: "dict_get d ''status'' = JStr s"
    using assms(1) by (rule dict_get_map_of)
  show "snd (validate_guide_yaml_for_ig_resource (Loaded (JObj d)))
           = (if strip s = [] then [missing_field_error ''status''] else [])
             @ (if lower (strip s) \<notin> set valid_statuses
                then [invalid_status_error (lower (strip s))] else [])"
    using ne assms(2)
    by (simp add: validate_guide_yaml_for_ig_resource_def Let_def
        filter_required_fields [OF assms(3-5)] st blank_status)
  show "fst (validate_guide_yaml_for_ig_resource (Loaded (JObj d)))
           = (snd (validate_guide_yaml_for_ig_resource (Loaded (JObj d))) = [])"
    using ne by (simp add: validate_guide_yaml_for_ig_resource_def Let_def)
qed

lemma field_value_str:
  assumes "map_of d k = Some (JStr s)" and "strip s \<noteq> []"
  shows "field_value d k = Some (strip s)"
proof -
  from assms(2) have "s \<noteq> []"
    by (auto simp: strip_def lstrip_def rstrip_def)
  with assms show ?thesis
    by (simp add: field_value_def dict_get_map_of Let_def)
qed

lemma field_value_not_blank:
  assumes "\<not> blank (dict_get d k)"
  shows "\<exists>v. field_value d k = Some v"
  using assms by (simp add: field_value_def blank_def Let_def)


lemma load_config_complete:
  assumes "map_of d ''status'' = Some (JStr s)" and "strip s \<noteq> []"
    and "\<not> blank (dict_get d ''id'')" and "\<not> blank (dict_get d ''fhirVersion'')"
    and "\<not> blank (dict_get d ''canonical'')"
  shows "\<exists>cfg i fv c. load_config (Loaded (JObj d)) = ([], Some cfg)
           \<and> cfg ''status'' = Some (lower (strip s))
           \<and> cfg ''id'' = Some i \<and> cfg ''fhirVersion'' = Some fv \<and> cfg ''canonical'' = Some c"
proof -
  from assms(1) have ne: "d \<noteq> []"
    by auto
  have st: "field_value d ''status'' = Some (strip s)"
    using assms(1,2) by (rule field_value_str)
  from assms(3-5) obtain i fv c where
    v: "field_value d ''id'' = Some i" "field_value d ''fhirVersion'' = Some fv"
       "field_value d ''canonical'' = Some c"
    by (blast dest: field_value_not_blank)
  have "filter (\<lambda>field. field_value d field = None) required_fields = []"
    by (simp add: required_fields_def st v)
  then show ?thesis
    using ne st v by (simp add: load_config_def Let_def required_fields_def)
qed

text \<open>
  Claim C5. Let \<open>guide.yaml\<close> hold a non-empty string as \<open>status\<close> and non-blank \<open>id\<close>,
  \<open>fhirVersion\<close> and \<open>canonical\<close>. The pre-flight check accepts exactly when the
  trimmed, lowercased status is one of draft, active, retired, unknown. Otherwise its
  errors hold the message that quotes the (trimmed, lowercased) invalid value and lists
  the four valid values. When the trimmed status is not empty, \<open>_load_config\<close> records
  no error and the document built from its configuration has the trimmed, lowercased
  value as \<open>status\<close>.
\<close>

theorem status_preflight:
  assumes "map_of d ''status'' = Some (JStr s)" and "s \<noteq> []"
    and "\<not> blank (dict_get d ''id'')" and "\<not> blank (dict_get d ''fhirVersion'')"
    and "\<not> blank (dict_get d ''canonical'')"
  shows "fst (validate_guide_yaml_for_ig_resource (Loaded (JObj d)))
           = (lower (strip s) \<in> set valid_statuses)
       \<and> (lower (strip s) \<notin> set valid_statuses \<longrightarrow>
            invalid_status_error (lower (strip s))
              \<in> set (snd (validate_guide_yaml_for_ig_resource (Loaded (JObj d)))))
       \<and> invalid_status_error (lower (strip s))
            = ''Invalid status value '' @ [CHR 0x27] @ lower (strip s) @ [CHR 0x27]
              @ ''. Must be one of: draft, active, retired, unknown''
       \<and> (strip s \<noteq> [] \<longrightarrow>
            (\<exists>cfg ig. load_config (Loaded (JObj d)) = ([], Some cfg)
               \<and> create_ig_resource_r4 cfg resources root_page = Some ig
               \<and> ig_status ig = lower (strip s)))"
proof -
  note v = validate_errors [OF assms]
  have accept: "fst (validate_guide_yaml_for_ig_resource (Loaded (JObj d)))
           = (lower (strip s) \<in> set valid_statuses)"
  proof (cases "strip s = []")
    case True
    then have "lower (strip s) \<notin> set valid_statuses"
      using empty_not_valid_status by (simp add: lower_def)
    with True show ?thesis
      by (simp add: v)
  next
    case False
    then show ?thesis
      by (simp add: v)
  qed
  have named: "invalid_status_error (lower (strip s))
              \<in> set (snd (validate_guide_yaml_for_ig_resource (Loaded (JObj d))))"
    if "lower (strip s) \<notin> set valid_statuses"
    using that by (simp add: v(1))
  have emitted: "\<exists>cfg ig. load_config (Loaded (JObj d)) = ([], Some cfg)
               \<and> create_ig_resource_r4 cfg resources root_page = Some ig
               \<and> ig_status ig = lower (strip s)"
    if "strip s \<noteq> []"
  proof -
    from load_config_complete [OF assms(1) that assms(3-5)] obtain cfg i fv c where
      l: "load_config (Loaded (JObj d)) = ([], Some cfg)"
      and c: "cfg ''status'' = Some (lower (strip s))" "cfg ''id'' = Some i"
        "cfg ''fhirVersion'' = Some fv" "cfg ''canonical'' = Some c"
      by blast
    from c obtain ig where "create_ig_resource_r4 cfg resources root_page = Some ig"
      and "ig_status ig = lower (strip s)"
      by (simp add: create_ig_resource_r4_def)
    with l show ?thesis
      by blast
  qed
  from accept named emitted show ?thesis
    by (simp add: invalid_status_error_def)
qed

theorem status_preflight_witness:
  "fst (validate_guide_yaml_for_ig_resource
          (Loaded (JObj [(''id'', JStr ''my.ig''), (''status'', JStr ''Active''),
                         (''fhirVersion'', JStr ''4.0.1''),
                         (''canonical'', JStr ''http://example.org/fhir'')])))
   \<and> (\<exists>cfg ig.
         load_config
           (Loaded (JObj [(''id'', JStr ''my.ig''), (''status'', JStr ''Active''),
                          (''fhirVersion'', JStr ''4.0.1''),
                          (''canonical'', JStr ''http://example.org/fhir'')])) = ([], Some cfg)
       \<and> create_ig_resource_r4 cfg [] (PageNode ''Home'' ''Home'' ''generated'' []) = Some ig
       \<and> ig_status ig = ''active'')
   \<and> \<not> fst (validate_guide_yaml_for_ig_resource
          (Loaded (JObj [(''id'', JStr ''my.ig''), (''status'', JStr ''pending''),
                         (''fhirVersion'', JStr ''4.0.1''),
                         (''canonical'', JStr ''http://example.org/fhir'')])))
   \<and> ''Invalid status value '' @ [CHR 0x27] @ ''pending'' @ [CHR 0x27]
         @ ''. Must be one of: draft, active, retired, unknown''
       \<in> set (snd (validate_guide_yaml_for_ig_resource
          (Loaded (JObj [(''id'', JStr ''my.ig''), (''status'', JStr ''pending''),
                         (''fhirVersion'', JStr ''4.0.1''),
                         (''canonical'', JStr ''http://example.org/fhir'')]))))"
proof -
  let ?a = "[(''id'', JStr ''my.ig''), (''status'', JStr ''Active''),
             (''fhirVersion'', JStr ''4.0.1''), (''canonical'', JStr ''http://example.org/fhir'')]"
  let ?p = "[(''id'', JStr ''my.ig''), (''status'', JStr ''pending''),
             (''fhirVersion'', JStr ''4.0.1''), (''canonical'', JStr ''http://example.org/fhir'')]"
  have sa: "map_of ?a ''status'' = Some (JStr ''Active'')" and na: "''Active'' \<noteq> []"
    and sp: "map_of ?p ''status'' = Some (JStr ''pending'')" and np: "''pending'' \<noteq> []"
    by simp_all
  have ba: "\<not> blank (dict_get ?a ''id'')" "\<not> blank (dict_get ?a ''fhirVersion'')"
    "\<not> blank (dict_get ?a ''canonical'')"
    and bp: "\<not> blank (dict_get ?p ''id'')" "\<not> blank (dict_get ?p ''fhirVersion'')"
    "\<not> blank (dict_get ?p ''canonical'')"
    by code_simp+
  have la: "lower (strip ''Active'') = ''active''" and lp: "lower (strip ''pending'') = ''pending''"
    and ta: "strip ''Active'' \<noteq> []"
    by code_simp+
  have va: "''active'' \<in> set valid_statuses" and vp: "''pending'' \<notin> set valid_statuses"
    by (simp_all add: valid_statuses_def)
  note a = status_preflight [OF sa na ba, of "[]" "PageNode ''Home'' ''Home'' ''generated'' []", unfolded la]
  note p = status_preflight [OF sp np bp, of "[]" "PageNode ''Home'' ''Home'' ''generated'' []", unfolded lp]
  from a va ta have "fst (validate_guide_yaml_for_ig_resource (Loaded (JObj ?a)))"
    and "\<exists>cfg ig. load_config (Loaded (JObj ?a)) = ([], Some cfg)
       \<and> create_ig_resource_r4 cfg [] (PageNode ''Home'' ''Home'' ''generated'' []) = Some ig
       \<and> ig_status ig = ''active''"
    by blast+
  moreover from p vp have "\<not> fst (validate_guide_yaml_for_ig_resource (Loaded (JObj ?p)))"
    and "''Invalid status value '' @ [CHR 0x27] @ ''pending'' @ [CHR 0x27]
         @ ''. Must be one of: draft, active, retired, unknown''
       \<in> set (snd (validate_guide_yaml_for_ig_resource (Loaded (JObj ?p))))"
    by metis+
  ultimately show ?thesis
    by (simp only: simp_thms)
qed

section \<open>TOC files of the generator: proofs\<close>

lemma dirs_paths_nonempty:
  "(p, ch) \<in> set (dirs_of_node q x) \<Longrightarrow> p \<noteq> []"
  "(p, ch) \<in> set (dirs_of_nodes q xs) \<Longrightarrow> p \<noteq> []"
  by (induction q x and q xs rule: dirs_of_node_dirs_of_nodes.induct) auto

lemma toc_loop_count:
  assumes "toc_loop ds n ws = Inr (n', ws')"
    and "\<forall>(p, items)\<in>set ds. p \<noteq> []"
  shows "\<exists>new. ws' = ws @ new \<and> n' = n + length new \<and> (\<forall>(p, es)\<in>set new. 1 < length p)"
  using assms
proof (induction ds n ws rule: toc_loop.induct)
  case (1 toc_count tocs)
  then show ?case by simp
next
  case (2 current_dir items rest toc_count tocs)
  from "2.prems"(2) have ne: "current_dir \<noteq> []" and rest: "\<forall>(p, items)\<in>set rest. p \<noteq> []"
    by auto
  show ?case
  proof (cases "(current_dir \<noteq> [] \<and> last current_dir = ''pagetemplates'')
                \<or> take 1 current_dir = [''artifacts'']
                \<or> generate_toc_for_directory items = []")
    case True
    then have "toc_loop rest toc_count tocs = Inr (n', ws')"
      using "2.prems"(1) by (auto simp: Let_def split: if_splits)
    with True rest "2.IH"(1,2,4) show ?thesis
      by (auto simp: Let_def split: if_splits)
  next
    case False
    then have step: "toc_loop rest (toc_count + 1) (tocs @ [(''Home'' # current_dir, generate_toc_for_directory items)])
        = Inr (n', ws')"
      using "2.prems"(1) by (auto simp: Let_def split: if_splits)
    from False have "\<not> toc_yaml_is_dir items"
      using "2.prems"(1) by (auto simp: Let_def split: if_splits)
    with False step rest "2.IH"(3) [OF _ _ refl]
    obtain new where new: "ws' = (tocs @ [(''Home'' # current_dir, generate_toc_for_directory items)]) @ new"
      "n' = toc_count + 1 + length new" "\<forall>(p, es)\<in>set new. 1 < length p"
      by (auto simp: Let_def)
    let ?new = "(''Home'' # current_dir, generate_toc_for_directory items) # new"
    have "ws' = tocs @ ?new" "n' = toc_count + length ?new"
      using new by simp_all
    moreover have "\<forall>(p, es)\<in>set ?new. 1 < length p"
      using new(3) ne by auto
    ultimately show ?thesis by blast
  qed
qed


lemma generate_toc_files_shape:
  assumes "generate_toc_files guide_config home = Inr r"
  shows "\<exists>home_toc new.
           generate_home_toc guide_config home = Inr home_toc
         \<and> tocs_written r
             = [([], [\<lparr>name = ''Home'', filename = ''Home''\<rparr>])]
               @ (case home_toc of Some es \<Rightarrow> [([''Home''], es)] | None \<Rightarrow> [])
               @ new
         \<and> toc_count r = 2 + length new
         \<and> (\<forall>(p, es)\<in>set new. 1 < length p)"
proof -
  from assms obtain home_toc where h: "generate_home_toc guide_config home = Inr home_toc"
    by (auto simp: generate_toc_files_def split: sum.splits)
  let ?written = "[([], [\<lparr>name = ''Home'', filename = ''Home''\<rparr>])]
                   @ (case home_toc of Some es \<Rightarrow> [([''Home''], es)] | None \<Rightarrow> [])"
  from assms h obtain n tocs where
    l: "toc_loop (sort_key fst (dirs_of_nodes [] home)) 2 ?written = Inr (n, tocs)"
    and r: "r = \<lparr>toc_count = n, tocs_written = tocs\<rparr>"
    by (auto simp: generate_toc_files_def Let_def split: sum.splits)
  have "\<forall>(p, items)\<in>set (sort_key fst (dirs_of_nodes [] home)). p \<noteq> []"
    using dirs_paths_nonempty(2) by auto
  from toc_loop_count [OF l this] obtain new where
    "tocs = ?written @ new" "n = 2 + length new" "\<forall>(p, es)\<in>set new. 1 < length p"
    by blast
  with h r show ?thesis
    by auto
qed

lemma home_toc_unresolved:
  assumes "generate_home_toc guide_config home = Inr home_toc"
    and "dict_get guide_config ''menu'' = JObj menu"
    and "\<forall>item\<in>set menu. home_entry home item = None"
  shows "home_toc = None"
proof -
  from assms(3) have "List.map_filter (home_entry home) menu = []"
    by (induction menu) (simp_all add: List.map_filter_simps)
  with assms(1,2) show ?thesis
    by (auto simp: generate_home_toc_def Let_def split: if_splits)
qed

text \<open>
  Claim C10. Whenever \<open>_generate_toc_files\<close> returns, the count it returns is 2 plus the
  number of TOC files it wrote for subdirectories of \<open>Home\<close>: the root TOC and the
  \<open>Home\<close> TOC are counted without a test. When the configuration has a menu mapping of
  which no entry resolves to an existing target, no \<open>Home/toc.yaml\<close> is written, and the
  count is larger than the number of TOC files written.
\<close>

theorem toc_files_generated_count:
  assumes "generate_toc_files guide_config home = Inr r"
  shows "toc_count r = 2 + length (filter (\<lambda>(p, es). 1 < length p) (tocs_written r))
       \<and> (\<forall>menu. dict_get guide_config ''menu'' = JObj menu
                   \<and> (\<forall>item\<in>set menu. home_entry home item = None)
            \<longrightarrow> [''Home''] \<notin> fst ` set (tocs_written r)
                \<and> length (tocs_written r) < toc_count r)"
proof -
  from generate_toc_files_shape [OF assms] obtain home_toc new where
    h: "generate_home_toc guide_config home = Inr home_toc"
    and w: "tocs_written r
             = [([], [\<lparr>name = ''Home'', filename = ''Home''\<rparr>])]
               @ (case home_toc of Some es \<Rightarrow> [([''Home''], es)] | None \<Rightarrow> [])
               @ new"
    and c: "toc_count r = 2 + length new"
    and n: "\<forall>(p, es)\<in>set new. 1 < length p"
    by blast
  from n have f: "filter (\<lambda>(p, es). 1 < length p) new = new"
    by (auto simp: filter_id_conv)
  have "filter (\<lambda>(p, es). 1 < length p) (tocs_written r) = new"
    unfolding w using f by (cases home_toc) simp_all
  with c have first: "toc_count r = 2 + length (filter (\<lambda>(p, es). 1 < length p) (tocs_written r))"
    by simp
  have second: "[''Home''] \<notin> fst ` set (tocs_written r) \<and> length (tocs_written r) < toc_count r"
    if "dict_get guide_config ''menu'' = JObj menu"
      and "\<forall>item\<in>set menu. home_entry home item = None" for menu
  proof -
    from home_toc_unresolved [OF h that] have "home_toc = None" .
    with w have w': "tocs_written r = ([], [\<lparr>name = ''Home'', filename = ''Home''\<rparr>]) # new"
      by simp
    from n have "[''Home''] \<notin> fst ` set new"
      by force
    with w' c show ?thesis
      by simp
  qed
  from first second show ?thesis
    by blast
qed

theorem toc_files_generated_count_witness:
  "generate_toc_files [(''menu'', JObj [(''Guide'', JStr ''guide.md'')])]
       [File ''index.page.md'' (Bytes []), Dir ''docs'' [File ''a.page.md'' (Bytes [])]]
     = Inr \<lparr>toc_count = 3,
            tocs_written =
              [([], [\<lparr>name = ''Home'', filename = ''Home''\<rparr>]),
               ([''Home'', ''docs''], [\<lparr>name = ''A'', filename = ''a.page.md''\<rparr>])]\<rparr>
   \<and> [''Home''] \<notin> fst ` set [([], [\<lparr>name = ''Home'', filename = ''Home''\<rparr>]),
               ([''Home'', ''docs''], [\<lparr>name = ''A'', filename = ''a.page.md''\<rparr>])]
   \<and> length [([], [\<lparr>name = ''Home'', filename = ''Home''\<rparr>]),
               ([''Home'', ''docs''], [\<lparr>name = ''A'', filename = ''a.page.md''\<rparr>])] < (3::nat)"
proof -
  let ?cfg = "[(''menu'', JObj [(''Guide'', JStr ''guide.md'')])]"
  let ?home = "[File ''index.page.md'' (Bytes []), Dir ''docs'' [File ''a.page.md'' (Bytes [])]]"
  let ?tocs = "[([], [\<lparr>name = ''Home'', filename = ''Home''\<rparr>]),
               ([''Home'', ''docs''], [\<lparr>name = ''A'', filename = ''a.page.md''\<rparr>])]"
  let ?r = "\<lparr>toc_count = 3, tocs_written = ?tocs\<rparr>"
  have e: "generate_toc_files ?cfg ?home = Inr ?r"
    by code_simp
  have m: "dict_get ?cfg ''menu'' = JObj [(''Guide'', JStr ''guide.md'')]"
    by code_simp
  have u: "home_entry ?home (''Guide'', JStr ''guide.md'') = None"
    by code_simp
  from toc_files_generated_count [OF e] m u
  have "[''Home''] \<notin> fst ` set (tocs_written ?r) \<and> length (tocs_written ?r) < toc_count ?r"
    by simp
  with e show ?thesis
    by simp
qed

text \<open>
  Claim C3 (a defect of the code). The page \<open>pages/Intro.MD\<close> is renamed to
  \<open>Home/intro.page.md\<close>. The menu entry \<open>Intro: Intro.MD\<close> passes the test on the
  lowercased value, but \<open>replace(".md", ".page.md")\<close> leaves \<open>Intro.MD\<close> as it is, no
  such file exists, and the Home TOC gets no entry although the generated page exists.
  The entry \<open>About: About.md\<close> looks for \<open>About.page.md\<close>, while the page generated
  from \<open>pages/About.md\<close> is \<open>about.page.md\<close>.
\<close>

theorem home_toc_misses_renamed_page:
  "transform_pages (Some [File ''Intro.MD'' (Bytes ''# Intro''), File ''About.md'' (Bytes ''# About'')]) []
     = Inr ([File ''intro.page.md'' (Bytes ''# Intro''), File ''about.page.md'' (Bytes ''# About'')], 2)
   \<and> page_output_name ''Intro.MD'' = ''intro.page.md''
   \<and> page_output_name ''About.md'' = ''about.page.md''
   \<and> generate_home_toc [(''menu'', JObj [(''Intro'', JStr ''Intro.MD''), (''About'', JStr ''About.md'')])]
         [File ''intro.page.md'' (Bytes ''# Intro''), File ''about.page.md'' (Bytes ''# About'')]
       = Inr None"
  by code_simp


section \<open>A second run of the generator: proofs\<close>

lemma lookup_remove_child: "lookup (remove_child n xs) n = None"
  by (induction xs) auto

lemma lookup_append:
  "lookup (xs @ ys) n = (case lookup xs n of Some x \<Rightarrow> Some x | None \<Rightarrow> lookup ys n)"
  by (induction xs) auto

lemma remove_child_absent:
  assumes "lookup xs n = None"
  shows "remove_child n xs = xs"
  using assms by (induction xs) (auto split: if_splits)

lemma remove_child_append:
  "remove_child n (xs @ ys) = remove_child n xs @ remove_child n ys"
  by (induction xs) auto

lemma replace_child_last:
  assumes "lookup xs n = None" and "node_name y = n"
  shows "replace_child y (xs @ [Dir n g]) = xs @ [y]"
  using assms by (induction xs) (auto split: if_splits)

lemma in_dir_fresh:
  assumes "lookup xs n = None"
  shows "in_dir n step (xs @ [Dir n g]) = and_then (step g) (\<lambda>(g', v). Inr (xs @ [Dir n g'], v))"
  using assms
  by (auto simp: in_dir_def lookup_append and_then_def replace_child_last split: sum.splits)

lemma setup_output_directory_Inr:
  assumes "setup_output_directory n out = Inr out1"
  shows "out1 = remove_child n out @ [Dir n [Dir ''Home'' []]]"
    and "plain_name n"
    and "\<forall>f c. lookup out n \<noteq> Some (File f c)"
  using assms
  by (auto simp: setup_output_directory_def split: if_splits option.splits fnode.splits)

lemma setup_output_directory_again:
  assumes "plain_name n"
  shows "setup_output_directory n (remove_child n out @ [Dir n g])
           = Inr (remove_child n out @ [Dir n [Dir ''Home'' []]])"
proof -
  have "lookup (remove_child n out @ [Dir n g]) n = Some (Dir n g)"
    by (simp add: lookup_append lookup_remove_child)
  moreover have "remove_child n (remove_child n out @ [Dir n g]) = remove_child n out"
    by (simp add: remove_child_append remove_child_absent lookup_remove_child)
  ultimately show ?thesis
    using assms by (simp add: setup_output_directory_def)
qed

lemma and_then_Inr:
  assumes "and_then r f = Inr y"
  obtains x where "r = Inr x" and "f x = Inr y"
  using assms by (cases r) (simp_all add: and_then_def)

text \<open>
  Claim C7. When a run of the generator on an input folder and an output root returns,
  a second run on the same input (with the same parsers, the output root being no part
  of the input) and the output root that the first run left returns the same result and
  leaves the output root as it is: the guide's directory is removed and rebuilt from the
  input alone, and nothing outside it is touched.
\<close>

theorem generate_twice:
  assumes "generate yaml_load json_load skip_validation input output_dir = Inr (output_dir', result)"
  shows "generate yaml_load json_load skip_validation input output_dir' = Inr (output_dir', result)"
proof -
  let ?prelude = "\<lambda>k. and_then (if skip_validation then Inr [] else validate_input yaml_load input) (\<lambda>warnings.
     and_then (load_guide_config yaml_load input) (\<lambda>(guide_config, guide_name).
     and_then (load_variables_config yaml_load input) (\<lambda>u.
     and_then (load_templates input) (\<lambda>templates. k warnings guide_config guide_name templates))))"
  from assms obtain warnings where
    w: "(if skip_validation then Inr [] else validate_input yaml_load input) = Inr warnings"
    and 1: "and_then (load_guide_config yaml_load input) (\<lambda>(guide_config, guide_name).
     and_then (load_variables_config yaml_load input) (\<lambda>u.
     and_then (load_templates input) (\<lambda>templates.
     and_then (setup_output_directory guide_name output_dir) (\<lambda>out.
     in_dir guide_name
       (build_guide json_load guide_config guide_name templates warnings input) out))))
       = Inr (output_dir', result)"
    unfolding generate_def by (rule and_then_Inr)
  from 1 obtain cn where c: "load_guide_config yaml_load input = Inr cn"
    and 2: "(case cn of (guide_config, guide_name) \<Rightarrow>
     and_then (load_variables_config yaml_load input) (\<lambda>u.
     and_then (load_templates input) (\<lambda>templates.
     and_then (setup_output_directory guide_name output_dir) (\<lambda>out.
     in_dir guide_name
       (build_guide json_load guide_config guide_name templates warnings input) out))))
       = Inr (output_dir', result)"
    by (rule and_then_Inr)
  obtain guide_config guide_name where cn: "cn = (guide_config, guide_name)"
    by (cases cn)
  from 2 cn obtain u where v: "load_variables_config yaml_load input = Inr u"
    and 3: "and_then (load_templates input) (\<lambda>templates.
     and_then (setup_output_directory guide_name output_dir) (\<lambda>out.
     in_dir guide_name
       (build_guide json_load guide_config guide_name templates warnings input) out))
       = Inr (output_dir', result)"
    by (auto elim: and_then_Inr)
  from 3 obtain templates where t: "load_templates input = Inr templates"
    and 4: "and_then (setup_output_directory guide_name output_dir) (\<lambda>out.
     in_dir guide_name
       (build_guide json_load guide_config guide_name templates warnings input) out)
       = Inr (output_dir', result)"
    by (rule and_then_Inr)
  let ?build = "build_guide json_load guide_config guide_name templates warnings input"
  from 4 obtain out1 where s: "setup_output_directory guide_name output_dir = Inr out1"
    and 5: "in_dir guide_name ?build out1 = Inr (output_dir', result)"
    by (rule and_then_Inr)
  let ?rest = "remove_child guide_name output_dir"
  note s' = setup_output_directory_Inr [OF s]
  have absent: "lookup ?rest guide_name = None"
    by (rule lookup_remove_child)
  from 5 have "and_then (?build [Dir ''Home'' []]) (\<lambda>(g', v). Inr (?rest @ [Dir guide_name g'], v))
      = Inr (output_dir', result)"
    unfolding s'(1) in_dir_fresh [OF absent] .
  then obtain g' where b: "?build [Dir ''Home'' []] = Inr (g', result)"
    and out': "output_dir' = ?rest @ [Dir guide_name g']"
    by (cases "?build [Dir ''Home'' []]") (auto simp: and_then_def)
  have again: "setup_output_directory guide_name output_dir' = Inr out1"
    unfolding out' s'(1) using s'(2) by (rule setup_output_directory_again)
  show ?thesis
    unfolding generate_def
    by (simp add: w c cn v t again 5 and_then_def)
qed


theorem generate_twice_witness:
  "generate
     (\<lambda>c. Loaded (JObj [(''title'', JStr ''Guide''), (''url-key'', JStr ''my-ig''),
                         (''style-name'', JStr ''plain'')]))
     (\<lambda>c. Some (JObj [(''resourceType'', JStr ''Patient''), (''id'', JStr ''p1'')]))
     False
     [File ''guide.yaml'' (Bytes ''title: Guide''),
      Dir ''resources'' [File ''p1.json'' (Bytes ''{}'')],
      Dir ''examples'' [],
      Dir ''pages'' [File ''Index.md'' (Bytes ''# Welcome'')],
      Dir ''styles'' [Dir ''plain'' [File ''master.html'' (Bytes []), File ''settings.style'' (Bytes []),
                                     File ''style.css'' (Bytes [])]],
      Dir ''pagetemplates-artifacts'' []]
     [File ''notes.txt'' (Bytes ''keep''),
      Dir ''my-ig''
        [Dir ''Home''
          [File ''index.page.md'' (Bytes ''# Welcome''),
           Dir ''artifacts''
            [File ''index.page.md'' (Bytes artifacts_index_body),
             Dir ''patient''
              [File ''p1.page.md''
                (Bytes ''# p1\<newline>\<newline>*Resource Type: Patient*\<newline>\<newline><!-- No template found for Patient -->\<newline>''),
               File ''toc.yaml'' (Yaml [\<lparr>name = ''p1'', filename = ''p1.page.md''\<rparr>])],
             Dir ''examples'' [],
             File ''toc.yaml''
              (Yaml [\<lparr>name = ''Index'', filename = ''index.page.md''\<rparr>,
                     \<lparr>name = ''Patient'', filename = ''patient''\<rparr>])],
           File ''toc.yaml''
            (Yaml [\<lparr>name = ''Index'', filename = ''index.page.md''\<rparr>,
                   \<lparr>name = ''Artifacts'', filename = ''artifacts''\<rparr>])],
         File ''guide.yaml'' (Bytes ''title: Guide''),
         Dir ''styles''
          [Dir ''plain'' [File ''master.html'' (Bytes []), File ''settings.style'' (Bytes []),
                          File ''style.css'' (Bytes [])]],
         File ''toc.yaml'' (Yaml [\<lparr>name = ''Home'', filename = ''Home''\<rparr>])]]
   = Inr ([File ''notes.txt'' (Bytes ''keep''),
      Dir ''my-ig''
        [Dir ''Home''
          [File ''index.page.md'' (Bytes ''# Welcome''),
           Dir ''artifacts''
            [File ''index.page.md'' (Bytes artifacts_index_body),
             Dir ''patient''
              [File ''p1.page.md''
                (Bytes ''# p1\<newline>\<newline>*Resource Type: Patient*\<newline>\<newline><!-- No template found for Patient -->\<newline>''),
               File ''toc.yaml'' (Yaml [\<lparr>name = ''p1'', filename = ''p1.page.md''\<rparr>])],
             Dir ''examples'' [],
             File ''toc.yaml''
              (Yaml [\<lparr>name = ''Index'', filename = ''index.page.md''\<rparr>,
                     \<lparr>name = ''Patient'', filename = ''patient''\<rparr>])],
           File ''toc.yaml''
            (Yaml [\<lparr>name = ''Index'', filename = ''index.page.md''\<rparr>,
                   \<lparr>name = ''Artifacts'', filename = ''artifacts''\<rparr>])],
         File ''guide.yaml'' (Bytes ''title: Guide''),
         Dir ''styles''
          [Dir ''plain'' [File ''master.html'' (Bytes []), File ''settings.style'' (Bytes []),
                          File ''style.css'' (Bytes [])]],
         File ''toc.yaml'' (Yaml [\<lparr>name = ''Home'', filename = ''Home''\<rparr>])]],
      \<lparr>res_success = True, res_guide_name = ''my-ig'', res_resource_count = 1,
       res_example_count = 0, res_page_count = 1, res_toc_files_generated = 2,
       res_warnings = []\<rparr>)"
proof -
  let ?yl = "\<lambda>c. Loaded (JObj [(''title'', JStr ''Guide''), (''url-key'', JStr ''my-ig''),
                         (''style-name'', JStr ''plain'')])"
  let ?jl = "\<lambda>c. Some (JObj [(''resourceType'', JStr ''Patient''), (''id'', JStr ''p1'')])"
  let ?input = "[File ''guide.yaml'' (Bytes ''title: Guide''),
      Dir ''resources'' [File ''p1.json'' (Bytes ''{}'')],
      Dir ''examples'' [],
      Dir ''pages'' [File ''Index.md'' (Bytes ''# Welcome'')],
      Dir ''styles'' [Dir ''plain'' [File ''master.html'' (Bytes []), File ''settings.style'' (Bytes []),
                                     File ''style.css'' (Bytes [])]],
      Dir ''pagetemplates-artifacts'' []]"
  let ?out = "[File ''notes.txt'' (Bytes ''keep''),
      Dir ''my-ig''
        [Dir ''Home''
          [File ''index.page.md'' (Bytes ''# Welcome''),
           Dir ''artifacts''
            [File ''index.page.md'' (Bytes artifacts_index_body),
             Dir ''patient''
              [File ''p1.page.md''
                (Bytes ''# p1\<newline>\<newline>*Resource Type: Patient*\<newline>\<newline><!-- No template found for Patient -->\<newline>''),
               File ''toc.yaml'' (Yaml [\<lparr>name = ''p1'', filename = ''p1.page.md''\<rparr>])],
             Dir ''examples'' [],
             File ''toc.yaml''
              (Yaml [\<lparr>name = ''Index'', filename = ''index.page.md''\<rparr>,
                     \<lparr>name = ''Patient'', filename = ''patient''\<rparr>])],
           File ''toc.yaml''
            (Yaml [\<lparr>name = ''Index'', filename = ''index.page.md''\<rparr>,
                   \<lparr>name = ''Artifacts'', filename = ''artifacts''\<rparr>])],
         File ''guide.yaml'' (Bytes ''title: Guide''),
         Dir ''styles''
          [Dir ''plain'' [File ''master.html'' (Bytes []), File ''settings.style'' (Bytes []),
                          File ''style.css'' (Bytes [])]],
         File ''toc.yaml'' (Yaml [\<lparr>name = ''Home'', filename = ''Home''\<rparr>])]]"
  let ?res = "\<lparr>res_success = True, res_guide_name = ''my-ig'', res_resource_count = 1,
       res_example_count = 0, res_page_count = 1, res_toc_files_generated = 2,
       res_warnings = []\<rparr>"
  have first: "generate ?yl ?jl False ?input
      [Dir ''my-ig'' [File ''stale.txt'' (Bytes ''old'')], File ''notes.txt'' (Bytes ''keep'')]
      = Inr (?out, ?res)"
    by code_simp
  show ?thesis
    using first by (rule generate_twice)
qed

end
